theory Spec2Isabelle
  imports Complex_Main "HOL-Library.Log_Nat"
begin

section \<open>JavaScript values\<close>

text \<open>
  The program is TypeScript/JavaScript. Its two normalisers (the gateway's in
  \<^verbatim>\<open>server/index.mjs\<close> and the client's \<^verbatim>\<open>normalizeUserData\<close>) read values that
  come out of \<^verbatim>\<open>JSON.parse\<close>, so they are modelled over a datatype of JavaScript
  values. A string is its list of UTF-16 code units (\<^verbatim>\<open>length\<close>, \<^verbatim>\<open>slice\<close> and
  \<^verbatim>\<open>trim\<close> count code units); \<open>str\<close> turns an ASCII literal into one. A number is
  NaN, an infinity or a finite value; finite values are kept as reals (every double is
  one), and the two zeros are not told apart (nothing below can observe the sign).
  An object is the list of its own properties; values are trees, as \<^verbatim>\<open>JSON.parse\<close>
  builds them, so two distinct positions never hold the same object.
\<close>

type_synonym jsstring = "nat list"

definition str :: "string \<Rightarrow> jsstring" where
  "str s = map of_char s"

datatype jsnum = NaN | PosInf | NegInf | Fin real

datatype jsval =
    JUndefined
  | JNull
  | JBool bool
  | JNum jsnum
  | JStr jsstring
  | JArr "jsval list"
  | JObj "(jsstring \<times> jsval) list"

datatype error = TypeError | HttpError nat jsstring | Error jsstring

definition bindE :: "error + 'a \<Rightarrow> ('a \<Rightarrow> error + 'b) \<Rightarrow> error + 'b" where
  "bindE m f = (case m of Inl e \<Rightarrow> Inl e | Inr x \<Rightarrow> f x)"

text \<open>\<^verbatim>\<open>xs.map(f)\<close> and \<^verbatim>\<open>xs.filter(p)\<close> with a callback that may throw: the first
  exception ends the traversal.\<close>

fun mapE :: "('a \<Rightarrow> error + 'b) \<Rightarrow> 'a list \<Rightarrow> error + 'b list" where
  "mapE f [] = Inr []"
| "mapE f (x # xs) = bindE (f x) (\<lambda>y. bindE (mapE f xs) (\<lambda>ys. Inr (y # ys)))"

fun filterE :: "('a \<Rightarrow> error + bool) \<Rightarrow> 'a list \<Rightarrow> error + 'a list" where
  "filterE p [] = Inr []"
| "filterE p (x # xs) =
     bindE (p x) (\<lambda>b. bindE (filterE p xs) (\<lambda>ys. Inr (if b then x # ys else ys)))"

text \<open>\<^verbatim>\<open>v.k\<close> for a property name \<open>k\<close> that no built-in prototype defines (every
  name read below except \<^verbatim>\<open>length\<close>, which \<open>clampStr\<close> treats on its own): reading a
  property of \<^verbatim>\<open>null\<close> or \<^verbatim>\<open>undefined\<close> throws, a primitive or an array has no such
  property, an object gives its own property or \<^verbatim>\<open>undefined\<close>.\<close>

definition getProp :: "jsval \<Rightarrow> string \<Rightarrow> error + jsval" where
  "getProp v k =
     (case v of
        JUndefined \<Rightarrow> Inl TypeError
      | JNull \<Rightarrow> Inl TypeError
      | JObj kvs \<Rightarrow> (case map_of kvs (str k) of Some x \<Rightarrow> Inr x | None \<Rightarrow> Inr JUndefined)
      | _ \<Rightarrow> Inr JUndefined)"

text \<open>\<^verbatim>\<open>v?.k\<close>: optional chaining gives \<^verbatim>\<open>undefined\<close> on \<^verbatim>\<open>null\<close> and \<^verbatim>\<open>undefined\<close>
  and never throws.\<close>

definition getOpt :: "jsval \<Rightarrow> string \<Rightarrow> jsval" where
  "getOpt v k =
     (case v of
        JObj kvs \<Rightarrow> (case map_of kvs (str k) of Some x \<Rightarrow> x | None \<Rightarrow> JUndefined)
      | _ \<Rightarrow> JUndefined)"

text \<open>\<^verbatim>\<open>a ?? b\<close>.\<close>

definition nullish :: "jsval \<Rightarrow> jsval \<Rightarrow> jsval" where
  "nullish a b = (if a = JUndefined \<or> a = JNull then b else a)"

text \<open>\<^verbatim>\<open>!!v\<close>.\<close>

fun truthy :: "jsval \<Rightarrow> bool" where
  "truthy JUndefined = False"
| "truthy JNull = False"
| "truthy (JBool b) = b"
| "truthy (JNum n) = (n \<noteq> NaN \<and> n \<noteq> Fin 0)"
| "truthy (JStr s) = (s \<noteq> [])"
| "truthy (JArr xs) = True"
| "truthy (JObj kvs) = True"

fun isString :: "jsval \<Rightarrow> bool" where
  "isString (JStr s) = True"
| "isString v = False"

fun isArray :: "jsval \<Rightarrow> bool" where
  "isArray (JArr xs) = True"
| "isArray v = False"

text \<open>\<^verbatim>\<open>typeof v === "object"\<close> holds of objects, arrays and \<^verbatim>\<open>null\<close>.\<close>

fun typeofObject :: "jsval \<Rightarrow> bool" where
  "typeofObject (JObj kvs) = True"
| "typeofObject (JArr xs) = True"
| "typeofObject JNull = True"
| "typeofObject v = False"

fun isPrimitive :: "jsval \<Rightarrow> bool" where
  "isPrimitive (JArr xs) = False"
| "isPrimitive (JObj kvs) = False"
| "isPrimitive v = True"

text \<open>\<^verbatim>\<open>new Set(ids).has(v)\<close> compares with SameValueZero: primitives by value (NaN equals
  itself), objects by identity, and two positions of a tree never hold the same object.\<close>

definition setHas :: "jsval list \<Rightarrow> jsval \<Rightarrow> bool" where
  "setHas ids v \<longleftrightarrow> isPrimitive v \<and> v \<in> set ids"

text \<open>\<^verbatim>\<open>a === b\<close>.\<close>

definition strictEq :: "jsval \<Rightarrow> jsval \<Rightarrow> bool" where
  "strictEq a b \<longleftrightarrow> isPrimitive a \<and> a = b \<and> a \<noteq> JNum NaN"

subsection \<open>Strings\<close>

text \<open>The white space of \<^verbatim>\<open>String.prototype.trim\<close>, of the regular expression class
  \<^verbatim>\<open>\s\<close> and of the numeric string grammar: TAB, LF, VT, FF, CR, SP, NBSP, U+1680,
  U+2000..U+200A, LS, PS, U+202F, U+205F, U+3000 and the byte order mark.\<close>

definition isWhiteSpace :: "nat \<Rightarrow> bool" where
  "isWhiteSpace c \<longleftrightarrow>
     c = 9 \<or> c = 10 \<or> c = 11 \<or> c = 12 \<or> c = 13 \<or> c = 32 \<or> c = 160 \<or> c = 5760 \<or>
     (8192 \<le> c \<and> c \<le> 8202) \<or> c = 8232 \<or> c = 8233 \<or> c = 8239 \<or> c = 8287 \<or>
     c = 12288 \<or> c = 65279"

definition trim :: "jsstring \<Rightarrow> jsstring" where
  "trim s = rev (dropWhile isWhiteSpace (rev (dropWhile isWhiteSpace s)))"

text \<open>\<^verbatim>\<open>String(n)\<close> for a non-negative integer \<open>n\<close> (used by the template
  \<^verbatim>\<open>`q${out.length + 1}`\<close>).\<close>

fun decimal :: "nat \<Rightarrow> jsstring" where
  "decimal n = (if n < 10 then [48 + n] else decimal (n div 10) @ [48 + n mod 10])"

declare decimal.simps [simp del]

text \<open>\<^verbatim>\<open>s.indexOf(c)\<close> and \<^verbatim>\<open>s.lastIndexOf(c)\<close> for a one-unit pattern; \<open>-1\<close> when
  absent.\<close>

fun indexOf :: "jsstring \<Rightarrow> nat \<Rightarrow> int" where
  "indexOf [] c = -1"
| "indexOf (x # xs) c =
     (if x = c then 0 else (let i = indexOf xs c in if i < 0 then -1 else i + 1))"

fun lastIndexOf :: "jsstring \<Rightarrow> nat \<Rightarrow> int" where
  "lastIndexOf [] c = -1"
| "lastIndexOf (x # xs) c =
     (let i = lastIndexOf xs c in if i \<ge> 0 then i + 1 else if x = c then 0 else -1)"

text \<open>\<^verbatim>\<open>s.slice(a, b)\<close> for \<open>0 \<le> a\<close> and \<open>0 \<le> b\<close>.\<close>

definition sliceStr :: "'a list \<Rightarrow> nat \<Rightarrow> nat \<Rightarrow> 'a list" where
  "sliceStr s a b = take (b - a) (drop a s)"

subsection \<open>Numbers\<close>

text \<open>
  \<^verbatim>\<open>Number(s)\<close> of a string \<open>s\<close> (StringToNumber): white space is stripped; the empty
  string is 0; \<^verbatim>\<open>0x\<close>, \<^verbatim>\<open>0o\<close> and \<^verbatim>\<open>0b\<close> literals (unsigned); an optional sign
  followed by \<^verbatim>\<open>Infinity\<close> or by a decimal literal (digits, an optional fraction, an
  optional exponent); every other string is NaN. The mathematical value is rounded to
  the nearest double, ties to even, and overflows to an infinity: \<open>roundToDouble n d\<close>
  rounds the fraction \<open>n / d\<close>.
\<close>

definition isDigit :: "nat \<Rightarrow> bool" where
  "isDigit c \<longleftrightarrow> 48 \<le> c \<and> c \<le> 57"

definition isHexDigit :: "nat \<Rightarrow> bool" where
  "isHexDigit c \<longleftrightarrow> isDigit c \<or> (97 \<le> c \<and> c \<le> 102) \<or> (65 \<le> c \<and> c \<le> 70)"

definition digitVal :: "nat \<Rightarrow> nat" where
  "digitVal c = (if c \<ge> 97 then c - 87 else if c \<ge> 65 then c - 55 else c - 48)"

definition digitsValue :: "nat \<Rightarrow> jsstring \<Rightarrow> nat" where
  "digitsValue base ds = foldl (\<lambda>a c. a * base + digitVal c) 0 ds"

text \<open>\<open>n / d\<close> rounded to the nearest integer, ties to even.\<close>

definition tiesToEven :: "nat \<Rightarrow> nat \<Rightarrow> nat" where
  "tiesToEven n d =
     (let f = n div d; r = n mod d
      in if 2 * r < d then f else if 2 * r > d then f + 1 else if even f then f else f + 1)"

text \<open>The binary exponent \<open>\<lfloor>log\<^sub>2 (n / d)\<rfloor>\<close> of a positive fraction.\<close>

definition binExp :: "nat \<Rightarrow> nat \<Rightarrow> int" where
  "binExp n d =
     (let e = int (floorlog 2 n) - int (floorlog 2 d)
      in if (if e \<ge> 0 then 2 ^ nat e * d \<le> n else d \<le> n * 2 ^ nat (- e)) then e else e - 1)"

definition roundToDouble :: "nat \<Rightarrow> nat \<Rightarrow> jsnum" where
  "roundToDouble n d =
     (if n = 0 then Fin 0
      else
        let e = max (binExp n d) (- 1022);
            k = e - 52;
            m = (if k \<ge> 0 then tiesToEven n (d * 2 ^ nat k) else tiesToEven (n * 2 ^ nat (- k)) d);
            v = (if k \<ge> 0 then real (m * 2 ^ nat k) else real m / 2 ^ nat (- k))
        in if v \<ge> 2 ^ 1024 then PosInf else Fin v)"

fun negate :: "jsnum \<Rightarrow> jsnum" where
  "negate NaN = NaN"
| "negate PosInf = NegInf"
| "negate NegInf = PosInf"
| "negate (Fin r) = Fin (- r)"

text \<open>The exponent part after \<^verbatim>\<open>e\<close> or \<^verbatim>\<open>E\<close>: an optional sign and at least one
  digit, up to the end of the string.\<close>

definition signedInteger :: "jsstring \<Rightarrow> int option" where
  "signedInteger s =
     (let neg = (s \<noteq> [] \<and> hd s = 45);
          ds = (if s \<noteq> [] \<and> (hd s = 43 \<or> hd s = 45) then tl s else s)
      in if ds \<noteq> [] \<and> list_all isDigit ds
         then Some (if neg then - int (digitsValue 10 ds) else int (digitsValue 10 ds))
         else None)"

definition unsignedDecimal :: "jsstring \<Rightarrow> jsnum" where
  "unsignedDecimal s =
     (if s = str ''Infinity'' then PosInf
      else
        let ip = takeWhile isDigit s;
            r1 = dropWhile isDigit s;
            hasDot = (r1 \<noteq> [] \<and> hd r1 = 46);
            fp = (if hasDot then takeWhile isDigit (tl r1) else []);
            r2 = (if hasDot then dropWhile isDigit (tl r1) else r1);
            ex = (if r2 = [] then Some 0
                  else if hd r2 = 101 \<or> hd r2 = 69 then signedInteger (tl r2) else None)
        in if ip = [] \<and> fp = [] then NaN
           else case ex of
                  None \<Rightarrow> NaN
                | Some e \<Rightarrow>
                    let m = digitsValue 10 (ip @ fp); e10 = e - int (length fp)
                    in if e10 \<ge> 0 then roundToDouble (m * 10 ^ nat e10) 1
                       else roundToDouble m (10 ^ nat (- e10)))"

definition prefixedLiteral :: "jsstring \<Rightarrow> jsnum option" where
  "prefixedLiteral s =
     (case s of
        z # x # ds \<Rightarrow>
          if z = 48 \<and> ds \<noteq> [] then
            if (x = 120 \<or> x = 88) \<and> list_all isHexDigit ds
              then Some (roundToDouble (digitsValue 16 ds) 1)
            else if (x = 111 \<or> x = 79) \<and> list_all (\<lambda>c. 48 \<le> c \<and> c \<le> 55) ds
              then Some (roundToDouble (digitsValue 8 ds) 1)
            else if (x = 98 \<or> x = 66) \<and> list_all (\<lambda>c. c = 48 \<or> c = 49) ds
              then Some (roundToDouble (digitsValue 2 ds) 1)
            else None
          else None
      | _ \<Rightarrow> None)"

definition stringToNumber :: "jsstring \<Rightarrow> jsnum" where
  "stringToNumber s0 =
     (let s = trim s0
      in if s = [] then Fin 0
         else case prefixedLiteral s of
                Some n \<Rightarrow> n
              | None \<Rightarrow>
                  if hd s = 43 then unsignedDecimal (tl s)
                  else if hd s = 45 then negate (unsignedDecimal (tl s))
                  else unsignedDecimal s)"

text \<open>
  Converting an object to a primitive calls its \<^verbatim>\<open>valueOf\<close> and \<^verbatim>\<open>toString\<close>. A parsed
  object inherits both; \<^verbatim>\<open>valueOf\<close> returns the object itself and \<^verbatim>\<open>toString\<close> gives
  \<^verbatim>\<open>"[object Object]"\<close>, unless the object has an own property named \<^verbatim>\<open>toString\<close>: that
  is a parsed value, not a function, and the conversion throws a TypeError. An array
  converts to the join of its elements' strings and throws when one of them does.
\<close>

fun throwsToString :: "jsval \<Rightarrow> bool" where
  "throwsToString (JObj kvs) = (str ''toString'' \<in> fst ` set kvs)"
| "throwsToString (JArr xs) = (\<exists>x \<in> set xs. throwsToString x)"
| "throwsToString v = False"

text \<open>
  \<^verbatim>\<open>Number(v)\<close>. An object that converts is \<^verbatim>\<open>"[object Object]"\<close>, hence NaN. An array is
  the number of its join: the empty string for \<^verbatim>\<open>[]\<close>, \<^verbatim>\<open>[null]\<close> and \<^verbatim>\<open>[undefined]\<close>;
  for one element, the element's string (a number prints to a string that reads back as
  the same number, a boolean to a word that is no number); with two elements or more the
  join holds a comma and is no number.
\<close>

fun toNumber :: "jsval \<Rightarrow> error + jsnum" where
  "toNumber JUndefined = Inr NaN"
| "toNumber JNull = Inr (Fin 0)"
| "toNumber (JBool b) = Inr (Fin (if b then 1 else 0))"
| "toNumber (JNum n) = Inr n"
| "toNumber (JStr s) = Inr (stringToNumber s)"
| "toNumber (JObj kvs) = (if throwsToString (JObj kvs) then Inl TypeError else Inr NaN)"
| "toNumber (JArr []) = Inr (Fin 0)"
| "toNumber (JArr [x]) =
     (case x of
        JUndefined \<Rightarrow> Inr (Fin 0)
      | JBool b \<Rightarrow> Inr NaN
      | _ \<Rightarrow> toNumber x)"
| "toNumber (JArr (x # y # zs)) =
     (if throwsToString (JArr (x # y # zs)) then Inl TypeError else Inr NaN)"

text \<open>\<^verbatim>\<open>Math.round(x)\<close>: the nearest integer, a tie going up.\<close>

definition mathRound :: "real \<Rightarrow> real" where
  "mathRound x = of_int \<lfloor>x + 1 / 2\<rfloor>"

text \<open>\<^verbatim>\<open>a > b\<close> for numbers: false when one is NaN.\<close>

fun numGreater :: "jsnum \<Rightarrow> real \<Rightarrow> bool" where
  "numGreater NaN b = False"
| "numGreater PosInf b = True"
| "numGreater NegInf b = False"
| "numGreater (Fin a) b = (a > b)"

section \<open>The gateway: \<^verbatim>\<open>server/index.mjs\<close>\<close>

text \<open>
\<^verbatim>\<open>
function clampText(value, maxLen = 1000) {
  if (typeof value !== "string") return "";
  const out = value.trim();
  return out.length > maxLen ? out.slice(0, maxLen) : out;
}
\<close>
\<close>

definition clampText :: "jsval \<Rightarrow> nat \<Rightarrow> jsstring" where
  "clampText v maxLen =
     (case v of
        JStr s \<Rightarrow> (let out = trim s in if length out > maxLen then sliceStr out 0 maxLen else out)
      | _ \<Rightarrow> [])"

record QuestionRow =
  q_id :: jsstring
  q_question :: jsstring
  q_rubric :: jsstring

text \<open>
\<^verbatim>\<open>
function normalizeQuestions(parsed, expectedCount) {
  const rows = Array.isArray(parsed?.questions) ? parsed.questions : [];
  const out = [];
  const usedIds = new Set();
  for (const row of rows) {
    if (out.length >= expectedCount) break;
    const question = clampText(row?.question, 500);
    if (!question) continue;
    let id = clampText(row?.id, 120);
    if (!id || usedIds.has(id)) id = `q${out.length + 1}`;
    usedIds.add(id);
    out.push({ id, question, rubric: clampText(row?.rubric, 2000) });
  }
  return out;
}
\<close>
  The loop is \<open>nqLoop\<close>: its state is \<open>out\<close> and \<open>usedIds\<close>.
\<close>

fun nqLoop :: "int \<Rightarrow> jsval list \<Rightarrow> QuestionRow list \<Rightarrow> jsstring set \<Rightarrow> QuestionRow list" where
  "nqLoop expectedCount [] out usedIds = out"
| "nqLoop expectedCount (row # rows) out usedIds =
     (if int (length out) \<ge> expectedCount then out
      else
        let question = clampText (getOpt row ''question'') 500 in
        if question = [] then nqLoop expectedCount rows out usedIds
        else
          let id0 = clampText (getOpt row ''id'') 120;
              id1 = (if id0 = [] \<or> id0 \<in> usedIds then str ''q'' @ decimal (length out + 1) else id0)
          in nqLoop expectedCount rows
               (out @ [\<lparr>q_id = id1, q_question = question,
                         q_rubric = clampText (getOpt row ''rubric'') 2000\<rparr>])
               (insert id1 usedIds))"

definition normalizeQuestions :: "jsval \<Rightarrow> int \<Rightarrow> QuestionRow list" where
  "normalizeQuestions parsed expectedCount =
     (let rows = (case getOpt parsed ''questions'' of JArr rs \<Rightarrow> rs | _ \<Rightarrow> [])
      in nqLoop expectedCount rows [] {})"

text \<open>
\<^verbatim>\<open>
function toInt(value, fallback) {
  const n = Number(value);
  if (!Number.isFinite(n)) return fallback;
  return Math.round(n);
}
\<close>
\<close>

definition toInt :: "jsval \<Rightarrow> real \<Rightarrow> error + real" where
  "toInt v fallback =
     bindE (toNumber v) (\<lambda>n. case n of Fin r \<Rightarrow> Inr (mathRound r) | _ \<Rightarrow> Inr fallback)"

record AnswerRow =
  a_questionId :: jsstring
  a_question :: jsstring
  a_studentAnswer :: jsstring

record GradedRow =
  gr_questionId :: jsstring
  gr_score :: real
  gr_feedback :: jsstring
  gr_idealAnswer :: jsstring
  gr_question :: jsstring
  gr_studentAnswer :: jsstring

record GradeRow =
  g_questionId :: jsstring
  g_score :: real
  g_feedback :: jsstring
  g_idealAnswer :: jsstring

text \<open>
\<^verbatim>\<open>
function normalizeGrades(parsed, answers) {
  const rows = Array.isArray(parsed?.results) ? parsed.results : [];
  const answerById = new Map(answers.map((row) => [row.questionId, row]));
  const out = [];
  for (const row of rows) {
    const questionId = clampText(row?.questionId, 120);
    if (!questionId || !answerById.has(questionId)) continue;
    const answer = answerById.get(questionId);
    out.push({
      questionId,
      score: Math.max(0, Math.min(100, toInt(row?.score, 0))),
      feedback: clampText(row?.feedback, 2000),
      idealAnswer: clampText(row?.idealAnswer, 2000),
      question: answer.question,
      studentAnswer: answer.studentAnswer,
    });
  }
  return out.map((result) => ({
    questionId: result.questionId, score: result.score,
    feedback: result.feedback, idealAnswer: result.idealAnswer,
  }));
}
\<close>
  \<^verbatim>\<open>new Map(pairs)\<close> keeps the last pair of a key. \<^verbatim>\<open>Number(row?.score)\<close> can throw.
\<close>

definition answerById :: "AnswerRow list \<Rightarrow> jsstring \<Rightarrow> AnswerRow option" where
  "answerById answers = map_of (rev (map (\<lambda>row. (a_questionId row, row)) answers))"

fun ngLoop :: "(jsstring \<Rightarrow> AnswerRow option) \<Rightarrow> jsval list \<Rightarrow> GradedRow list \<Rightarrow> error + GradedRow list" where
  "ngLoop byId [] out = Inr out"
| "ngLoop byId (row # rows) out =
     (let questionId = clampText (getOpt row ''questionId'') 120
      in case (if questionId = [] then None else byId questionId) of
           None \<Rightarrow> ngLoop byId rows out
         | Some answer \<Rightarrow>
             bindE (toInt (getOpt row ''score'') 0) (\<lambda>n.
               ngLoop byId rows
                 (out @ [\<lparr>gr_questionId = questionId,
                           gr_score = max 0 (min 100 n),
                           gr_feedback = clampText (getOpt row ''feedback'') 2000,
                           gr_idealAnswer = clampText (getOpt row ''idealAnswer'') 2000,
                           gr_question = a_question answer,
                           gr_studentAnswer = a_studentAnswer answer\<rparr>])))"

definition normalizeGrades :: "jsval \<Rightarrow> AnswerRow list \<Rightarrow> error + GradeRow list" where
  "normalizeGrades parsed answers =
     (let rows = (case getOpt parsed ''results'' of JArr rs \<Rightarrow> rs | _ \<Rightarrow> [])
      in bindE (ngLoop (answerById answers) rows [])
           (\<lambda>out. Inr (map (\<lambda>result.
              \<lparr>g_questionId = gr_questionId result, g_score = gr_score result,
               g_feedback = gr_feedback result, g_idealAnswer = gr_idealAnswer result\<rparr>) out)))"

text \<open>
\<^verbatim>\<open>
function parseModelJson(content) {
  const text = clampText(content, 25000);
  const attempts = [text];
  const fenced = text.match(/```(?:json)?\s*([\s\S]*?)```/i);
  if (fenced?.[1]) attempts.push(fenced[1].trim());
  const firstBrace = text.indexOf("{");
  const lastBrace = text.lastIndexOf("}");
  if (firstBrace >= 0 && lastBrace > firstBrace) {
    attempts.push(text.slice(firstBrace, lastBrace + 1));
  }
  for (const candidate of attempts) {
    try { return JSON.parse(candidate); } catch {}
  }
  throw new HttpError(502, "Provider did not return valid JSON.");
}
\<close>
  \<^verbatim>\<open>JSON.parse\<close> is the parameter \<open>jsonParse\<close>: \<open>None\<close> when it throws.

  The regular expression: the match starts at the first \<^verbatim>\<open>```\<close> of the text; \<^verbatim>\<open>json\<close> in
  any case and then all white space are skipped when present, and group 1 runs up to
  the next \<^verbatim>\<open>```\<close>. (Giving back \<^verbatim>\<open>json\<close> or white space, or starting later, finds no
  other closing fence, since the skipped units hold no backquote; so there is no match
  when this one fails.) \<open>fencedMatch\<close> is group 1 of the match.
\<close>

fun findSub :: "jsstring \<Rightarrow> jsstring \<Rightarrow> nat option" where
  "findSub pat [] = (if pat = [] then Some 0 else None)"
| "findSub pat (x # xs) =
     (if take (length pat) (x # xs) = pat then Some 0
      else map_option Suc (findSub pat xs))"

definition startsWithJson :: "jsstring \<Rightarrow> bool" where
  "startsWithJson s \<longleftrightarrow>
     (case s of
        a # b # c # d # rest \<Rightarrow>
          (a = 106 \<or> a = 74) \<and> (b = 115 \<or> b = 83) \<and> (c = 111 \<or> c = 79) \<and> (d = 110 \<or> d = 78)
      | _ \<Rightarrow> False)"

definition fencedMatch :: "jsstring \<Rightarrow> jsstring option" where
  "fencedMatch text =
     (case findSub (str ''```'') text of
        None \<Rightarrow> None
      | Some i \<Rightarrow>
          let r0 = drop (i + 3) text;
              r1 = (if startsWithJson r0 then drop 4 r0 else r0);
              r2 = dropWhile isWhiteSpace r1
          in (case findSub (str ''```'') r2 of
                None \<Rightarrow> None
              | Some j \<Rightarrow> Some (take j r2)))"

fun tryParse :: "(jsstring \<Rightarrow> jsval option) \<Rightarrow> jsstring list \<Rightarrow> error + jsval" where
  "tryParse jsonParse [] = Inl (HttpError 502 (str ''Provider did not return valid JSON.''))"
| "tryParse jsonParse (candidate # attempts) =
     (case jsonParse candidate of
        Some v \<Rightarrow> Inr v
      | None \<Rightarrow> tryParse jsonParse attempts)"

definition parseModelJson :: "(jsstring \<Rightarrow> jsval option) \<Rightarrow> jsval \<Rightarrow> error + jsval" where
  "parseModelJson jsonParse content =
     (let text = clampText content 25000;
          attempts0 = [text];
          attempts1 = (case fencedMatch text of
                         Some g \<Rightarrow> if g \<noteq> [] then attempts0 @ [trim g] else attempts0
                       | None \<Rightarrow> attempts0);
          firstBrace = indexOf text 123;
          lastBrace = lastIndexOf text 125;
          attempts2 = (if firstBrace \<ge> 0 \<and> lastBrace > firstBrace
                       then attempts1 @ [sliceStr text (nat firstBrace) (nat (lastBrace + 1))]
                       else attempts1)
      in tryParse jsonParse attempts2)"

text \<open>What the loop of \<open>normalizeGrades\<close> keeps true of the rows it has pushed.\<close>

definition gradedOk :: "jsstring set \<Rightarrow> GradedRow \<Rightarrow> bool" where
  "gradedOk ids r \<longleftrightarrow> gr_questionId r \<in> ids \<and> gr_score r \<in> \<int> \<and> 0 \<le> gr_score r \<and> gr_score r \<le> 100"

text \<open>
  The three strategies as the specification words them, for the text \<open>text\<close> that
  \<open>parseModelJson\<close> works on: the text as it is; the contents of a fenced code block;
  the substring from the first \<^verbatim>\<open>{\<close> to the last \<^verbatim>\<open>}\<close>, when the first stands before the
  last.

  The fenced code block is what stands between the first \<^verbatim>\<open>```\<close> of the text and the next
  \<^verbatim>\<open>```\<close> after it (\<open>fencedBlock\<close>; \<open>firstFence\<close> is the least index at which a fence
  stands). Its contents are the block without the language tag \<^verbatim>\<open>json\<close> (in any letter
  case) at its start, trimmed; a block with no contents gives no candidate.
\<close>

definition fenceAt :: "jsstring \<Rightarrow> nat \<Rightarrow> bool" where
  "fenceAt text i \<longleftrightarrow> take 3 (drop i text) = [96, 96, 96]"

definition firstFence :: "jsstring \<Rightarrow> nat option" where
  "firstFence text = find (fenceAt text) [0..<length text]"

definition fencedBlock :: "jsstring \<Rightarrow> jsstring option" where
  "fencedBlock text =
     (case firstFence text of
        None \<Rightarrow> None
      | Some i \<Rightarrow>
          (case firstFence (drop (i + 3) text) of
             None \<Rightarrow> None
           | Some j \<Rightarrow> Some (take j (drop (i + 3) text))))"

definition asciiLower :: "nat \<Rightarrow> nat" where
  "asciiLower c = (if 65 \<le> c \<and> c \<le> 90 then c + 32 else c)"

definition withoutTag :: "jsstring \<Rightarrow> jsstring" where
  "withoutTag body = (if map asciiLower (take 4 body) = str ''json'' then drop 4 body else body)"

definition fencedCandidate :: "jsstring \<Rightarrow> jsstring option" where
  "fencedCandidate text =
     (case fencedBlock text of
        None \<Rightarrow> None
      | Some body \<Rightarrow> (let c = trim (withoutTag body) in if c = [] then None else Some c))"

definition braceCandidate :: "jsstring \<Rightarrow> jsstring option" where
  "braceCandidate text =
     (let i = length (takeWhile (\<lambda>x. x \<noteq> 123) text);
          j = length text - 1 - length (takeWhile (\<lambda>x. x \<noteq> 125) (rev text))
      in if 123 \<in> set text \<and> 125 \<in> set text \<and> i < j
         then Some (take (j + 1 - i) (drop i text)) else None)"

definition candidates :: "jsstring \<Rightarrow> jsstring list" where
  "candidates text =
     [text] @ (case fencedCandidate text of Some c \<Rightarrow> [c] | None \<Rightarrow> [])
            @ (case braceCandidate text of Some c \<Rightarrow> [c] | None \<Rightarrow> [])"


section \<open>The client: \<^verbatim>\<open>utils.ts\<close> and \<^verbatim>\<open>data.ts\<close>\<close>

text \<open>
\<^verbatim>\<open>
export function clampStr(s: string, max = 2000) {
  if (!s) return "";
  return s.length > max ? s.slice(0, max) : s;
}
\<close>
  The normaliser calls it on values that need not be strings. A number or \<^verbatim>\<open>true\<close> has
  no \<^verbatim>\<open>length\<close> and is returned as it is; an array is sliced; an object is returned as it
  is unless its own \<^verbatim>\<open>length\<close> property converts to a number above \<open>max\<close>, and then
  \<^verbatim>\<open>s.slice\<close> is no function and the call throws.
\<close>

definition clampStrS :: "jsstring \<Rightarrow> nat \<Rightarrow> jsstring" where
  "clampStrS s mx = (if length s > mx then sliceStr s 0 mx else s)"

definition clampStr :: "jsval \<Rightarrow> nat \<Rightarrow> error + jsval" where
  "clampStr s mx =
     (if \<not> truthy s then Inr (JStr [])
      else case s of
             JStr cs \<Rightarrow> Inr (JStr (clampStrS cs mx))
           | JArr xs \<Rightarrow> Inr (if length xs > mx then JArr (sliceStr xs 0 mx) else s)
           | JObj kvs \<Rightarrow>
               bindE (toNumber (getOpt s ''length''))
                 (\<lambda>n. if numGreater n (real mx) then Inl TypeError else Inr s)
           | _ \<Rightarrow> Inr s)"

text \<open>
\<^verbatim>\<open>
export function clampInt(value: unknown, min: number, max: number, fallback: number) {
  const n = Number(value);
  if (!Number.isFinite(n)) return fallback;
  return Math.min(max, Math.max(min, Math.round(n)));
}
\<close>
\<close>

definition clampInt :: "jsval \<Rightarrow> real \<Rightarrow> real \<Rightarrow> real \<Rightarrow> error + real" where
  "clampInt v mn mx fallback =
     bindE (toNumber v)
       (\<lambda>n. case n of Fin r \<Rightarrow> Inr (min mx (max mn (mathRound r))) | _ \<Rightarrow> Inr fallback)"

definition isAIDifficulty :: "jsval \<Rightarrow> bool" where
  "isAIDifficulty v \<longleftrightarrow>
     v = JStr (str ''easy'') \<or> v = JStr (str ''medium'') \<or> v = JStr (str ''hard'') \<or>
     v = JStr (str ''mixed'')"

definition isAIQuestionStyle :: "jsval \<Rightarrow> bool" where
  "isAIQuestionStyle v \<longleftrightarrow>
     v = JStr (str ''comprehension'') \<or> v = JStr (str ''critical_thinking'') \<or>
     v = JStr (str ''mixed'')"

definition isKnownHistoryType :: "jsval \<Rightarrow> bool" where
  "isKnownHistoryType v \<longleftrightarrow>
     v = JStr (str ''book_created'') \<or> v = JStr (str ''book_updated'') \<or>
     v = JStr (str ''book_deleted'') \<or> v = JStr (str ''chapter_created'') \<or>
     v = JStr (str ''chapter_updated'') \<or> v = JStr (str ''chapter_deleted'') \<or>
     v = JStr (str ''qa_created'') \<or> v = JStr (str ''qa_updated'') \<or>
     v = JStr (str ''qa_deleted'') \<or> v = JStr (str ''ai_questions_generated'') \<or>
     v = JStr (str ''ai_answers_graded'') \<or> v = JStr (str ''export'')"

text \<open>
  \<^verbatim>\<open>normalizeUserData\<close> (data.ts, lines 73 to 202). Each \<^verbatim>\<open>const\<close> of the function is a
  definition of its own, named after it; \<open>normalizeUserData\<close> puts them together.

  \<^verbatim>\<open>nowISO()\<close> reads the clock: \<open>now k i\<close> is the string it returns when the \<^verbatim>\<open>map\<close>
  callback of list \<open>k\<close> (0 the generated questions, 1 the draft answers, 2 the feedback
  history) calls it for its element \<open>i\<close>.

  \<open>mapiE\<close> is \<^verbatim>\<open>xs.map(f)\<close> for a callback that may throw and reads the clock.
\<close>

fun mapiE :: "(nat \<Rightarrow> 'a \<Rightarrow> error + 'b) \<Rightarrow> nat \<Rightarrow> 'a list \<Rightarrow> error + 'b list" where
  "mapiE f i [] = Inr []"
| "mapiE f i (x # xs) = bindE (f i x) (\<lambda>y. bindE (mapiE f (Suc i) xs) (\<lambda>ys. Inr (y # ys)))"

text \<open>\<^verbatim>\<open>Array.isArray(v) ? v : []\<close>.\<close>

definition asArray :: "jsval \<Rightarrow> jsval list" where
  "asArray v = (case v of JArr xs \<Rightarrow> xs | _ \<Rightarrow> [])"

text \<open>\<^verbatim>\<open>const books = Array.isArray(raw?.books) ? raw.books : [];\<close>\<close>

definition books_of :: "jsval \<Rightarrow> jsval list" where
  "books_of raw = asArray (getOpt raw ''books'')"

text \<open>\<^verbatim>\<open>const bookIds = new Set(books.map((b) => b.id));\<close>\<close>

definition bookIds_of :: "jsval list \<Rightarrow> error + jsval list" where
  "bookIds_of books = mapE (\<lambda>b. getProp b ''id'') books"

text \<open>\<^verbatim>\<open>const chapters = Array.isArray(raw?.chapters)
    ? raw.chapters.filter((ch) => bookIds.has(ch.bookId)) : [];\<close>\<close>

definition chapters_of :: "jsval \<Rightarrow> jsval list \<Rightarrow> error + jsval list" where
  "chapters_of raw bookIds =
     filterE (\<lambda>ch. bindE (getProp ch ''bookId'') (\<lambda>v. Inr (setHas bookIds v)))
       (asArray (getOpt raw ''chapters''))"

text \<open>\<^verbatim>\<open>const chapterIds = new Set(chapters.map((ch) => ch.id));\<close>\<close>

definition chapterIds_of :: "jsval list \<Rightarrow> error + jsval list" where
  "chapterIds_of chapters = mapE (\<lambda>ch. getProp ch ''id'') chapters"

text \<open>\<^verbatim>\<open>const history = Array.isArray(raw?.history)
    ? raw.history.filter((entry) =>
        !!entry && typeof entry === "object" && isKnownHistoryType(entry.type)) : [];\<close>\<close>

definition history_of :: "jsval \<Rightarrow> jsval list" where
  "history_of raw =
     filter (\<lambda>entry. truthy entry \<and> typeofObject entry \<and> isKnownHistoryType (getOpt entry ''type''))
       (asArray (getOpt raw ''history''))"

text \<open>\<^verbatim>\<open>typeof v === "string" && v.trim().length > 0\<close>.\<close>

definition nonBlankString :: "jsval \<Rightarrow> bool" where
  "nonBlankString v = (case v of JStr s \<Rightarrow> length (trim s) > 0 | _ \<Rightarrow> False)"

text \<open>
\<^verbatim>\<open>
  const generatedQuestions = Array.isArray(aiCoachRaw?.generatedQuestions)
    ? aiCoachRaw.generatedQuestions
        .filter((q) => !!q && typeof q.id === "string" && typeof q.chapterId === "string" &&
            chapterIds.has(q.chapterId) && typeof q.question === "string" &&
            q.question.trim().length > 0)
        .map((q) => ({
          id: q.id, chapterId: q.chapterId,
          question: clampStr(q.question, 500),
          rubric: clampStr(q.rubric ?? "", 2000),
          createdAt: q.createdAt ?? nowISO(),
          difficulty: isAIDifficulty(q.difficulty) ? q.difficulty : defaultAICoachConfig.difficulty,
          style: isAIQuestionStyle(q.style) ? q.style : defaultAICoachConfig.style,
        }))
    : [];
\<close>
\<close>

definition keepQuestion :: "jsval list \<Rightarrow> jsval \<Rightarrow> bool" where
  "keepQuestion chapterIds q \<longleftrightarrow>
     truthy q \<and> isString (getOpt q ''id'') \<and> isString (getOpt q ''chapterId'') \<and>
     setHas chapterIds (getOpt q ''chapterId'') \<and> nonBlankString (getOpt q ''question'')"

definition mkQuestion :: "(nat \<Rightarrow> nat \<Rightarrow> jsstring) \<Rightarrow> nat \<Rightarrow> jsval \<Rightarrow> error + jsval" where
  "mkQuestion now i q =
     bindE (clampStr (getOpt q ''question'') 500) (\<lambda>question.
     bindE (clampStr (nullish (getOpt q ''rubric'') (JStr [])) 2000) (\<lambda>rubric.
       Inr (JObj
         [(str ''id'', getOpt q ''id''),
          (str ''chapterId'', getOpt q ''chapterId''),
          (str ''question'', question),
          (str ''rubric'', rubric),
          (str ''createdAt'', nullish (getOpt q ''createdAt'') (JStr (now 0 i))),
          (str ''difficulty'',
             if isAIDifficulty (getOpt q ''difficulty'') then getOpt q ''difficulty''
             else JStr (str ''mixed'')),
          (str ''style'',
             if isAIQuestionStyle (getOpt q ''style'') then getOpt q ''style''
             else JStr (str ''comprehension''))])))"

definition generatedQuestions_of ::
  "(nat \<Rightarrow> nat \<Rightarrow> jsstring) \<Rightarrow> jsval \<Rightarrow> jsval list \<Rightarrow> error + jsval list" where
  "generatedQuestions_of now aiCoachRaw chapterIds =
     mapiE (mkQuestion now) 0
       (filter (keepQuestion chapterIds) (asArray (getOpt aiCoachRaw ''generatedQuestions'')))"

text \<open>
\<^verbatim>\<open>
  const generatedQuestionIds = new Set(generatedQuestions.map((q) => q.id));
  const draftAnswers = Array.isArray(aiCoachRaw?.draftAnswers)
    ? aiCoachRaw.draftAnswers
        .filter((a) => !!a && typeof a.chapterId === "string" && chapterIds.has(a.chapterId) &&
            typeof a.questionId === "string" && generatedQuestionIds.has(a.questionId) &&
            typeof a.answer === "string" && a.answer.trim().length > 0)
        .map((a) => ({
          chapterId: a.chapterId, questionId: a.questionId,
          answer: clampStr(a.answer, 10000),
          updatedAt: a.updatedAt ?? nowISO(),
        }))
    : [];
\<close>
\<close>

definition generatedQuestionIds_of :: "jsval list \<Rightarrow> jsval list" where
  "generatedQuestionIds_of generatedQuestions = map (\<lambda>q. getOpt q ''id'') generatedQuestions"

definition keepDraft :: "jsval list \<Rightarrow> jsval list \<Rightarrow> jsval \<Rightarrow> bool" where
  "keepDraft chapterIds generatedQuestionIds a \<longleftrightarrow>
     truthy a \<and> isString (getOpt a ''chapterId'') \<and> setHas chapterIds (getOpt a ''chapterId'') \<and>
     isString (getOpt a ''questionId'') \<and> setHas generatedQuestionIds (getOpt a ''questionId'') \<and>
     nonBlankString (getOpt a ''answer'')"

definition mkDraft :: "(nat \<Rightarrow> nat \<Rightarrow> jsstring) \<Rightarrow> nat \<Rightarrow> jsval \<Rightarrow> error + jsval" where
  "mkDraft now i a =
     bindE (clampStr (getOpt a ''answer'') 10000) (\<lambda>answer.
       Inr (JObj
         [(str ''chapterId'', getOpt a ''chapterId''),
          (str ''questionId'', getOpt a ''questionId''),
          (str ''answer'', answer),
          (str ''updatedAt'', nullish (getOpt a ''updatedAt'') (JStr (now 1 i)))]))"

definition draftAnswers_of ::
  "(nat \<Rightarrow> nat \<Rightarrow> jsstring) \<Rightarrow> jsval \<Rightarrow> jsval list \<Rightarrow> jsval list \<Rightarrow> error + jsval list" where
  "draftAnswers_of now aiCoachRaw chapterIds generatedQuestionIds =
     mapiE (mkDraft now) 0
       (filter (keepDraft chapterIds generatedQuestionIds)
          (asArray (getOpt aiCoachRaw ''draftAnswers'')))"

text \<open>
\<^verbatim>\<open>
  const feedbackHistory = Array.isArray(aiCoachRaw?.feedbackHistory)
    ? aiCoachRaw.feedbackHistory
        .filter((entry) => !!entry && typeof entry.id === "string" &&
            typeof entry.bookId === "string" && bookIds.has(entry.bookId) &&
            typeof entry.chapterId === "string" && chapterIds.has(entry.chapterId) &&
            Array.isArray(entry.results))
        .map((entry) => ({
          id: entry.id, bookId: entry.bookId, chapterId: entry.chapterId,
          createdAt: entry.createdAt ?? nowISO(),
          difficulty: ..., style: ...,
          averageScore: clampInt(entry.averageScore, 0, 100, 0),
          results: entry.results
            .filter((result) => !!result && typeof result.questionId === "string" &&
                typeof result.question === "string" && typeof result.studentAnswer === "string")
            .map((result) => ({
              questionId: result.questionId,
              question: clampStr(result.question, 500),
              studentAnswer: clampStr(result.studentAnswer, 10000),
              score: clampInt(result.score, 0, 100, 0),
              feedback: clampStr(result.feedback ?? "", 2000),
              idealAnswer: clampStr(result.idealAnswer ?? "", 2000),
            })),
        }))
        .filter((entry) => entry.results.length > 0)
        .slice(0, 500)
    : [];
\<close>
\<close>

definition keepFeedback :: "jsval list \<Rightarrow> jsval list \<Rightarrow> jsval \<Rightarrow> bool" where
  "keepFeedback bookIds chapterIds entry \<longleftrightarrow>
     truthy entry \<and> isString (getOpt entry ''id'') \<and>
     isString (getOpt entry ''bookId'') \<and> setHas bookIds (getOpt entry ''bookId'') \<and>
     isString (getOpt entry ''chapterId'') \<and> setHas chapterIds (getOpt entry ''chapterId'') \<and>
     isArray (getOpt entry ''results'')"

definition keepResult :: "jsval \<Rightarrow> bool" where
  "keepResult result \<longleftrightarrow>
     truthy result \<and> isString (getOpt result ''questionId'') \<and>
     isString (getOpt result ''question'') \<and> isString (getOpt result ''studentAnswer'')"

definition mkResult :: "jsval \<Rightarrow> error + jsval" where
  "mkResult result =
     bindE (clampStr (getOpt result ''question'') 500) (\<lambda>question.
     bindE (clampStr (getOpt result ''studentAnswer'') 10000) (\<lambda>studentAnswer.
     bindE (clampInt (getOpt result ''score'') 0 100 0) (\<lambda>score.
     bindE (clampStr (nullish (getOpt result ''feedback'') (JStr [])) 2000) (\<lambda>feedback.
     bindE (clampStr (nullish (getOpt result ''idealAnswer'') (JStr [])) 2000) (\<lambda>idealAnswer.
       Inr (JObj
         [(str ''questionId'', getOpt result ''questionId''),
          (str ''question'', question),
          (str ''studentAnswer'', studentAnswer),
          (str ''score'', JNum (Fin score)),
          (str ''feedback'', feedback),
          (str ''idealAnswer'', idealAnswer)]))))))"

definition mkFeedback :: "(nat \<Rightarrow> nat \<Rightarrow> jsstring) \<Rightarrow> nat \<Rightarrow> jsval \<Rightarrow> error + jsval" where
  "mkFeedback now i entry =
     bindE (clampInt (getOpt entry ''averageScore'') 0 100 0) (\<lambda>averageScore.
     bindE (mapE mkResult (filter keepResult (asArray (getOpt entry ''results'')))) (\<lambda>results.
       Inr (JObj
         [(str ''id'', getOpt entry ''id''),
          (str ''bookId'', getOpt entry ''bookId''),
          (str ''chapterId'', getOpt entry ''chapterId''),
          (str ''createdAt'', nullish (getOpt entry ''createdAt'') (JStr (now 2 i))),
          (str ''difficulty'',
             if isAIDifficulty (getOpt entry ''difficulty'') then getOpt entry ''difficulty''
             else JStr (str ''mixed'')),
          (str ''style'',
             if isAIQuestionStyle (getOpt entry ''style'') then getOpt entry ''style''
             else JStr (str ''comprehension'')),
          (str ''averageScore'', JNum (Fin averageScore)),
          (str ''results'', JArr results)])))"

definition feedbackHistory_of ::
  "(nat \<Rightarrow> nat \<Rightarrow> jsstring) \<Rightarrow> jsval \<Rightarrow> jsval list \<Rightarrow> jsval list \<Rightarrow> error + jsval list" where
  "feedbackHistory_of now aiCoachRaw bookIds chapterIds =
     bindE (mapiE (mkFeedback now) 0
              (filter (keepFeedback bookIds chapterIds)
                 (asArray (getOpt aiCoachRaw ''feedbackHistory''))))
       (\<lambda>entries.
          Inr (sliceStr
                 (filter (\<lambda>entry. length (asArray (getOpt entry ''results'')) > 0) entries)
                 0 500))"

text \<open>
\<^verbatim>\<open>
  const selectedBookId =
    typeof aiCoachRaw?.selectedBookId === "string" && bookIds.has(aiCoachRaw.selectedBookId)
      ? aiCoachRaw.selectedBookId : undefined;
  const selectedChapterIdRaw =
    typeof aiCoachRaw?.selectedChapterId === "string" ? aiCoachRaw.selectedChapterId : undefined;
  const selectedChapterId =
    selectedBookId && selectedChapterIdRaw &&
    chapters.some((ch) => ch.bookId === selectedBookId && ch.id === selectedChapterIdRaw)
      ? selectedChapterIdRaw
      : selectedBookId
      ? chapters.find((ch) => ch.bookId === selectedBookId)?.id
      : undefined;
\<close>
  The chapters here passed the filter above, which read \<^verbatim>\<open>ch.bookId\<close> of each: none is
  \<^verbatim>\<open>null\<close> or \<^verbatim>\<open>undefined\<close>, and reading their properties does not throw.
\<close>

definition selectedBookId_of :: "jsval \<Rightarrow> jsval list \<Rightarrow> jsval" where
  "selectedBookId_of aiCoachRaw bookIds =
     (if isString (getOpt aiCoachRaw ''selectedBookId'') \<and>
         setHas bookIds (getOpt aiCoachRaw ''selectedBookId'')
      then getOpt aiCoachRaw ''selectedBookId'' else JUndefined)"

definition selectedChapterIdRaw_of :: "jsval \<Rightarrow> jsval" where
  "selectedChapterIdRaw_of aiCoachRaw =
     (if isString (getOpt aiCoachRaw ''selectedChapterId'')
      then getOpt aiCoachRaw ''selectedChapterId'' else JUndefined)"

definition selectedChapterId_of :: "jsval \<Rightarrow> jsval list \<Rightarrow> jsval \<Rightarrow> jsval" where
  "selectedChapterId_of aiCoachRaw chapters selectedBookId =
     (let selectedChapterIdRaw = selectedChapterIdRaw_of aiCoachRaw
      in if truthy selectedBookId \<and> truthy selectedChapterIdRaw \<and>
            list_ex (\<lambda>ch. strictEq (getOpt ch ''bookId'') selectedBookId \<and>
                          strictEq (getOpt ch ''id'') selectedChapterIdRaw) chapters
         then selectedChapterIdRaw
         else if truthy selectedBookId
         then (case find (\<lambda>ch. strictEq (getOpt ch ''bookId'') selectedBookId) chapters of
                 Some ch \<Rightarrow> getOpt ch ''id''
               | None \<Rightarrow> JUndefined)
         else JUndefined)"

text \<open>
\<^verbatim>\<open>
  const lastConfigRaw = (aiCoachRaw?.lastConfig ?? {}) as Partial<AICoachConfig>;
  ...
      lastConfig: {
        count: clampInt(lastConfigRaw.count, 1, 15, defaultAICoachConfig.count),
        difficulty: isAIDifficulty(lastConfigRaw.difficulty) ? ... : defaultAICoachConfig.difficulty,
        style: isAIQuestionStyle(lastConfigRaw.style) ? ... : defaultAICoachConfig.style,
      },
\<close>
\<close>

definition lastConfig_of :: "jsval \<Rightarrow> error + jsval" where
  "lastConfig_of aiCoachRaw =
     (let lastConfigRaw = nullish (getOpt aiCoachRaw ''lastConfig'') (JObj [])
      in bindE (clampInt (getOpt lastConfigRaw ''count'') 1 15 6) (\<lambda>count.
           Inr (JObj
             [(str ''count'', JNum (Fin count)),
              (str ''difficulty'',
                 if isAIDifficulty (getOpt lastConfigRaw ''difficulty'')
                 then getOpt lastConfigRaw ''difficulty'' else JStr (str ''mixed'')),
              (str ''style'',
                 if isAIQuestionStyle (getOpt lastConfigRaw ''style'')
                 then getOpt lastConfigRaw ''style'' else JStr (str ''comprehension''))])))"

text \<open>\<^verbatim>\<open>qas: Array.isArray(raw?.qas) ? raw.qas.filter((qa) => chapterIds.has(qa.chapterId)) : []\<close>\<close>

definition qas_of :: "jsval \<Rightarrow> jsval list \<Rightarrow> error + jsval list" where
  "qas_of raw chapterIds =
     filterE (\<lambda>qa. bindE (getProp qa ''chapterId'') (\<lambda>v. Inr (setHas chapterIds v)))
       (asArray (getOpt raw ''qas''))"

definition normalizeUserData :: "(nat \<Rightarrow> nat \<Rightarrow> jsstring) \<Rightarrow> jsval \<Rightarrow> error + jsval" where
  "normalizeUserData now raw =
     (let books = books_of raw in
      bindE (bookIds_of books) (\<lambda>bookIds.
      bindE (chapters_of raw bookIds) (\<lambda>chapters.
      bindE (chapterIds_of chapters) (\<lambda>chapterIds.
      let history = history_of raw;
          aiCoachRaw = getOpt raw ''aiCoach''
      in
      bindE (generatedQuestions_of now aiCoachRaw chapterIds) (\<lambda>generatedQuestions.
      bindE (draftAnswers_of now aiCoachRaw chapterIds
               (generatedQuestionIds_of generatedQuestions)) (\<lambda>draftAnswers.
      bindE (feedbackHistory_of now aiCoachRaw bookIds chapterIds) (\<lambda>feedbackHistory.
      let selectedBookId = selectedBookId_of aiCoachRaw bookIds;
          selectedChapterId = selectedChapterId_of aiCoachRaw chapters selectedBookId
      in
      bindE (qas_of raw chapterIds) (\<lambda>qas.
      bindE (lastConfig_of aiCoachRaw) (\<lambda>lastConfig.
        Inr (JObj
          [(str ''books'', JArr books),
           (str ''chapters'', JArr chapters),
           (str ''qas'', JArr qas),
           (str ''history'', JArr history),
           (str ''aiCoach'', JObj
             [(str ''selectedBookId'', selectedBookId),
              (str ''selectedChapterId'', selectedChapterId),
              (str ''lastConfig'', lastConfig),
              (str ''generatedQuestions'', JArr generatedQuestions),
              (str ''draftAnswers'', JArr draftAnswers),
              (str ''feedbackHistory'', JArr feedbackHistory)])]))))))))))"

text \<open>Reading the normalised blob: the lists and the two pointers of the value that
  \<open>normalizeUserData\<close> returns.\<close>

definition outBooks :: "jsval \<Rightarrow> jsval list" where
  "outBooks Y = asArray (getOpt Y ''books'')"
definition outChapters :: "jsval \<Rightarrow> jsval list" where
  "outChapters Y = asArray (getOpt Y ''chapters'')"
definition outQas :: "jsval \<Rightarrow> jsval list" where
  "outQas Y = asArray (getOpt Y ''qas'')"
definition outQuestions :: "jsval \<Rightarrow> jsval list" where
  "outQuestions Y = asArray (getOpt (getOpt Y ''aiCoach'') ''generatedQuestions'')"
definition outDrafts :: "jsval \<Rightarrow> jsval list" where
  "outDrafts Y = asArray (getOpt (getOpt Y ''aiCoach'') ''draftAnswers'')"
definition outFeedback :: "jsval \<Rightarrow> jsval list" where
  "outFeedback Y = asArray (getOpt (getOpt Y ''aiCoach'') ''feedbackHistory'')"
definition outSelectedBookId :: "jsval \<Rightarrow> jsval" where
  "outSelectedBookId Y = getOpt (getOpt Y ''aiCoach'') ''selectedBookId''"
definition outSelectedChapterId :: "jsval \<Rightarrow> jsval" where
  "outSelectedChapterId Y = getOpt (getOpt Y ''aiCoach'') ''selectedChapterId''"

text \<open>\<open>refersTo e k targets\<close>: the property \<open>k\<close> of \<open>e\<close> is the \<open>id\<close> of one of
  \<open>targets\<close>.\<close>

definition refersTo :: "jsval \<Rightarrow> string \<Rightarrow> jsval list \<Rightarrow> bool" where
  "refersTo e k targets \<longleftrightarrow>
     (\<exists>t \<in> set targets. \<exists>v. getProp e k = Inr v \<and> getProp t ''id'' = Inr v)"

section \<open>The client state: \<^verbatim>\<open>types.ts\<close>, \<^verbatim>\<open>App.tsx\<close> and \<^verbatim>\<open>use-ai-coach.ts\<close>\<close>

text \<open>The application state is typed (\<^verbatim>\<open>UserData\<close> of types.ts); its updaters are
  modelled over records that follow the type declarations, an optional field as an
  option.\<close>

datatype BookStatus = InProgress | Completed | Abandoned

datatype HistoryEventType =
    BookCreated | BookUpdated | BookDeleted
  | ChapterCreated | ChapterUpdated | ChapterDeleted
  | QaCreated | QaUpdated | QaDeleted
  | AiQuestionsGenerated | AiAnswersGraded | Export

datatype AIDifficulty = Easy | Medium | Hard | MixedDifficulty

datatype AIQuestionStyle = Comprehension | CriticalThinking | MixedStyle

record Book =
  b_id :: jsstring
  b_title :: jsstring
  b_author :: jsstring
  b_genre :: "jsstring option"
  b_coverDataUrl :: "jsstring option"
  b_status :: BookStatus
  b_startedAt :: "jsstring option"
  b_finishedAt :: "jsstring option"
  b_createdAt :: jsstring
  b_updatedAt :: jsstring

record ChapterEntry =
  c_id :: jsstring
  c_bookId :: jsstring
  c_number :: "real option"
  c_title :: "jsstring option"
  c_completedAt :: "jsstring option"
  c_summary :: jsstring
  c_takeaways :: jsstring
  c_quotes :: jsstring
  c_reflection :: jsstring
  c_createdAt :: jsstring
  c_updatedAt :: jsstring

record QA =
  qa_id :: jsstring
  qa_chapterId :: jsstring
  qa_question :: jsstring
  qa_answer :: jsstring
  qa_createdAt :: jsstring
  qa_updatedAt :: jsstring

record HistoryEvent =
  h_id :: jsstring
  h_type :: HistoryEventType
  h_ts :: jsstring
  h_userId :: jsstring
  h_bookId :: "jsstring option"
  h_chapterId :: "jsstring option"
  h_qaId :: "jsstring option"
  h_label :: jsstring
  h_meta :: "(jsstring \<times> jsstring) list option"

record AICoachConfig =
  cfg_count :: real
  cfg_difficulty :: AIDifficulty
  cfg_style :: AIQuestionStyle

record AIGeneratedQuestion =
  gq_id :: jsstring
  gq_chapterId :: jsstring
  gq_question :: jsstring
  gq_rubric :: jsstring
  gq_createdAt :: jsstring
  gq_difficulty :: AIDifficulty
  gq_style :: AIQuestionStyle

record AIDraftAnswer =
  da_chapterId :: jsstring
  da_questionId :: jsstring
  da_answer :: jsstring
  da_updatedAt :: jsstring

record AIGradeResult =
  res_questionId :: jsstring
  res_question :: jsstring
  res_studentAnswer :: jsstring
  res_score :: real
  res_feedback :: jsstring
  res_idealAnswer :: jsstring

record AIFeedbackEntry =
  fe_id :: jsstring
  fe_bookId :: jsstring
  fe_chapterId :: jsstring
  fe_createdAt :: jsstring
  fe_difficulty :: AIDifficulty
  fe_style :: AIQuestionStyle
  fe_averageScore :: real
  fe_results :: "AIGradeResult list"

record AICoachData =
  selectedBookId :: "jsstring option"
  selectedChapterId :: "jsstring option"
  lastConfig :: AICoachConfig
  generatedQuestions :: "AIGeneratedQuestion list"
  draftAnswers :: "AIDraftAnswer list"
  feedbackHistory :: "AIFeedbackEntry list"

record UserData =
  books :: "Book list"
  chapters :: "ChapterEntry list"
  qas :: "QA list"
  history :: "HistoryEvent list"
  aiCoach :: AICoachData

text \<open>
\<^verbatim>\<open>
  function pushHistory(event: Omit<HistoryEvent, "id" | "ts">) {
    const nextEvent: HistoryEvent = { ...event, id: uid("h"), ts: nowISO() };
    setData((prev) => ({ ...prev, history: [nextEvent, ...prev.history].slice(0, 2000) }));
  }
\<close>
  \<open>newId\<close> is what \<^verbatim>\<open>uid("h")\<close> returns and \<open>ts\<close> what \<^verbatim>\<open>nowISO()\<close> returns.
\<close>

definition pushHistory :: "HistoryEvent \<Rightarrow> jsstring \<Rightarrow> jsstring \<Rightarrow> UserData \<Rightarrow> UserData" where
  "pushHistory event newId ts prev =
     (let nextEvent = event\<lparr>h_id := newId, h_ts := ts\<rparr>
      in prev\<lparr>history := sliceStr (nextEvent # history prev) 0 2000\<rparr>)"

text \<open>
  Deleting a book (App.tsx, the \<^verbatim>\<open>onConfirm\<close> of the delete dialog of book \<open>b\<close>): one
  \<^verbatim>\<open>setData\<close> call with this updater.
\<^verbatim>\<open>
  setData((d) => {
    const chaptersToDelete = d.chapters.filter((c) => c.bookId === b.id).map((c) => c.id);
    const chaptersToDeleteSet = new Set(chaptersToDelete);
    return {
      ...d,
      books: d.books.filter((x) => x.id !== b.id),
      chapters: d.chapters.filter((c) => c.bookId !== b.id),
      qas: d.qas.filter((qa) => !chaptersToDelete.includes(qa.chapterId)),
      aiCoach: {
        ...d.aiCoach,
        selectedBookId: d.aiCoach.selectedBookId === b.id ? undefined : d.aiCoach.selectedBookId,
        selectedChapterId: chaptersToDeleteSet.has(d.aiCoach.selectedChapterId ?? "")
          ? undefined : d.aiCoach.selectedChapterId,
        generatedQuestions: d.aiCoach.generatedQuestions.filter((q) => !chaptersToDeleteSet.has(q.chapterId)),
        draftAnswers: d.aiCoach.draftAnswers.filter((a) => !chaptersToDeleteSet.has(a.chapterId)),
        feedbackHistory: d.aiCoach.feedbackHistory.filter((entry) => !chaptersToDeleteSet.has(entry.chapterId)),
      },
    };
  });
\<close>
\<close>

definition chaptersToDelete :: "Book \<Rightarrow> UserData \<Rightarrow> jsstring list" where
  "chaptersToDelete b d = map c_id (filter (\<lambda>c. c_bookId c = b_id b) (chapters d))"

definition deleteBook :: "Book \<Rightarrow> UserData \<Rightarrow> UserData" where
  "deleteBook b d =
     (let chaptersToDeleteSet = set (chaptersToDelete b d)
      in d\<lparr>books := filter (\<lambda>x. b_id x \<noteq> b_id b) (books d),
            chapters := filter (\<lambda>c. c_bookId c \<noteq> b_id b) (chapters d),
            qas := filter (\<lambda>qa. qa_chapterId qa \<notin> set (chaptersToDelete b d)) (qas d),
            aiCoach := (aiCoach d)
              \<lparr>selectedBookId :=
                 (if selectedBookId (aiCoach d) = Some (b_id b) then None
                  else selectedBookId (aiCoach d)),
               selectedChapterId :=
                 (if (case selectedChapterId (aiCoach d) of None \<Rightarrow> [] | Some c \<Rightarrow> c)
                       \<in> chaptersToDeleteSet
                  then None else selectedChapterId (aiCoach d)),
               generatedQuestions :=
                 filter (\<lambda>q. gq_chapterId q \<notin> chaptersToDeleteSet) (generatedQuestions (aiCoach d)),
               draftAnswers :=
                 filter (\<lambda>a. da_chapterId a \<notin> chaptersToDeleteSet) (draftAnswers (aiCoach d)),
               feedbackHistory :=
                 filter (\<lambda>entry. fe_chapterId entry \<notin> chaptersToDeleteSet)
                   (feedbackHistory (aiCoach d))\<rparr>\<rparr>)"

text \<open>
  \<^verbatim>\<open>generateAIQuestions\<close> (use-ai-coach.ts), from the response of the gateway on:
\<^verbatim>\<open>
      const rawQuestions = Array.isArray(response.questions) ? response.questions : [];
      const ts = nowISO();
      const seenIds = new Set<string>();
      const normalized: AIGeneratedQuestion[] = [];
      for (const item of rawQuestions) {
        const text = typeof item?.question === "string" ? clampStr(item.question.trim(), 500) : "";
        if (!text) continue;
        const candidateId = typeof item?.id === "string" ? item.id.trim() : "";
        let id = candidateId || uid("gq");
        if (seenIds.has(id)) id = uid("gq");
        seenIds.add(id);
        normalized.push({
          id, chapterId: aiSelectedChapter.id, question: text,
          rubric: typeof item?.rubric === "string" ? clampStr(item.rubric, 2000) : "",
          createdAt: ts, difficulty: config.difficulty, style: config.style,
        });
      }
      if (normalized.length === 0) {
        throw new Error("The AI service returned no usable questions.");
      }
      setData((prev) => ({
        ...prev,
        aiCoach: {
          ...prev.aiCoach,
          selectedBookId: aiSelectedBook.id,
          selectedChapterId: aiSelectedChapter.id,
          generatedQuestions: [
            ...normalized,
            ...prev.aiCoach.generatedQuestions.filter((question) => question.chapterId !== aiSelectedChapter.id),
          ],
          draftAnswers: prev.aiCoach.draftAnswers.filter((answer) => answer.chapterId !== aiSelectedChapter.id),
        },
      }));
      pushHistory({ type: "ai_questions_generated", ... });
\<close>
  \<^verbatim>\<open>uid("gq")\<close> draws a random id: \<open>uid k\<close> is what its call number \<open>k\<close> returns. The
  loop is \<open>gqLoop\<close>; its state is \<open>normalized\<close>, \<open>seenIds\<close> and the number of ids drawn.
\<close>

definition stringOr :: "jsval \<Rightarrow> jsstring option" where
  "stringOr v = (case v of JStr s \<Rightarrow> Some s | _ \<Rightarrow> None)"

fun gqLoop ::
  "jsstring \<Rightarrow> (nat \<Rightarrow> jsstring) \<Rightarrow> AICoachConfig \<Rightarrow> jsstring \<Rightarrow> jsval list \<Rightarrow>
   AIGeneratedQuestion list \<Rightarrow> jsstring set \<Rightarrow> nat \<Rightarrow> AIGeneratedQuestion list" where
  "gqLoop ts uid config chapterId [] normalized seenIds k = normalized"
| "gqLoop ts uid config chapterId (item # items) normalized seenIds k =
     (let text = (case stringOr (getOpt item ''question'') of
                    Some s \<Rightarrow> clampStrS (trim s) 500 | None \<Rightarrow> [])
      in if text = [] then gqLoop ts uid config chapterId items normalized seenIds k
         else
           let candidateId = (case stringOr (getOpt item ''id'') of
                                Some s \<Rightarrow> trim s | None \<Rightarrow> []);
               id0 = (if candidateId \<noteq> [] then candidateId else uid k);
               k1 = (if candidateId \<noteq> [] then k else Suc k);
               id1 = (if id0 \<in> seenIds then uid k1 else id0);
               k2 = (if id0 \<in> seenIds then Suc k1 else k1)
           in gqLoop ts uid config chapterId items
                (normalized @
                  [\<lparr>gq_id = id1, gq_chapterId = chapterId, gq_question = text,
                    gq_rubric = (case stringOr (getOpt item ''rubric'') of
                                   Some s \<Rightarrow> clampStrS s 2000 | None \<Rightarrow> []),
                    gq_createdAt = ts, gq_difficulty = cfg_difficulty config,
                    gq_style = cfg_style config\<rparr>])
                (insert id1 seenIds) k2)"

text \<open>The updater handed to \<^verbatim>\<open>setData\<close>.\<close>

definition storeGenerated ::
  "AIGeneratedQuestion list \<Rightarrow> Book \<Rightarrow> ChapterEntry \<Rightarrow> UserData \<Rightarrow> UserData" where
  "storeGenerated normalized aiSelectedBook aiSelectedChapter prev =
     prev\<lparr>aiCoach := (aiCoach prev)
       \<lparr>selectedBookId := Some (b_id aiSelectedBook),
        selectedChapterId := Some (c_id aiSelectedChapter),
        generatedQuestions :=
          normalized @
          filter (\<lambda>question. gq_chapterId question \<noteq> c_id aiSelectedChapter)
            (generatedQuestions (aiCoach prev)),
        draftAnswers :=
          filter (\<lambda>answer. da_chapterId answer \<noteq> c_id aiSelectedChapter)
            (draftAnswers (aiCoach prev))\<rparr>\<rparr>"

fun difficultyName :: "AIDifficulty \<Rightarrow> jsstring" where
  "difficultyName Easy = str ''easy''"
| "difficultyName Medium = str ''medium''"
| "difficultyName Hard = str ''hard''"
| "difficultyName MixedDifficulty = str ''mixed''"

fun styleName :: "AIQuestionStyle \<Rightarrow> jsstring" where
  "styleName Comprehension = str ''comprehension''"
| "styleName CriticalThinking = str ''critical_thinking''"
| "styleName MixedStyle = str ''mixed''"

text \<open>The action from the response on: \<open>Inl\<close> is the exception (caught by the action, which
  then leaves the state as it is), \<open>Inr\<close> the state after \<^verbatim>\<open>setData\<close> and \<^verbatim>\<open>pushHistory\<close>.
  \<open>hid\<close> is the id drawn for the history event and \<open>hts\<close> its time stamp.\<close>

definition generateAIQuestions ::
  "jsval \<Rightarrow> jsstring \<Rightarrow> (nat \<Rightarrow> jsstring) \<Rightarrow> jsstring \<Rightarrow> jsstring \<Rightarrow> jsstring \<Rightarrow>
   AICoachConfig \<Rightarrow> Book \<Rightarrow> ChapterEntry \<Rightarrow> UserData \<Rightarrow> error + UserData" where
  "generateAIQuestions response ts uid hid hts sessionUserId config aiSelectedBook aiSelectedChapter prev =
     bindE (getProp response ''questions'') (\<lambda>questions.
      let rawQuestions = asArray questions;
          normalized = gqLoop ts uid config (c_id aiSelectedChapter) rawQuestions [] {} 0
      in if length normalized = 0
         then Inl (Error (str ''The AI service returned no usable questions.''))
         else Inr (pushHistory
                \<lparr>h_id = [], h_type = AiQuestionsGenerated, h_ts = [],
                 h_userId = sessionUserId,
                 h_bookId = Some (b_id aiSelectedBook),
                 h_chapterId = Some (c_id aiSelectedChapter),
                 h_qaId = None,
                 h_label = str ''Generated '' @ decimal (length normalized) @ str '' AI question'' @
                           (if length normalized = 1 then [] else str ''s''),
                 h_meta = Some [(str ''difficulty'', difficultyName (cfg_difficulty config)),
                                (str ''style'', styleName (cfg_style config)),
                                (str ''count'', decimal (length normalized))]\<rparr>
                hid hts
                (storeGenerated normalized aiSelectedBook aiSelectedChapter prev)))"

section \<open>A sample library\<close>

text \<open>A small state on which the theorems below are exercised: two books, one chapter
  each, and one question, answer and artifact per chapter.\<close>

definition sampleBook :: "string \<Rightarrow> Book" where
  "sampleBook i =
     \<lparr>b_id = str i, b_title = str ''Title'', b_author = str ''Author'', b_genre = None,
      b_coverDataUrl = None, b_status = InProgress, b_startedAt = None, b_finishedAt = None,
      b_createdAt = str ''2025-01-01'', b_updatedAt = str ''2025-01-01''\<rparr>"

definition sampleChapter :: "string \<Rightarrow> string \<Rightarrow> ChapterEntry" where
  "sampleChapter i bk =
     \<lparr>c_id = str i, c_bookId = str bk, c_number = None, c_title = None, c_completedAt = None,
      c_summary = str ''summary'', c_takeaways = [], c_quotes = [], c_reflection = [],
      c_createdAt = str ''2025-01-01'', c_updatedAt = str ''2025-01-01''\<rparr>"

definition sampleQA :: "string \<Rightarrow> string \<Rightarrow> QA" where
  "sampleQA i ch =
     \<lparr>qa_id = str i, qa_chapterId = str ch, qa_question = str ''Q'', qa_answer = str ''A'',
      qa_createdAt = str ''2025-01-01'', qa_updatedAt = str ''2025-01-01''\<rparr>"

definition sampleQuestion :: "string \<Rightarrow> string \<Rightarrow> AIGeneratedQuestion" where
  "sampleQuestion i ch =
     \<lparr>gq_id = str i, gq_chapterId = str ch, gq_question = str ''What happened?'',
      gq_rubric = [], gq_createdAt = str ''2025-01-01'', gq_difficulty = Easy,
      gq_style = Comprehension\<rparr>"

definition sampleDraft :: "string \<Rightarrow> string \<Rightarrow> AIDraftAnswer" where
  "sampleDraft ch q =
     \<lparr>da_chapterId = str ch, da_questionId = str q, da_answer = str ''It happened.'',
      da_updatedAt = str ''2025-01-01''\<rparr>"

definition sampleFeedback :: "string \<Rightarrow> string \<Rightarrow> string \<Rightarrow> AIFeedbackEntry" where
  "sampleFeedback i bk ch =
     \<lparr>fe_id = str i, fe_bookId = str bk, fe_chapterId = str ch,
      fe_createdAt = str ''2025-01-01'', fe_difficulty = Easy, fe_style = Comprehension,
      fe_averageScore = 80, fe_results = []\<rparr>"

definition sampleConfig :: AICoachConfig where
  "sampleConfig = \<lparr>cfg_count = 6, cfg_difficulty = MixedDifficulty, cfg_style = Comprehension\<rparr>"

definition sampleState :: UserData where
  "sampleState =
     \<lparr>books = [sampleBook ''b1'', sampleBook ''b2''],
      chapters = [sampleChapter ''c1'' ''b1'', sampleChapter ''c2'' ''b2''],
      qas = [sampleQA ''qa1'' ''c1'', sampleQA ''qa2'' ''c2''],
      history = [],
      aiCoach =
        \<lparr>selectedBookId = Some (str ''b1''), selectedChapterId = Some (str ''c1''),
         lastConfig = sampleConfig,
         generatedQuestions = [sampleQuestion ''g1'' ''c1'', sampleQuestion ''g2'' ''c2''],
         draftAnswers = [sampleDraft ''c1'' ''g1'', sampleDraft ''c2'' ''g2''],
         feedbackHistory = [sampleFeedback ''f1'' ''b1'' ''c1'', sampleFeedback ''f2'' ''b2'' ''c2'']\<rparr>\<rparr>"

definition sampleEvent :: HistoryEvent where
  "sampleEvent =
     \<lparr>h_id = [], h_type = BookCreated, h_ts = [], h_userId = str ''u1'', h_bookId = None,
      h_chapterId = None, h_qaId = None, h_label = str ''Added book'', h_meta = None\<rparr>"

text \<open>A gateway response: a question with an id and padded text, a blank one, an entry
  that is no object, and a question with a rubric and no id.\<close>

definition sampleResponse :: jsval where
  "sampleResponse =
     JObj [(str ''questions'',
        JArr [JObj [(str ''id'', JStr (str ''n1'')), (str ''question'', JStr (str '' Why? ''))],
              JObj [(str ''question'', JStr (str ''  ''))],
              JNull,
              JObj [(str ''question'', JStr (str ''How?'')), (str ''rubric'', JStr (str ''steps''))]])]"

text \<open>A stand-in for \<^verbatim>\<open>JSON.parse\<close> that reads the texts \<^verbatim>\<open>{}\<close> and \<^verbatim>\<open>[1]\<close> and nothing
  else.\<close>

definition sampleParse :: "jsstring \<Rightarrow> jsval option" where
  "sampleParse s =
     (if s = str ''{}'' then Some (JObj [])
      else if s = str ''[1]'' then Some (JArr [JNum (Fin 1)])
      else None)"

text \<open>
  Two provider contents on which the text that is parsed is not the content. \<open>bomOne\<close>
  is the digit 1 after a byte order mark: \<^verbatim>\<open>JSON.parse\<close> rejects it (JSON allows TAB, LF, CR
  and SP around a value, and nothing else) and reads the trimmed text \<^verbatim>\<open>1\<close>; \<open>oneParse\<close>
  is \<^verbatim>\<open>JSON.parse\<close> on these two texts. \<open>longObject\<close> is an object literal of 25002 code
  units, \<^verbatim>\<open>{\<close>, 25000 spaces and \<^verbatim>\<open>}\<close>: \<^verbatim>\<open>JSON.parse\<close> reads it as the empty object and
  rejects its first 25000 code units, which have no closing brace; \<open>longParse\<close> is
  \<^verbatim>\<open>JSON.parse\<close> on these two texts.
\<close>

definition bomOne :: jsstring where
  "bomOne = [65279, 49]"

definition oneParse :: "jsstring \<Rightarrow> jsval option" where
  "oneParse s = (if s = [49] then Some (JNum (Fin 1)) else None)"

definition longObject :: jsstring where
  "longObject = 123 # replicate 25000 32 @ [125]"

definition longParse :: "jsstring \<Rightarrow> jsval option" where
  "longParse s = (if s = longObject then Some (JObj []) else None)"

text \<open>Stored blobs. \<open>sampleBlob\<close> is the blob of the repository's test "normalizes and
  filters invalid relational data" (tests/data.test.ts), without the fields the normaliser
  does not read and with a draft answer that has no \<^verbatim>\<open>updatedAt\<close>;
  \<open>sampleBlobNormalized\<close> is what the test expects of it. \<open>staleChapterBlob\<close> selects a
  chapter that does not exist. \<open>blankQuestionBlob\<close> stores a question of 500 spaces and
  a letter; \<open>blankQuestionOut\<close> is its normal form around a list of questions.\<close>

definition sampleClock :: "nat \<Rightarrow> nat \<Rightarrow> jsstring" where
  "sampleClock k i = str ''2025-06-01T00:00:00.000Z''"

definition strField :: "string \<Rightarrow> string \<Rightarrow> jsstring \<times> jsval" where
  "strField k v = (str k, JStr (str v))"

definition sampleBlob :: jsval where
  "sampleBlob =
     JObj [
      (str ''books'', JArr [JObj [strField ''id'' ''b1'', strField ''title'' ''Book 1'']]),
      (str ''chapters'', JArr
         [JObj [strField ''id'' ''ch1'', strField ''bookId'' ''b1''],
          JObj [strField ''id'' ''ch2'', strField ''bookId'' ''missing-book'']]),
      (str ''qas'', JArr
         [JObj [strField ''id'' ''qa1'', strField ''chapterId'' ''ch1''],
          JObj [strField ''id'' ''qa2'', strField ''chapterId'' ''missing-chapter'']]),
      (str ''history'', JArr
         [JObj [strField ''id'' ''h1'', strField ''type'' ''book_created''],
          JObj [strField ''id'' ''h2'', strField ''type'' ''not_real'']]),
      (str ''aiCoach'', JObj
         [strField ''selectedBookId'' ''b1'',
          strField ''selectedChapterId'' ''missing-chapter'',
          (str ''lastConfig'', JObj [(str ''count'', JNum (Fin 99)),
              strField ''difficulty'' ''nope'', strField ''style'' ''nope'']),
          (str ''generatedQuestions'', JArr
             [JObj [strField ''id'' ''g1'', strField ''chapterId'' ''ch1'',
                    strField ''question'' ''What happened?'', strField ''rubric'' ''Key events.'',
                    strField ''createdAt'' ''2025-01-01'', strField ''difficulty'' ''easy'',
                    strField ''style'' ''comprehension''],
              JObj [strField ''id'' ''bad-g'', strField ''chapterId'' ''missing-chapter'',
                    strField ''question'' ''drop me'']]),
          (str ''draftAnswers'', JArr
             [JObj [strField ''chapterId'' ''ch1'', strField ''questionId'' ''g1'',
                    strField ''answer'' ''It happened.''],
              JObj [strField ''chapterId'' ''ch1'', strField ''questionId'' ''missing-question'',
                    strField ''answer'' ''drop'']]),
          (str ''feedbackHistory'', JArr
             [JObj [strField ''id'' ''f1'', strField ''bookId'' ''b1'', strField ''chapterId'' ''ch1'',
                    strField ''createdAt'' ''2025-01-01'', strField ''difficulty'' ''easy'',
                    strField ''style'' ''comprehension'', (str ''averageScore'', JNum (Fin 150)),
                    (str ''results'', JArr
                       [JObj [strField ''questionId'' ''g1'', strField ''question'' ''What happened?'',
                              strField ''studentAnswer'' ''It happened.'', (str ''score'', JNum (Fin 120)),
                              strField ''feedback'' ''Good'', strField ''idealAnswer'' ''Ideal''],
                        JObj [(str ''questionId'', JNum (Fin 123)), strField ''question'' ''drop'',
                              strField ''studentAnswer'' ''drop'', (str ''score'', JNum (Fin 50))]])],
              JObj [strField ''id'' ''bad-feedback'', strField ''bookId'' ''missing-book'',
                    strField ''chapterId'' ''ch1'', (str ''results'', JArr [])]])])]"

definition sampleBlobNormalized :: jsval where
  "sampleBlobNormalized =
     JObj [
      (str ''books'', JArr [JObj [strField ''id'' ''b1'', strField ''title'' ''Book 1'']]),
      (str ''chapters'', JArr [JObj [strField ''id'' ''ch1'', strField ''bookId'' ''b1'']]),
      (str ''qas'', JArr [JObj [strField ''id'' ''qa1'', strField ''chapterId'' ''ch1'']]),
      (str ''history'', JArr [JObj [strField ''id'' ''h1'', strField ''type'' ''book_created'']]),
      (str ''aiCoach'', JObj
         [strField ''selectedBookId'' ''b1'',
          strField ''selectedChapterId'' ''ch1'',
          (str ''lastConfig'', JObj [(str ''count'', JNum (Fin 15)),
              strField ''difficulty'' ''mixed'', strField ''style'' ''comprehension'']),
          (str ''generatedQuestions'', JArr
             [JObj [strField ''id'' ''g1'', strField ''chapterId'' ''ch1'',
                    strField ''question'' ''What happened?'', strField ''rubric'' ''Key events.'',
                    strField ''createdAt'' ''2025-01-01'', strField ''difficulty'' ''easy'',
                    strField ''style'' ''comprehension'']]),
          (str ''draftAnswers'', JArr
             [JObj [strField ''chapterId'' ''ch1'', strField ''questionId'' ''g1'',
                    strField ''answer'' ''It happened.'',
                    strField ''updatedAt'' ''2025-06-01T00:00:00.000Z'']]),
          (str ''feedbackHistory'', JArr
             [JObj [strField ''id'' ''f1'', strField ''bookId'' ''b1'', strField ''chapterId'' ''ch1'',
                    strField ''createdAt'' ''2025-01-01'', strField ''difficulty'' ''easy'',
                    strField ''style'' ''comprehension'', (str ''averageScore'', JNum (Fin 100)),
                    (str ''results'', JArr
                       [JObj [strField ''questionId'' ''g1'', strField ''question'' ''What happened?'',
                              strField ''studentAnswer'' ''It happened.'', (str ''score'', JNum (Fin 100)),
                              strField ''feedback'' ''Good'', strField ''idealAnswer'' ''Ideal'']])]])])]"

definition staleChapterBlob :: jsval where
  "staleChapterBlob =
     JObj [(str ''books'', JArr [JObj [strField ''id'' ''b1'']]),
           (str ''chapters'', JArr [JObj [strField ''id'' ''ch1'', strField ''bookId'' ''b1'']]),
           (str ''aiCoach'', JObj [strField ''selectedBookId'' ''b1'',
                                   strField ''selectedChapterId'' ''missing-chapter''])]"

text \<open>\<open>orphanBlob\<close> stores a book without \<open>id\<close>, a chapter without \<open>bookId\<close> (and
  without \<open>id\<close>) and a Q&A without \<open>chapterId\<close>; \<open>scalarBlob\<close> stores numbers, an empty
  object, a boolean and a string where entries are expected; \<open>defaultCoach\<close> is the
  \<open>aiCoach\<close> part of a normal form with nothing selected and no AI entries.
  \<open>unnamedChapterBlob\<close> selects a book whose first chapter has no \<open>id\<close>.\<close>

definition orphanBlob :: jsval where
  "orphanBlob =
     JObj [(str ''books'', JArr [JObj [strField ''title'' ''T'']]),
           (str ''chapters'', JArr [JObj [strField ''summary'' ''S'']]),
           (str ''qas'', JArr [JObj [strField ''question'' ''Q'']])]"

definition scalarBlob :: jsval where
  "scalarBlob =
     JObj [(str ''books'', JArr [JNum (Fin 5)]),
           (str ''chapters'', JArr [JNum (Fin 7), JObj []]),
           (str ''qas'', JArr [JBool True, JStr (str ''s'')])]"

definition defaultCoach :: jsval where
  "defaultCoach =
     JObj [(str ''selectedBookId'', JUndefined),
           (str ''selectedChapterId'', JUndefined),
           (str ''lastConfig'', JObj [(str ''count'', JNum (Fin 6)),
               strField ''difficulty'' ''mixed'', strField ''style'' ''comprehension'']),
           (str ''generatedQuestions'', JArr []),
           (str ''draftAnswers'', JArr []),
           (str ''feedbackHistory'', JArr [])]"

definition unnamedChapterBlob :: jsval where
  "unnamedChapterBlob =
     JObj [(str ''books'', JArr [JObj [strField ''id'' ''b1'']]),
           (str ''chapters'', JArr [JObj [strField ''bookId'' ''b1''],
                                    JObj [strField ''id'' ''c2'', strField ''bookId'' ''b1'']]),
           (str ''aiCoach'', JObj [strField ''selectedBookId'' ''b1'',
                                   strField ''selectedChapterId'' ''missing-chapter''])]"

definition blankQuestionBlob :: jsval where
  "blankQuestionBlob =
     JObj [(str ''books'', JArr [JObj [strField ''id'' ''b1'']]),
           (str ''chapters'', JArr [JObj [strField ''id'' ''ch1'', strField ''bookId'' ''b1'']]),
           (str ''aiCoach'', JObj
              [(str ''generatedQuestions'', JArr
                 [JObj [strField ''id'' ''g1'', strField ''chapterId'' ''ch1'',
                        (str ''question'', JStr (replicate 500 32 @ str ''a'')),
                        strField ''createdAt'' ''2025-01-01'']])])]"

definition blankQuestion :: jsval where
  "blankQuestion =
     JObj [strField ''id'' ''g1'', strField ''chapterId'' ''ch1'',
           (str ''question'', JStr (replicate 500 32)),
           strField ''rubric'' '''',
           strField ''createdAt'' ''2025-01-01'',
           strField ''difficulty'' ''mixed'', strField ''style'' ''comprehension'']"

definition blankQuestionOut :: "jsval list \<Rightarrow> jsval" where
  "blankQuestionOut questions =
     JObj [(str ''books'', JArr [JObj [strField ''id'' ''b1'']]),
           (str ''chapters'', JArr [JObj [strField ''id'' ''ch1'', strField ''bookId'' ''b1'']]),
           (str ''qas'', JArr []),
           (str ''history'', JArr []),
           (str ''aiCoach'', JObj
             [(str ''selectedBookId'', JUndefined),
              (str ''selectedChapterId'', JUndefined),
              (str ''lastConfig'', JObj [(str ''count'', JNum (Fin 6)),
                  strField ''difficulty'' ''mixed'', strField ''style'' ''comprehension'']),
              (str ''generatedQuestions'', JArr questions),
              (str ''draftAnswers'', JArr []),
              (str ''feedbackHistory'', JArr [])])]"

section \<open>Properties\<close>

lemma str_simps:
  "str [] = []" "str (c # cs) = of_char c # str cs"
  by (simp_all add: str_def)

text \<open>
  C1 (uniqueness of ids fails). The payload
  \<^verbatim>\<open>{"questions":[{"id":"q2","question":"A"},{"question":"B"}]}\<close> with \<open>count = 6\<close>:
  the first row keeps its id \<open>q2\<close>; the second has none and is given
  \<^verbatim>\<open>`q${out.length + 1}`\<close>, which is \<open>q2\<close> again, since the synthetic id is not looked up
  in \<open>usedIds\<close>. The response holds two questions with the same id.
\<close>

theorem normalizeQuestions_duplicate_id:
  "normalizeQuestions
      (JObj [(str ''questions'',
         JArr [JObj [(str ''id'', JStr (str ''q2'')), (str ''question'', JStr (str ''A''))],
               JObj [(str ''question'', JStr (str ''B''))]])]) 6
   = [\<lparr>q_id = str ''q2'', q_question = str ''A'', q_rubric = []\<rparr>,
      \<lparr>q_id = str ''q2'', q_question = str ''B'', q_rubric = []\<rparr>]"
  by (simp add: normalizeQuestions_def getOpt_def clampText_def trim_def isWhiteSpace_def
      sliceStr_def str_simps Let_def decimal.simps)

lemma clampText_length: "length (clampText v n) \<le> n"
  by (cases v) (simp_all add: clampText_def sliceStr_def Let_def)

lemma nqLoop_bounds:
  assumes "\<forall>r \<in> set out. q_question r \<noteq> [] \<and> length (q_question r) \<le> 500 \<and> q_id r \<noteq> []
             \<and> length (q_rubric r) \<le> 2000"
  shows "(\<forall>r \<in> set (nqLoop n rows out used).
            q_question r \<noteq> [] \<and> length (q_question r) \<le> 500 \<and> q_id r \<noteq> []
             \<and> length (q_rubric r) \<le> 2000)
       \<and> int (length (nqLoop n rows out used)) \<le> max n (int (length out))"
  using assms
proof (induction rows arbitrary: out used)
  case Nil
  then show ?case by simp
next
  case (Cons row rows)
  show ?case
  proof (cases "int (length out) \<ge> n")
    case True
    then show ?thesis using Cons.prems by simp
  next
    case full: False
    show ?thesis
    proof (cases "clampText (getOpt row ''question'') 500 = []")
      case True
      then show ?thesis using full Cons.IH[OF Cons.prems] by simp
    next
      case False
      define id1 where "id1 = (if clampText (getOpt row ''id'') 120 = [] \<or>
            clampText (getOpt row ''id'') 120 \<in> used
          then str ''q'' @ decimal (length out + 1) else clampText (getOpt row ''id'') 120)"
      define r where "r = \<lparr>q_id = id1, q_question = clampText (getOpt row ''question'') 500,
                         q_rubric = clampText (getOpt row ''rubric'') 2000\<rparr>"
      have "id1 \<noteq> []" by (simp add: id1_def str_simps)
      then have p: "\<forall>r \<in> set (out @ [r]). q_question r \<noteq> [] \<and> length (q_question r) \<le> 500
          \<and> q_id r \<noteq> [] \<and> length (q_rubric r) \<le> 2000"
        using Cons.prems False by (simp add: r_def clampText_length)
      have e: "nqLoop n (row # rows) out used = nqLoop n rows (out @ [r]) (insert id1 used)"
        using full False by (simp add: Let_def r_def id1_def)
      from Cons.IH[OF p, of "insert id1 used"] full show ?thesis unfolding e by auto
    qed
  qed
qed

text \<open>
  The other bounds on the generated questions hold for every payload and every count: the
  response has at most \<open>count\<close> rows (none when \<open>count\<close> is not positive), and each row
  has a question text that is not empty and of at most 500 code units, an id that is not
  empty and a rubric of at most 2000 code units.
\<close>

lemma normalizeQuestions_bounds:
  "int (length (normalizeQuestions parsed n)) \<le> max n 0
   \<and> (\<forall>r \<in> set (normalizeQuestions parsed n).
        q_question r \<noteq> [] \<and> length (q_question r) \<le> 500 \<and> q_id r \<noteq> []
        \<and> length (q_rubric r) \<le> 2000)"
  using nqLoop_bounds[of "[]" n _ "{}"] by (simp add: normalizeQuestions_def Let_def)

lemma bindE_Inr_iff: "bindE m f = Inr y \<longleftrightarrow> (\<exists>x. m = Inr x \<and> f x = Inr y)"
  by (cases m) (simp_all add: bindE_def)

lemma getProp_Inr_getOpt: "getProp v k = Inr x \<Longrightarrow> getOpt v k = x"
  by (auto simp: getProp_def getOpt_def split: jsval.splits option.splits)

subsection \<open>The history list\<close>


subsection \<open>Deleting a book\<close>

text \<open>
  C8. After \<open>deleteBook b\<close> (one state replacement) the state holds no book with the id of
  \<open>b\<close>, no chapter of that book, and no Q&A, generated question, draft answer or
  feedback entry whose \<open>chapterId\<close> is the id of a chapter that was removed; the selected
  book is cleared when it was \<open>b\<close> and the selected chapter when it was a removed chapter,
  so neither pointer refers to what was removed.
\<close>

theorem deleteBook_cascade:
  "(\<forall>x \<in> set (books (deleteBook b d)). b_id x \<noteq> b_id b)
   \<and> (\<forall>c \<in> set (chapters (deleteBook b d)). c_bookId c \<noteq> b_id b)
   \<and> (\<forall>qa \<in> set (qas (deleteBook b d)).
        qa_chapterId qa \<notin> c_id ` {c \<in> set (chapters d). c_bookId c = b_id b})
   \<and> (\<forall>q \<in> set (generatedQuestions (aiCoach (deleteBook b d))).
        gq_chapterId q \<notin> c_id ` {c \<in> set (chapters d). c_bookId c = b_id b})
   \<and> (\<forall>a \<in> set (draftAnswers (aiCoach (deleteBook b d))).
        da_chapterId a \<notin> c_id ` {c \<in> set (chapters d). c_bookId c = b_id b})
   \<and> (\<forall>e \<in> set (feedbackHistory (aiCoach (deleteBook b d))).
        fe_chapterId e \<notin> c_id ` {c \<in> set (chapters d). c_bookId c = b_id b})
   \<and> (selectedBookId (aiCoach d) = Some (b_id b) \<longrightarrow>
        selectedBookId (aiCoach (deleteBook b d)) = None)
   \<and> (\<forall>c \<in> c_id ` {c \<in> set (chapters d). c_bookId c = b_id b}.
        selectedChapterId (aiCoach d) = Some c \<longrightarrow>
        selectedChapterId (aiCoach (deleteBook b d)) = None)
   \<and> selectedBookId (aiCoach (deleteBook b d)) \<noteq> Some (b_id b)
   \<and> (\<forall>c \<in> c_id ` {c \<in> set (chapters d). c_bookId c = b_id b}.
        selectedChapterId (aiCoach (deleteBook b d)) \<noteq> Some c)"
proof -
  have r: "set (chaptersToDelete b d) = c_id ` {c \<in> set (chapters d). c_bookId c = b_id b}"
    by (auto simp: chaptersToDelete_def)
  show ?thesis
    unfolding deleteBook_def Let_def r
    by (auto split: option.splits)
qed

lemmas sample_defs =
  sampleBook_def sampleChapter_def sampleQA_def sampleQuestion_def sampleDraft_def
  sampleFeedback_def sampleConfig_def sampleState_def sampleEvent_def str_simps

theorem deleteBook_cascade_witness:
  "sampleChapter ''c2'' ''b2'' \<in> set (chapters (deleteBook (sampleBook ''b1'') sampleState))
   \<and> c_bookId (sampleChapter ''c2'' ''b2'') \<noteq> b_id (sampleBook ''b1'')
   \<and> sampleQA ''qa2'' ''c2'' \<in> set (qas (deleteBook (sampleBook ''b1'') sampleState))
   \<and> qa_chapterId (sampleQA ''qa2'' ''c2'')
        \<notin> c_id ` {c \<in> set (chapters sampleState). c_bookId c = b_id (sampleBook ''b1'')}
   \<and> str ''c1'' \<in> c_id ` {c \<in> set (chapters sampleState). c_bookId c = b_id (sampleBook ''b1'')}
   \<and> selectedBookId (aiCoach sampleState) = Some (b_id (sampleBook ''b1''))
   \<and> selectedChapterId (aiCoach sampleState) = Some (str ''c1'')
   \<and> selectedBookId (aiCoach (deleteBook (sampleBook ''b1'') sampleState)) = None
   \<and> selectedChapterId (aiCoach (deleteBook (sampleBook ''b1'') sampleState)) = None"
proof -
  have m1: "sampleChapter ''c2'' ''b2'' \<in> set (chapters (deleteBook (sampleBook ''b1'') sampleState))"
    by (simp add: deleteBook_def chaptersToDelete_def sample_defs)
  have m2: "sampleQA ''qa2'' ''c2'' \<in> set (qas (deleteBook (sampleBook ''b1'') sampleState))"
    by (simp add: deleteBook_def chaptersToDelete_def sample_defs)
  have m3: "str ''c1'' \<in> c_id ` {c \<in> set (chapters sampleState). c_bookId c = b_id (sampleBook ''b1'')}"
    by (force simp: sample_defs)
  have m4: "selectedBookId (aiCoach sampleState) = Some (b_id (sampleBook ''b1''))"
    and m5: "selectedChapterId (aiCoach sampleState) = Some (str ''c1'')"
    by (simp_all add: sample_defs)
  from deleteBook_cascade [of "sampleBook ''b1''" sampleState] m1 m2 m3 m4 m5
  show ?thesis by blast
qed

subsection \<open>Storing generated questions\<close>

lemma gqLoop_chapterId:
  "(\<forall>q \<in> set normalized. gq_chapterId q = C) \<Longrightarrow>
   (\<forall>q \<in> set (gqLoop ts uid config C items normalized seenIds k). gq_chapterId q = C)"
proof (induction items arbitrary: normalized seenIds k)
  case Nil
  then show ?case by simp
next
  case (Cons item items)
  show ?case
  proof (cases "(case stringOr (getOpt item ''question'') of
                    Some s \<Rightarrow> clampStrS (trim s) 500 | None \<Rightarrow> []) = []")
    case True
    then show ?thesis using Cons.IH[OF Cons.prems] by (simp add: Let_def)
  next
    case False
    show ?thesis
      apply (simp add: Let_def False split del: if_split)
      apply (rule Cons.IH)
      apply (simp add: Cons.prems)
      done
  qed
qed

text \<open>
  C9. When \<open>generateAIQuestions\<close> succeeds for the selected chapter \<open>C\<close>, with
  \<open>normalized\<close> the questions its loop built from the response: every one of them
  belongs to \<open>C\<close>; the stored list is \<open>normalized\<close> followed by the stored questions of
  the other chapters, so the questions of \<open>C\<close> in it are exactly \<open>normalized\<close> and those
  of every other chapter are as before; the stored draft answers are those of the other
  chapters, as before, and none of \<open>C\<close> is left.
\<close>

theorem generateAIQuestions_replaces_chapter:
  assumes "generateAIQuestions response ts uid hid hts sessionUserId config
             aiSelectedBook aiSelectedChapter prev = Inr d'"
  defines "C \<equiv> c_id aiSelectedChapter"
  defines "normalized \<equiv> gqLoop ts uid config C (asArray (getOpt response ''questions'')) [] {} 0"
  shows "normalized \<noteq> []
      \<and> (\<forall>q \<in> set normalized. gq_chapterId q = C)
      \<and> generatedQuestions (aiCoach d') =
          normalized @ filter (\<lambda>q. gq_chapterId q \<noteq> C) (generatedQuestions (aiCoach prev))
      \<and> filter (\<lambda>q. gq_chapterId q = C) (generatedQuestions (aiCoach d')) = normalized
      \<and> filter (\<lambda>q. gq_chapterId q \<noteq> C) (generatedQuestions (aiCoach d'))
          = filter (\<lambda>q. gq_chapterId q \<noteq> C) (generatedQuestions (aiCoach prev))
      \<and> filter (\<lambda>a. da_chapterId a = C) (draftAnswers (aiCoach d')) = []
      \<and> filter (\<lambda>a. da_chapterId a \<noteq> C) (draftAnswers (aiCoach d'))
          = filter (\<lambda>a. da_chapterId a \<noteq> C) (draftAnswers (aiCoach prev))"
proof -
  from assms(1) obtain questions where q: "getProp response ''questions'' = Inr questions"
    unfolding generateAIQuestions_def bindE_Inr_iff by blast
  have n: "normalized = gqLoop ts uid config (c_id aiSelectedChapter) (asArray questions) [] {} 0"
    by (simp add: normalized_def C_def getProp_Inr_getOpt[OF q])
  have ne: "normalized \<noteq> []"
  proof
    assume "normalized = []"
    then have "gqLoop ts uid config (c_id aiSelectedChapter) (asArray questions) [] {} 0 = []"
      by (simp add: n)
    with assms(1) show False
      by (simp add: generateAIQuestions_def q bindE_def Let_def)
  qed
  have gq: "generatedQuestions (aiCoach d') =
          normalized @ filter (\<lambda>q. gq_chapterId q \<noteq> C) (generatedQuestions (aiCoach prev))"
    and da: "draftAnswers (aiCoach d')
          = filter (\<lambda>a. da_chapterId a \<noteq> C) (draftAnswers (aiCoach prev))"
    using assms(1) ne unfolding n C_def
    by (auto simp: generateAIQuestions_def q bindE_def pushHistory_def storeGenerated_def Let_def)
  have all: "\<forall>q \<in> set normalized. gq_chapterId q = C"
    unfolding n C_def by (rule gqLoop_chapterId) simp
  have f1: "filter (\<lambda>q. gq_chapterId q = C) normalized = normalized"
    using all by (simp add: filter_id_conv)
  have f2: "filter (\<lambda>q. gq_chapterId q \<noteq> C) normalized = []"
    using all by (simp add: filter_empty_conv)
  show ?thesis
    using ne all by (simp add: gq da f1 f2)
qed

lemmas eval_defs = getOpt_def getProp_def asArray_def stringOr_def trim_def isWhiteSpace_def
  clampStrS_def sliceStr_def Let_def

lemma sample_gqLoop:
  "gqLoop (str ''T'') (\<lambda>k. str ''gq'' @ decimal k) sampleConfig (str ''c1'')
     (asArray (getOpt sampleResponse ''questions'')) [] {} 0
   = [\<lparr>gq_id = str ''n1'', gq_chapterId = str ''c1'', gq_question = str ''Why?'',
        gq_rubric = [], gq_createdAt = str ''T'', gq_difficulty = MixedDifficulty,
        gq_style = Comprehension\<rparr>,
      \<lparr>gq_id = str ''gq0'', gq_chapterId = str ''c1'', gq_question = str ''How?'',
        gq_rubric = str ''steps'', gq_createdAt = str ''T'', gq_difficulty = MixedDifficulty,
        gq_style = Comprehension\<rparr>]"
  by (simp add: sampleResponse_def eval_defs sample_defs decimal.simps)

lemma generateAIQuestions_succeeds:
  "getProp response ''questions'' = Inr qs \<Longrightarrow>
   gqLoop ts uid config (c_id ch) (asArray qs) [] {} 0 \<noteq> [] \<Longrightarrow>
   \<exists>d'. generateAIQuestions response ts uid hid hts u config b ch prev = Inr d'"
  by (simp add: generateAIQuestions_def bindE_def Let_def)

theorem generateAIQuestions_replaces_chapter_witness:
  "generateAIQuestions sampleResponse (str ''T'') (\<lambda>k. str ''gq'' @ decimal k) (str ''h1'') (str ''T'')
      (str ''u1'') sampleConfig (sampleBook ''b1'') (sampleChapter ''c1'' ''b1'') sampleState
     = Inr (projr (generateAIQuestions sampleResponse (str ''T'') (\<lambda>k. str ''gq'' @ decimal k)
              (str ''h1'') (str ''T'') (str ''u1'') sampleConfig (sampleBook ''b1'')
              (sampleChapter ''c1'' ''b1'') sampleState))
   \<and> map gq_id (generatedQuestions (aiCoach (projr (generateAIQuestions sampleResponse (str ''T'')
              (\<lambda>k. str ''gq'' @ decimal k) (str ''h1'') (str ''T'') (str ''u1'') sampleConfig
              (sampleBook ''b1'') (sampleChapter ''c1'' ''b1'') sampleState))))
       = [str ''n1'', str ''gq0'', str ''g2'']
   \<and> filter (\<lambda>a. da_chapterId a = str ''c1'')
        (draftAnswers (aiCoach (projr (generateAIQuestions sampleResponse (str ''T'')
              (\<lambda>k. str ''gq'' @ decimal k) (str ''h1'') (str ''T'') (str ''u1'') sampleConfig
              (sampleBook ''b1'') (sampleChapter ''c1'' ''b1'') sampleState)))) = []
   \<and> filter (\<lambda>a. da_chapterId a \<noteq> str ''c1'')
        (draftAnswers (aiCoach (projr (generateAIQuestions sampleResponse (str ''T'')
              (\<lambda>k. str ''gq'' @ decimal k) (str ''h1'') (str ''T'') (str ''u1'') sampleConfig
              (sampleBook ''b1'') (sampleChapter ''c1'' ''b1'') sampleState))))
       = [sampleDraft ''c2'' ''g2'']"
proof -
  let ?G = "generateAIQuestions sampleResponse (str ''T'') (\<lambda>k. str ''gq'' @ decimal k)
              (str ''h1'') (str ''T'') (str ''u1'') sampleConfig (sampleBook ''b1'')
              (sampleChapter ''c1'' ''b1'') sampleState"
  have c: "c_id (sampleChapter ''c1'' ''b1'') = str ''c1''" by (simp add: sampleChapter_def)
  have q: "getProp sampleResponse ''questions'' = Inr (getOpt sampleResponse ''questions'')"
    by (simp add: sampleResponse_def getProp_def getOpt_def)
  have "\<exists>d'. ?G = Inr d'"
    by (rule generateAIQuestions_succeeds[OF q]) (simp add: c sample_gqLoop)
  then have e: "?G = Inr (projr ?G)" by auto
  note t = generateAIQuestions_replaces_chapter [OF e, unfolded c sample_gqLoop]
  have p1: "filter (\<lambda>q. gq_chapterId q \<noteq> str ''c1'') (generatedQuestions (aiCoach sampleState))
      = [sampleQuestion ''g2'' ''c2'']"
    and p2: "filter (\<lambda>a. da_chapterId a \<noteq> str ''c1'') (draftAnswers (aiCoach sampleState))
      = [sampleDraft ''c2'' ''g2'']"
    by (simp_all add: sample_defs)
  show ?thesis using e t by (simp add: p1 p2 sampleQuestion_def)
qed

subsection \<open>Grades\<close>

lemma toInt_integral:
  assumes "toInt v fallback = Inr n" "fallback \<in> \<int>"
  shows "n \<in> \<int>"
proof -
  from assms(1) obtain x where
    "(case x of Fin r \<Rightarrow> Inr (mathRound r) | _ \<Rightarrow> Inr fallback) = (Inr n :: error + real)"
    by (auto simp: toInt_def bindE_Inr_iff)
  then show ?thesis
    using assms(2) by (cases x) (auto simp: mathRound_def)
qed

lemma answerById_Some:
  "answerById answers q = Some a \<Longrightarrow> q \<in> a_questionId ` set answers"
  unfolding answerById_def by (drule map_of_SomeD) auto


lemma clamp_score: "n \<in> \<int> \<Longrightarrow> max 0 (min 100 n) \<in> \<int> \<and> 0 \<le> max 0 (min 100 n) \<and> max 0 (min 100 n) \<le> (100::real)"
  by (auto simp: max_def min_def)

lemma ngLoop_inv:
  assumes "ngLoop byId rows out = Inr res"
    and "\<forall>r \<in> set out. gradedOk ids r"
    and "\<And>q a. byId q = Some a \<Longrightarrow> q \<in> ids"
  shows "\<forall>r \<in> set res. gradedOk ids r"
  using assms(1,2)
proof (induction rows arbitrary: out)
  case Nil
  then show ?case by simp
next
  case (Cons row rows)
  let ?q = "clampText (getOpt row ''questionId'') 120"
  show ?case
  proof (cases "if ?q = [] then None else byId ?q")
    case None
    with Cons.prems(1) have "ngLoop byId rows out = Inr res" by (simp add: Let_def)
    then show ?thesis using Cons.prems(2) by (rule Cons.IH)
  next
    case (Some answer)
    then have q: "?q \<in> ids" using assms(3) by (auto split: if_splits)
    from Cons.prems(1) Some obtain n where n: "toInt (getOpt row ''score'') 0 = Inr n"
      and rest: "ngLoop byId rows
                 (out @ [\<lparr>gr_questionId = ?q,
                           gr_score = max 0 (min 100 n),
                           gr_feedback = clampText (getOpt row ''feedback'') 2000,
                           gr_idealAnswer = clampText (getOpt row ''idealAnswer'') 2000,
                           gr_question = a_question answer,
                           gr_studentAnswer = a_studentAnswer answer\<rparr>]) = Inr res"
      by (auto simp: Let_def bindE_Inr_iff)
    have "n \<in> \<int>" using toInt_integral[OF n] by simp
    then have "gradedOk ids \<lparr>gr_questionId = ?q,
                           gr_score = max 0 (min 100 n),
                           gr_feedback = clampText (getOpt row ''feedback'') 2000,
                           gr_idealAnswer = clampText (getOpt row ''idealAnswer'') 2000,
                           gr_question = a_question answer,
                           gr_studentAnswer = a_studentAnswer answer\<rparr>"
      using q clamp_score[of n] by (simp add: gradedOk_def)
    with Cons.prems(2) show ?thesis
      by (intro Cons.IH[OF rest]) simp
  qed
qed

text \<open>
  C6. When \<open>normalizeGrades\<close> returns, every row of the result carries the \<open>questionId\<close>
  of an entry of the request's \<open>answers\<close>, and its score is an integer between 0 and
  100, whatever the provider sent as score (150 becomes 100; a string that is no number,
  such as \<^verbatim>\<open>"abc"\<close>, becomes 0: see the example after the theorem).
\<close>

theorem normalizeGrades_sound:
  assumes "normalizeGrades parsed answers = Inr results"
  shows "\<forall>r \<in> set results.
           g_questionId r \<in> a_questionId ` set answers
         \<and> g_score r \<in> \<int> \<and> 0 \<le> g_score r \<and> g_score r \<le> 100"
proof -
  from assms obtain out where
    loop: "ngLoop (answerById answers) (case getOpt parsed ''results'' of JArr rs \<Rightarrow> rs | _ \<Rightarrow> []) [] = Inr out"
    and res: "results = map (\<lambda>result.
              \<lparr>g_questionId = gr_questionId result, g_score = gr_score result,
               g_feedback = gr_feedback result, g_idealAnswer = gr_idealAnswer result\<rparr>) out"
    by (auto simp: normalizeGrades_def Let_def bindE_Inr_iff)
  have "\<forall>r \<in> set out. gradedOk (a_questionId ` set answers) r"
    by (rule ngLoop_inv[OF loop]) (simp_all add: answerById_Some)
  then show ?thesis by (auto simp: res gradedOk_def)
qed

theorem normalizeGrades_sound_witness:
  "normalizeGrades
     (JObj [(str ''results'',
        JArr [JObj [(str ''questionId'', JStr (str ''q1'')), (str ''score'', JNum (Fin 150))],
              JObj [(str ''questionId'', JStr (str ''q1'')), (str ''score'', JStr (str ''abc''))],
              JObj [(str ''questionId'', JStr (str ''zz'')), (str ''score'', JNum (Fin 5))]])])
     [\<lparr>a_questionId = str ''q1'', a_question = str ''Why?'', a_studentAnswer = str ''Because.''\<rparr>]
   = Inr [\<lparr>g_questionId = str ''q1'', g_score = 100, g_feedback = [], g_idealAnswer = []\<rparr>,
          \<lparr>g_questionId = str ''q1'', g_score = 0, g_feedback = [], g_idealAnswer = []\<rparr>]
   \<and> str ''q1'' \<in> a_questionId `
        set [\<lparr>a_questionId = str ''q1'', a_question = str ''Why?'', a_studentAnswer = str ''Because.''\<rparr>]
   \<and> (100::real) \<in> \<int> \<and> (0::real) \<le> 100"
proof -
  have e: "normalizeGrades
     (JObj [(str ''results'',
        JArr [JObj [(str ''questionId'', JStr (str ''q1'')), (str ''score'', JNum (Fin 150))],
              JObj [(str ''questionId'', JStr (str ''q1'')), (str ''score'', JStr (str ''abc''))],
              JObj [(str ''questionId'', JStr (str ''zz'')), (str ''score'', JNum (Fin 5))]])])
     [\<lparr>a_questionId = str ''q1'', a_question = str ''Why?'', a_studentAnswer = str ''Because.''\<rparr>]
   = Inr [\<lparr>g_questionId = str ''q1'', g_score = 100, g_feedback = [], g_idealAnswer = []\<rparr>,
          \<lparr>g_questionId = str ''q1'', g_score = 0, g_feedback = [], g_idealAnswer = []\<rparr>]"
    by (simp add: normalizeGrades_def answerById_def getOpt_def clampText_def trim_def
        isWhiteSpace_def sliceStr_def str_simps Let_def bindE_def toInt_def mathRound_def
        stringToNumber_def prefixedLiteral_def unsignedDecimal_def isDigit_def)
  from normalizeGrades_sound[OF e] e show ?thesis by simp
qed

subsection \<open>Extracting JSON from the provider's text\<close>

lemma indexOf_eq:
  "indexOf s c = (if c \<in> set s then int (length (takeWhile (\<lambda>x. x \<noteq> c) s)) else - 1)"
  by (induction s) (auto simp: Let_def)

lemma takeWhile_len_less:
  "c \<in> set s \<Longrightarrow> length (takeWhile (\<lambda>x. x \<noteq> c) s) < length s"
  by (induction s) auto

lemma lastIndexOf_eq:
  "lastIndexOf s c =
     (if c \<in> set s then int (length s) - 1 - int (length (takeWhile (\<lambda>x. x \<noteq> c) (rev s)))
      else - 1)"
proof (induction s)
  case Nil
  then show ?case by simp
next
  case (Cons x xs)
  show ?case
  proof (cases "c \<in> set xs")
    case True
    then have "takeWhile (\<lambda>x. x \<noteq> c) (rev xs @ [x]) = takeWhile (\<lambda>x. x \<noteq> c) (rev xs)"
      by (intro takeWhile_append1[of c]) auto
    moreover have "length (takeWhile (\<lambda>x. x \<noteq> c) (rev xs)) < length xs"
      using True takeWhile_len_less[of c "rev xs"] by simp
    ultimately show ?thesis using True Cons by (simp add: Let_def)
  next
    case False
    then have "takeWhile (\<lambda>x. x \<noteq> c) (rev xs @ [x]) = rev xs @ takeWhile (\<lambda>x. x \<noteq> c) [x]"
      by (intro takeWhile_append2) auto
    then show ?thesis using False Cons by (auto simp: Let_def)
  qed
qed

lemma fence_str: "str ''```'' = [96, 96, 96]"
  by (simp add: str_simps)

lemma find_map_upt: "find P (map f xs) = map_option f (find (P \<circ> f) xs)"
  by (induction xs) auto

lemma firstFence_simps:
  "firstFence [] = None"
  "firstFence (x # xs) =
     (if take 3 (x # xs) = [96, 96, 96] then Some 0 else map_option Suc (firstFence xs))"
proof -
  show "firstFence [] = None" by (simp add: firstFence_def)
  have u: "[0..<length (x # xs)] = 0 # map Suc [0..<length xs]"
    by (simp add: upt_conv_Cons map_Suc_upt del: upt_Suc)
  have s: "fenceAt (x # xs) \<circ> Suc = fenceAt xs" by (auto simp: fenceAt_def fun_eq_iff)
  have z: "fenceAt (x # xs) 0 \<longleftrightarrow> take 3 (x # xs) = [96, 96, 96]"
    by (simp add: fenceAt_def)
  have "find (fenceAt (x # xs)) (0 # map Suc [0..<length xs]) =
      (if fenceAt (x # xs) 0 then Some 0 else map_option Suc (find (fenceAt xs) [0..<length xs]))"
    by (simp add: find_map_upt s)
  then show "firstFence (x # xs) =
     (if take 3 (x # xs) = [96, 96, 96] then Some 0 else map_option Suc (firstFence xs))"
    unfolding firstFence_def u z .
qed

lemma findSub_firstFence: "findSub [96, 96, 96] s = firstFence s"
proof (induction s)
  case Nil
  then show ?case by (simp add: firstFence_simps)
next
  case (Cons x xs)
  have "length [96, 96, 96::nat] = 3" by simp
  then show ?case by (simp only: findSub.simps firstFence_simps Cons)
qed

lemma findSub_skip:
  "96 \<notin> set p \<Longrightarrow>
     findSub [96, 96, 96] (p @ s) = map_option (\<lambda>j. length p + j) (findSub [96, 96, 96] s)"
proof (induction p)
  case Nil
  then show ?case by (simp add: option.map_ident)
next
  case (Cons x p)
  then have "findSub [96, 96, 96] (p @ s) = map_option (\<lambda>j. length p + j) (findSub [96, 96, 96] s)"
    by simp
  moreover have "x \<noteq> 96" using Cons.prems by auto
  ultimately show ?case by (simp add: option.map_comp comp_def)
qed

lemma json_str: "str ''json'' = [106, 115, 111, 110]"
  by (simp add: str_simps)

lemma asciiLower_json:
  "asciiLower a = 106 \<longleftrightarrow> a = 106 \<or> a = 74"
  "asciiLower a = 115 \<longleftrightarrow> a = 115 \<or> a = 83"
  "asciiLower a = 111 \<longleftrightarrow> a = 111 \<or> a = 79"
  "asciiLower a = 110 \<longleftrightarrow> a = 110 \<or> a = 78"
  by (auto simp: asciiLower_def)

lemma startsWithJson_iff:
  "startsWithJson s \<longleftrightarrow> map asciiLower (take 4 s) = str ''json''"
proof (cases s)
  case Nil
  then show ?thesis by (simp add: startsWithJson_def json_str)
next
  case c1: (Cons a s1)
  show ?thesis
  proof (cases s1)
    case Nil
    then show ?thesis using c1 by (simp add: startsWithJson_def json_str)
  next
    case c2: (Cons b s2)
    show ?thesis
    proof (cases s2)
      case Nil
      then show ?thesis using c1 c2 by (simp add: startsWithJson_def json_str)
    next
      case c3: (Cons c s3)
      show ?thesis
      proof (cases s3)
        case Nil
        then show ?thesis using c1 c2 c3 by (simp add: startsWithJson_def json_str)
      next
        case (Cons d s4)
        then show ?thesis using c1 c2 c3
          by (simp add: startsWithJson_def json_str asciiLower_json)
      qed
    qed
  qed
qed

lemma json_no_fence:
  assumes "map asciiLower (take 4 s) = str ''json''"
  shows "96 \<notin> set (take 4 s)" and "length (take 4 s) = 4"
proof -
  from assms have "length (map asciiLower (take 4 s)) = length (str ''json'')" by simp
  then have l: "length (take 4 s) = 4" by (simp add: json_str)
  show "length (take 4 s) = 4" by (rule l)
  show "96 \<notin> set (take 4 s)"
  proof
    assume "96 \<in> set (take 4 s)"
    then have "asciiLower 96 \<in> set (map asciiLower (take 4 s))" by force
    then show False unfolding assms by (simp add: json_str asciiLower_def)
  qed
qed


lemma firstFence_skip:
  assumes "96 \<notin> set p"
  shows "firstFence (p @ s) = map_option (\<lambda>j. length p + j) (firstFence s)"
  using findSub_skip[OF assms, of s] by (simp add: findSub_firstFence)

lemma dropWhile_fix: "xs = [] \<or> \<not> P (hd xs) \<Longrightarrow> dropWhile P xs = xs"
  by (cases xs) auto

lemma not_ws_fence: "\<not> isWhiteSpace 96"
  by (simp add: isWhiteSpace_def)

lemma fencedMatch_rest:
  fixes r0 :: jsstring
  defines "r1 \<equiv> (if startsWithJson r0 then drop 4 r0 else r0)"
  defines "r2 \<equiv> dropWhile isWhiteSpace r1"
  shows "(case firstFence r2 of None \<Rightarrow> None | Some j \<Rightarrow> Some (take j r2))
       = map_option (\<lambda>body. dropWhile isWhiteSpace (withoutTag body))
           (case firstFence r0 of None \<Rightarrow> None | Some j \<Rightarrow> Some (take j r0))"
proof -
  define pj where "pj = (if startsWithJson r0 then take 4 r0 else [])"
  define pw where "pw = takeWhile isWhiteSpace r1"
  have r0: "r0 = pj @ r1" by (simp add: pj_def r1_def)
  have r1: "r1 = pw @ r2" by (simp add: pw_def r2_def)
  have nj: "96 \<notin> set pj"
    using json_no_fence(1)[of r0] by (auto simp: pj_def startsWithJson_iff)
  have ws: "\<forall>x \<in> set pw. isWhiteSpace x"
    unfolding pw_def by (auto dest: set_takeWhileD)
  then have nw: "96 \<notin> set pw" using not_ws_fence by blast
  have f: "firstFence r0 = map_option (\<lambda>j. length (pj @ pw) + j) (firstFence r2)"
    using firstFence_skip[of "pj @ pw" r2] nj nw r0 r1 by simp
  show ?thesis
  proof (cases "firstFence r2")
    case None
    then show ?thesis using f by simp
  next
    case (Some j)
    define g where "g = take j r2"
    have body: "take (length (pj @ pw) + j) r0 = pj @ pw @ g"
      unfolding g_def by (subst r0, subst r1) simp
    have h: "r2 = [] \<or> \<not> isWhiteSpace (hd r2)"
      unfolding r2_def by (metis hd_dropWhile)
    have "g = [] \<or> \<not> isWhiteSpace (hd g)"
    proof (cases "j = 0 \<or> r2 = []")
      case True
      then show ?thesis by (auto simp: g_def)
    next
      case False
      then have "hd g = hd r2" by (cases r2; cases j) (simp_all add: g_def)
      then show ?thesis using h False by simp
    qed
    then have dg: "dropWhile isWhiteSpace (pw @ g) = g"
      using ws by (simp add: dropWhile_append2 dropWhile_fix)
    have wt: "withoutTag (pj @ pw @ g) = pw @ g"
    proof (cases "startsWithJson r0")
      case True
      then have "length pj = 4" "map asciiLower pj = str ''json''"
        using json_no_fence(2)[of r0] by (simp_all add: pj_def startsWithJson_iff)
      then show ?thesis by (simp add: withoutTag_def)
    next
      case False
      then have pj: "pj = []" by (simp add: pj_def)
      have "map asciiLower (take 4 (pw @ g)) \<noteq> str ''json''"
      proof
        assume a: "map asciiLower (take 4 (pw @ g)) = str ''json''"
        from json_no_fence(2)[OF a] have l: "4 \<le> length (pw @ g)" by simp
        have e: "pw @ g = take (length pw + j) r0" using body pj by simp
        from l have "4 \<le> length (take (length pw + j) r0)" unfolding e .
        then have "4 \<le> length pw + j" by simp
        then have "take 4 (take (length pw + j) r0) = take 4 r0" by (simp add: min_def)
        then have "take 4 (pw @ g) = take 4 r0" unfolding e .
        then have "map asciiLower (take 4 r0) = str ''json''" using a by (simp only:)
        with False show False unfolding startsWithJson_iff by blast
      qed
      then show ?thesis using pj by (simp add: withoutTag_def)
    qed
    show ?thesis using f Some body wt dg by (simp add: g_def)
  qed
qed

lemma fencedMatch_block:
  "fencedMatch s = map_option (\<lambda>body. dropWhile isWhiteSpace (withoutTag body)) (fencedBlock s)"
proof (cases "firstFence s")
  case None
  then show ?thesis by (simp add: fencedMatch_def fencedBlock_def fence_str findSub_firstFence)
next
  case (Some i)
  then show ?thesis
    using fencedMatch_rest[of "drop (i + 3) s"]
    by (simp add: fencedMatch_def fencedBlock_def fence_str findSub_firstFence Let_def)
qed

lemma trim_dropWhile:
  "trim (dropWhile isWhiteSpace b) = trim b"
  "dropWhile isWhiteSpace b \<noteq> [] \<longleftrightarrow> trim b \<noteq> []"
proof -
  show "trim (dropWhile isWhiteSpace b) = trim b" by (simp add: trim_def)
  define g where "g = dropWhile isWhiteSpace b"
  have t: "trim b = rev (dropWhile isWhiteSpace (rev g))" by (simp add: trim_def g_def)
  have "trim b \<noteq> []" if "g \<noteq> []"
  proof -
    from that have "\<not> isWhiteSpace (hd g)" unfolding g_def by (metis hd_dropWhile)
    moreover have "hd g \<in> set (rev g)" using that by simp
    ultimately have "dropWhile isWhiteSpace (rev g) \<noteq> []"
      by (auto simp: dropWhile_eq_Nil_conv)
    then show ?thesis unfolding t by simp
  qed
  moreover have "trim b = []" if "g = []"
    unfolding t that by simp
  ultimately show "dropWhile isWhiteSpace b \<noteq> [] \<longleftrightarrow> trim b \<noteq> []"
    unfolding g_def by blast
qed

lemma fenced_attempt:
  "(case fencedMatch s of Some g \<Rightarrow> if g \<noteq> [] then [trim g] else [] | None \<Rightarrow> [])
     = (case fencedCandidate s of Some c \<Rightarrow> [c] | None \<Rightarrow> [])"
proof (cases "fencedBlock s")
  case None
  then show ?thesis by (simp add: fencedMatch_block fencedCandidate_def)
next
  case (Some body)
  define g where "g = dropWhile isWhiteSpace (withoutTag body)"
  have m: "fencedMatch s = Some g" by (simp add: fencedMatch_block Some g_def)
  have t: "trim g = trim (withoutTag body)" and n: "g \<noteq> [] \<longleftrightarrow> trim (withoutTag body) \<noteq> []"
    unfolding g_def by (rule trim_dropWhile)+
  show ?thesis
  proof (cases "g = []")
    case True
    then show ?thesis using n by (simp add: m fencedCandidate_def Some Let_def)
  next
    case False
    then show ?thesis using n t by (simp add: m fencedCandidate_def Some Let_def)
  qed
qed

lemma findSub_none: "96 \<notin> set s \<Longrightarrow> findSub [96, 96, 96] s = None"
  using findSub_skip[of s "[]"] by simp

lemma attempts_eq_candidates:
  "(let attempts0 = [text];
        attempts1 = (case fencedMatch text of
                         Some g \<Rightarrow> if g \<noteq> [] then attempts0 @ [trim g] else attempts0
                       | None \<Rightarrow> attempts0);
        firstBrace = indexOf text 123;
        lastBrace = lastIndexOf text 125
     in (if firstBrace \<ge> 0 \<and> lastBrace > firstBrace
                       then attempts1 @ [sliceStr text (nat firstBrace) (nat (lastBrace + 1))]
                       else attempts1)) = candidates text"
proof -
  let ?i = "length (takeWhile (\<lambda>x. x \<noteq> 123) text)"
  let ?j = "length text - 1 - length (takeWhile (\<lambda>x. x \<noteq> 125) (rev text))"
  have a1: "(case fencedMatch text of
                         Some g \<Rightarrow> if g \<noteq> [] then [text] @ [trim g] else [text]
                       | None \<Rightarrow> [text])
        = [text] @ (case fencedCandidate text of Some c \<Rightarrow> [c] | None \<Rightarrow> [])"
    using fenced_attempt[of "text"] by (cases "fencedMatch text") (auto split: if_splits)
  have b: "(indexOf text 123 \<ge> 0 \<and> lastIndexOf text 125 > indexOf text 123)
        \<longleftrightarrow> (123 \<in> set text \<and> 125 \<in> set text \<and> ?i < ?j)"
    using takeWhile_len_less[of 125 "rev text"]
    by (auto simp: indexOf_eq lastIndexOf_eq)
  have s: "123 \<in> set text \<Longrightarrow> 125 \<in> set text \<Longrightarrow> ?i < ?j \<Longrightarrow>
      sliceStr text (nat (indexOf text 123)) (nat (lastIndexOf text 125 + 1))
        = take (?j + 1 - ?i) (drop ?i text)"
    using takeWhile_len_less[of 125 "rev text"]
    by (simp add: indexOf_eq lastIndexOf_eq sliceStr_def nat_diff_distrib' nat_add_distrib)
  show ?thesis
    unfolding Let_def a1 candidates_def braceCandidate_def
    using b s by (auto simp: Let_def)
qed

lemma tryParse_find:
  "tryParse P cs =
     (case find (\<lambda>c. P c \<noteq> None) cs of
        Some c \<Rightarrow> Inr (the (P c))
      | None \<Rightarrow> Inl (HttpError 502 (str ''Provider did not return valid JSON.'')))"
  by (induction cs) (auto split: option.splits)

lemma trim_fix: "s \<noteq> [] \<Longrightarrow> \<not> isWhiteSpace (hd s) \<Longrightarrow> \<not> isWhiteSpace (last s) \<Longrightarrow> trim s = s"
proof -
  assume a: "s \<noteq> []" "\<not> isWhiteSpace (hd s)" "\<not> isWhiteSpace (last s)"
  then have 1: "dropWhile isWhiteSpace s = s" by (cases s) auto
  from a have "rev s \<noteq> []" "\<not> isWhiteSpace (hd (rev s))" by (simp_all add: hd_rev)
  then have "dropWhile isWhiteSpace (rev s) = rev s" by (cases "rev s") auto
  then show ?thesis by (simp add: trim_def 1)
qed

text \<open>
  C7, as amended. \<open>parseModelJson\<close> works on \<open>text\<close>, the content trimmed and cut to its
  first 25000 code units (the empty string when the content is no string), not on the
  content as it is. It returns what \<^verbatim>\<open>JSON.parse\<close> makes of the first of the candidates
  of \<open>text\<close> that parses: \<open>text\<close> itself, the contents of its fenced code block, the
  substring from its first \<^verbatim>\<open>{\<close> to its last \<^verbatim>\<open>}\<close>, in this order. It fails exactly when
  no candidate parses, and then with the error 502 "Provider did not return valid JSON.".
\<close>

theorem parseModelJson_strategies:
  fixes jsonParse :: "jsstring \<Rightarrow> jsval option"
  defines "failure \<equiv> HttpError 502 (str ''Provider did not return valid JSON.'')"
  shows "parseModelJson jsonParse content =
       (case find (\<lambda>c. jsonParse c \<noteq> None) (candidates (clampText content 25000)) of
          Some c \<Rightarrow> Inr (the (jsonParse c))
        | None \<Rightarrow> Inl failure)
     \<and> ((\<exists>e. parseModelJson jsonParse content = Inl e) \<longleftrightarrow>
          (\<forall>c \<in> set (candidates (clampText content 25000)). jsonParse c = None))
     \<and> (\<forall>e. parseModelJson jsonParse content = Inl e \<longrightarrow> e = failure)
     \<and> clampText content 25000 = (case content of JStr s \<Rightarrow> take 25000 (trim s) | _ \<Rightarrow> [])"
proof -
  have p: "parseModelJson jsonParse content = tryParse jsonParse (candidates (clampText content 25000))"
    unfolding parseModelJson_def
    using attempts_eq_candidates[of "clampText content 25000"] by (simp add: Let_def)
  let ?cs = "candidates (clampText content 25000)"
  have c1: "parseModelJson jsonParse content =
       (case find (\<lambda>c. jsonParse c \<noteq> None) ?cs of
          Some c \<Rightarrow> Inr (the (jsonParse c))
        | None \<Rightarrow> Inl failure)"
    by (simp only: p tryParse_find failure_def)
  have c2: "(\<exists>e. parseModelJson jsonParse content = Inl e) \<longleftrightarrow> (\<forall>c \<in> set ?cs. jsonParse c = None)"
  proof (cases "find (\<lambda>c. jsonParse c \<noteq> None) ?cs")
    case None
    then have "\<forall>c \<in> set ?cs. jsonParse c = None" by (auto simp: find_None_iff)
    moreover have "parseModelJson jsonParse content = Inl failure" using c1 None by simp
    ultimately show ?thesis by blast
  next
    case (Some c)
    then have "jsonParse c \<noteq> None" "c \<in> set ?cs" by (auto simp: find_Some_iff)
    then show ?thesis using c1 Some by auto
  qed
  have c3: "\<forall>e. parseModelJson jsonParse content = Inl e \<longrightarrow> e = failure"
    using c1 by (cases "find (\<lambda>c. jsonParse c \<noteq> None) ?cs") auto
  have c4: "clampText content 25000 = (case content of JStr s \<Rightarrow> take 25000 (trim s) | _ \<Rightarrow> [])"
    by (cases content) (simp_all add: clampText_def sliceStr_def Let_def)
  from c1 c2 c3 c4 show ?thesis by blast
qed

lemmas cand_defs = candidates_def fencedCandidate_def fencedBlock_def firstFence_simps
  withoutTag_def asciiLower_def braceCandidate_def trim_def isWhiteSpace_def str_simps Let_def

lemma sample_candidates1: "candidates (str ''abc'') = [str ''abc'']"
  by (simp add: cand_defs)
lemma sample_candidates2: "candidates (str ''Sure: {} done'') = [str ''Sure: {} done'', str ''{}'']"
  by (simp add: cand_defs)
lemma sample_candidates3:
  "candidates (str ''Here: ```JSON [1] ``` ok'') = [str ''Here: ```JSON [1] ``` ok'', str ''[1]'']"
  by (simp add: cand_defs)

lemma sample_clampText:
  "clampText (JStr (str ''abc'')) 25000 = str ''abc''"
  "clampText (JStr (str ''Sure: {} done'')) 25000 = str ''Sure: {} done''"
  "clampText (JStr (str '' Here: ```JSON [1] ``` ok '')) 25000 = str ''Here: ```JSON [1] ``` ok''"
  by (simp_all add: clampText_def trim_def isWhiteSpace_def sliceStr_def str_simps)

lemma sampleParse_simps:
  "sampleParse (str ''abc'') = None" "sampleParse (str ''Sure: {} done'') = None"
  "sampleParse (str ''Here: ```JSON [1] ``` ok'') = None" "sampleParse (str ''{}'') = Some (JObj [])"
  "sampleParse (str ''[1]'') = Some (JArr [JNum (Fin 1)])"
  by (simp_all add: sampleParse_def str_simps)

text \<open>The theorem on three contents: one with no candidate that parses; one where only
  the braces substring parses; one, with white space around it, that has no brace and
  where only the contents of the fenced block parse.\<close>

theorem parseModelJson_strategies_witness:
  "parseModelJson sampleParse (JStr (str ''abc''))
     = Inl (HttpError 502 (str ''Provider did not return valid JSON.''))
   \<and> sampleParse (str ''abc'') = None
   \<and> candidates (str ''Sure: {} done'') = [str ''Sure: {} done'', str ''{}'']
   \<and> parseModelJson sampleParse (JStr (str ''Sure: {} done'')) = Inr (JObj [])
   \<and> candidates (str ''Here: ```JSON [1] ``` ok'') = [str ''Here: ```JSON [1] ``` ok'', str ''[1]'']
   \<and> sampleParse (str ''Here: ```JSON [1] ``` ok'') = None
   \<and> parseModelJson sampleParse (JStr (str '' Here: ```JSON [1] ``` ok ''))
       = Inr (JArr [JNum (Fin 1)])"
proof -
  have t1: "(\<exists>e. parseModelJson sampleParse (JStr (str ''abc'')) = Inl e) \<longleftrightarrow>
          (\<forall>c \<in> set (candidates (clampText (JStr (str ''abc'')) 25000)). sampleParse c = None)"
    and t1': "\<forall>e. parseModelJson sampleParse (JStr (str ''abc'')) = Inl e \<longrightarrow>
          e = HttpError 502 (str ''Provider did not return valid JSON.'')"
    using parseModelJson_strategies [of sampleParse "JStr (str ''abc'')"] by blast+
  have "\<forall>c \<in> set (candidates (clampText (JStr (str ''abc'')) 25000)). sampleParse c = None"
    by (simp add: sample_clampText sample_candidates1 sampleParse_simps)
  with t1 t1' have a: "parseModelJson sampleParse (JStr (str ''abc''))
     = Inl (HttpError 502 (str ''Provider did not return valid JSON.''))"
    by blast
  have b: "parseModelJson sampleParse (JStr (str ''Sure: {} done'')) = Inr (JObj [])"
    using parseModelJson_strategies [of sampleParse "JStr (str ''Sure: {} done'')", THEN conjunct1]
    by (simp add: sample_clampText sample_candidates2 sampleParse_simps)
  have c: "parseModelJson sampleParse (JStr (str '' Here: ```JSON [1] ``` ok ''))
       = Inr (JArr [JNum (Fin 1)])"
    using parseModelJson_strategies [of sampleParse "JStr (str '' Here: ```JSON [1] ``` ok '')", THEN conjunct1]
    by (simp add: sample_clampText sample_candidates3 sampleParse_simps)
  show ?thesis using a b c sample_candidates2 sample_candidates3 by (simp add: sampleParse_simps)
qed

lemma longObject_clamp: "clampText (JStr longObject) 25000 = 123 # replicate 24999 32"
proof -
  have "trim longObject = longObject"
    by (rule trim_fix) (simp_all add: longObject_def isWhiteSpace_def)
  then show ?thesis by (simp add: clampText_def sliceStr_def longObject_def)
qed

text \<open>
  C7 as stated fails: the text that is parsed is not the provider's text as it is. The
  content \<open>bomOne\<close> has one candidate as it is, itself, which does not parse; the
  extraction returns 1 all the same, since it parses the trimmed text. The content
  \<open>longObject\<close> parses as it is; the extraction fails on it, since it parses the first
  25000 code units only.
\<close>

theorem parseModelJson_not_text_as_is:
  "candidates bomOne = [bomOne]
   \<and> oneParse bomOne = None
   \<and> parseModelJson oneParse (JStr bomOne) = Inr (JNum (Fin 1))
   \<and> longParse longObject = Some (JObj [])
   \<and> parseModelJson longParse (JStr longObject)
       = Inl (HttpError 502 (str ''Provider did not return valid JSON.''))"
proof -
  have 1: "candidates bomOne = [bomOne]" by (simp add: cand_defs bomOne_def)
  have 2: "oneParse bomOne = None" by (simp add: oneParse_def bomOne_def)
  have 3: "parseModelJson oneParse (JStr bomOne) = Inr (JNum (Fin 1))"
    by (simp add: parseModelJson_def clampText_def trim_def isWhiteSpace_def bomOne_def
        fencedMatch_def fence_str oneParse_def Let_def)
  have 4: "longParse longObject = Some (JObj [])" by (simp add: longParse_def)
  have n: "longParse (123 # replicate 24999 32) = None"
  proof -
    have "length (123 # replicate 24999 32 :: jsstring) \<noteq> length longObject"
      by (simp add: longObject_def)
    then have "123 # replicate 24999 32 \<noteq> longObject" by (rule contrapos_nn) (simp only:)
    then show ?thesis by (simp add: longParse_def)
  qed
  have f: "fencedMatch (123 # replicate 24999 32) = None"
    by (simp add: fencedMatch_def fence_str findSub_none)
  have l: "lastIndexOf (123 # replicate 24999 32) 125 = - 1"
    by (simp add: lastIndexOf_eq)
  have 5: "parseModelJson longParse (JStr longObject)
       = Inl (HttpError 502 (str ''Provider did not return valid JSON.''))"
    unfolding parseModelJson_def longObject_clamp Let_def f l
    by (simp add: n)
  from 1 2 3 4 5 show ?thesis by simp
qed

subsection \<open>The normaliser of the stored blob\<close>

lemma mapE_Inr_D:
  "mapE f xs = Inr ys \<Longrightarrow> y \<in> set ys \<Longrightarrow> \<exists>x \<in> set xs. f x = Inr y"
  by (induction xs arbitrary: ys) (auto simp: bindE_Inr_iff)

lemma filterE_Inr_D:
  "filterE p xs = Inr ys \<Longrightarrow> y \<in> set ys \<Longrightarrow> y \<in> set xs \<and> p y = Inr True"
  by (induction xs arbitrary: ys) (auto simp: bindE_Inr_iff split: if_splits)

lemma mapiE_Inr_D:
  "mapiE f i xs = Inr ys \<Longrightarrow> y \<in> set ys \<Longrightarrow> \<exists>x \<in> set xs. \<exists>j. f j x = Inr y"
proof (induction xs arbitrary: ys i)
  case Nil
  then show ?case by simp
next
  case (Cons a xs)
  from Cons.prems(1) obtain z zs where z: "f i a = Inr z" and zs: "mapiE f (Suc i) xs = Inr zs"
    and ys: "ys = z # zs"
    by (auto simp: bindE_Inr_iff)
  show ?case
  proof (cases "y = z")
    case True
    then show ?thesis using z by auto
  next
    case False
    then have "y \<in> set zs" using Cons.prems(2) ys by simp
    from Cons.IH[OF zs this] show ?thesis by auto
  qed
qed

lemma getProp_JObj: "getProp (JObj kvs) k = Inr (getOpt (JObj kvs) k)"
  by (simp add: getProp_def getOpt_def split: option.splits)

lemma normalizeUserData_Inr:
  assumes "normalizeUserData now raw = Inr Y"
  obtains bookIds chapters chapterIds gqs drafts fb qas lc where
    "bookIds_of (books_of raw) = Inr bookIds"
    "chapters_of raw bookIds = Inr chapters"
    "chapterIds_of chapters = Inr chapterIds"
    "generatedQuestions_of now (getOpt raw ''aiCoach'') chapterIds = Inr gqs"
    "draftAnswers_of now (getOpt raw ''aiCoach'') chapterIds (generatedQuestionIds_of gqs) = Inr drafts"
    "feedbackHistory_of now (getOpt raw ''aiCoach'') bookIds chapterIds = Inr fb"
    "qas_of raw chapterIds = Inr qas"
    "lastConfig_of (getOpt raw ''aiCoach'') = Inr lc"
    "Y = JObj
          [(str ''books'', JArr (books_of raw)),
           (str ''chapters'', JArr chapters),
           (str ''qas'', JArr qas),
           (str ''history'', JArr (history_of raw)),
           (str ''aiCoach'', JObj
             [(str ''selectedBookId'', selectedBookId_of (getOpt raw ''aiCoach'') bookIds),
              (str ''selectedChapterId'',
                 selectedChapterId_of (getOpt raw ''aiCoach'') chapters
                   (selectedBookId_of (getOpt raw ''aiCoach'') bookIds)),
              (str ''lastConfig'', lc),
              (str ''generatedQuestions'', JArr gqs),
              (str ''draftAnswers'', JArr drafts),
              (str ''feedbackHistory'', JArr fb)])]"
  using assms unfolding normalizeUserData_def Let_def bindE_Inr_iff by blast

lemma out_simps:
  assumes "Y = JObj
          [(str ''books'', JArr bs),
           (str ''chapters'', JArr chs),
           (str ''qas'', JArr qs),
           (str ''history'', JArr h),
           (str ''aiCoach'', JObj
             [(str ''selectedBookId'', sb),
              (str ''selectedChapterId'', sc),
              (str ''lastConfig'', lc),
              (str ''generatedQuestions'', JArr gqs),
              (str ''draftAnswers'', JArr drafts),
              (str ''feedbackHistory'', JArr fb)])]"
  shows "outBooks Y = bs" "outChapters Y = chs" "outQas Y = qs" "outQuestions Y = gqs"
    "outDrafts Y = drafts" "outFeedback Y = fb" "outSelectedBookId Y = sb"
    "outSelectedChapterId Y = sc"
  by (simp_all add: assms outBooks_def outChapters_def outQas_def outQuestions_def outDrafts_def
      outFeedback_def outSelectedBookId_def outSelectedChapterId_def getOpt_def asArray_def str_simps)

lemma ids_refer:
  assumes "mapE (\<lambda>t. getProp t ''id'') targets = Inr ids"
    and "getProp e k = Inr v" and "setHas ids v"
  shows "refersTo e k targets"
proof -
  from assms(3) have "v \<in> set ids" by (simp add: setHas_def)
  from mapE_Inr_D[OF assms(1) this] assms(2) show ?thesis
    unfolding refersTo_def by blast
qed

lemma filtered_refer:
  assumes ids: "mapE (\<lambda>t. getProp t ''id'') targets = Inr ids"
    and f: "filterE (\<lambda>e. bindE (getProp e k) (\<lambda>v. Inr (setHas ids v))) xs = Inr ys"
    and y: "y \<in> set ys"
  shows "y \<in> set xs \<and> refersTo y k targets"
proof -
  from filterE_Inr_D[OF f y] obtain v where "y \<in> set xs" "getProp y k = Inr v" "setHas ids v"
    by (auto simp: bindE_Inr_iff)
  then show ?thesis using ids_refer[OF ids] by blast
qed

lemma mkQuestion_Inr:
  assumes "mkQuestion now j q = Inr q'"
  shows "getProp q' ''id'' = Inr (getOpt q ''id'')"
    and "getProp q' ''chapterId'' = Inr (getOpt q ''chapterId'')"
    and "getOpt q' ''id'' = getOpt q ''id''"
  using assms
  by (auto simp: mkQuestion_def bindE_Inr_iff getProp_def getOpt_def str_simps)

lemma mkDraft_Inr:
  assumes "mkDraft now j a = Inr a'"
  shows "getProp a' ''chapterId'' = Inr (getOpt a ''chapterId'')"
    and "getProp a' ''questionId'' = Inr (getOpt a ''questionId'')"
  using assms
  by (auto simp: mkDraft_def bindE_Inr_iff getProp_def getOpt_def str_simps)

lemma mkFeedback_Inr:
  assumes "mkFeedback now j e = Inr e'"
  shows "getProp e' ''bookId'' = Inr (getOpt e ''bookId'')"
    and "getProp e' ''chapterId'' = Inr (getOpt e ''chapterId'')"
  using assms
  by (auto simp: mkFeedback_def bindE_Inr_iff getProp_def getOpt_def str_simps)

lemma questions_refer:
  assumes ids: "chapterIds_of chs = Inr chapterIds"
    and g: "generatedQuestions_of now ai chapterIds = Inr gqs"
    and q: "q' \<in> set gqs"
  shows "isString (getOpt q' ''chapterId'') \<and> refersTo q' ''chapterId'' chs"
proof -
  from mapiE_Inr_D[OF g[unfolded generatedQuestions_of_def] q]
  obtain q j where k: "keepQuestion chapterIds q" and m: "mkQuestion now j q = Inr q'"
    by auto
  from k have h: "setHas chapterIds (getOpt q ''chapterId'')"
    and s: "isString (getOpt q ''chapterId'')" by (simp_all add: keepQuestion_def)
  from s have "isString (getOpt q' ''chapterId'')"
    using getProp_Inr_getOpt[OF mkQuestion_Inr(2)[OF m]] by simp
  with h ids_refer[OF ids[unfolded chapterIds_of_def] mkQuestion_Inr(2)[OF m]]
  show ?thesis by blast
qed

lemma questionIds_refer:
  assumes g: "generatedQuestions_of now ai chapterIds = Inr gqs"
    and p: "getProp a k = Inr v" and h: "setHas (generatedQuestionIds_of gqs) v"
  shows "refersTo a k gqs"
proof -
  from h obtain q' where q': "q' \<in> set gqs" and v: "v = getOpt q' ''id''"
    by (auto simp: setHas_def generatedQuestionIds_of_def)
  from mapiE_Inr_D[OF g[unfolded generatedQuestions_of_def] q']
  obtain q j where m: "mkQuestion now j q = Inr q'" by auto
  have "getProp q' ''id'' = Inr v"
    using mkQuestion_Inr(1,3)[OF m] v by simp
  with q' p show ?thesis unfolding refersTo_def by blast
qed

lemma drafts_refer:
  assumes ids: "chapterIds_of chs = Inr chapterIds"
    and g: "generatedQuestions_of now ai chapterIds = Inr gqs"
    and d: "draftAnswers_of now ai chapterIds (generatedQuestionIds_of gqs) = Inr drafts"
    and a: "a' \<in> set drafts"
  shows "isString (getOpt a' ''chapterId'') \<and> isString (getOpt a' ''questionId'')
       \<and> refersTo a' ''chapterId'' chs \<and> refersTo a' ''questionId'' gqs"
proof -
  from mapiE_Inr_D[OF d[unfolded draftAnswers_of_def] a]
  obtain a0 j where k: "keepDraft chapterIds (generatedQuestionIds_of gqs) a0"
    and m: "mkDraft now j a0 = Inr a'"
    by auto
  from k have c: "setHas chapterIds (getOpt a0 ''chapterId'')"
    and qh: "setHas (generatedQuestionIds_of gqs) (getOpt a0 ''questionId'')"
    and s: "isString (getOpt a0 ''chapterId'')" "isString (getOpt a0 ''questionId'')"
    by (simp_all add: keepDraft_def)
  from s have "isString (getOpt a' ''chapterId'')" "isString (getOpt a' ''questionId'')"
    using getProp_Inr_getOpt[OF mkDraft_Inr(1)[OF m]] getProp_Inr_getOpt[OF mkDraft_Inr(2)[OF m]]
    by simp_all
  with ids_refer[OF ids[unfolded chapterIds_of_def] mkDraft_Inr(1)[OF m] c]
    questionIds_refer[OF g mkDraft_Inr(2)[OF m] qh]
  show ?thesis by blast
qed

lemma feedback_refer:
  assumes bids: "bookIds_of bs = Inr bookIds"
    and ids: "chapterIds_of chs = Inr chapterIds"
    and f: "feedbackHistory_of now ai bookIds chapterIds = Inr fb"
    and e: "e' \<in> set fb"
  shows "isString (getOpt e' ''bookId'') \<and> isString (getOpt e' ''chapterId'')
       \<and> refersTo e' ''bookId'' bs \<and> refersTo e' ''chapterId'' chs"
proof -
  from f obtain entries where
    m: "mapiE (mkFeedback now) 0
              (filter (keepFeedback bookIds chapterIds)
                 (asArray (getOpt ai ''feedbackHistory''))) = Inr entries"
    and fb: "fb = sliceStr (filter (\<lambda>entry. length (asArray (getOpt entry ''results'')) > 0) entries) 0 500"
    by (auto simp: feedbackHistory_of_def bindE_Inr_iff)
  from e have "e' \<in> set entries"
    unfolding fb sliceStr_def by (auto dest: in_set_takeD)
  from mapiE_Inr_D[OF m this]
  obtain e0 j where k: "keepFeedback bookIds chapterIds e0" and mk: "mkFeedback now j e0 = Inr e'"
    by auto
  from k have b: "setHas bookIds (getOpt e0 ''bookId'')"
    and c: "setHas chapterIds (getOpt e0 ''chapterId'')"
    and s: "isString (getOpt e0 ''bookId'')" "isString (getOpt e0 ''chapterId'')"
    by (simp_all add: keepFeedback_def)
  from s have "isString (getOpt e' ''bookId'')" "isString (getOpt e' ''chapterId'')"
    using getProp_Inr_getOpt[OF mkFeedback_Inr(1)[OF mk]]
      getProp_Inr_getOpt[OF mkFeedback_Inr(2)[OF mk]]
    by simp_all
  with ids_refer[OF bids[unfolded bookIds_of_def] mkFeedback_Inr(1)[OF mk] b]
    ids_refer[OF ids[unfolded chapterIds_of_def] mkFeedback_Inr(2)[OF mk] c]
  show ?thesis by blast
qed

text \<open>
  What holds of the references in every value \<open>Y\<close> that \<open>normalizeUserData\<close> returns.
  Each chapter is one of the stored chapters, and each Q&A one of the stored ones; the
  \<open>bookId\<close> of a chapter and the \<open>chapterId\<close> of a Q&A are compared with the ids as
  \<^verbatim>\<open>Set.has\<close> does and their type is not tested, so \<open>refersTo\<close> holds of an entry
  without the property beside a parent without \<open>id\<close> (both read \<^verbatim>\<open>undefined\<close>). The
  references of the AI entries are strings: each is the \<open>id\<close> of a chapter, book or
  generated question of \<open>Y\<close>.
\<close>

lemma normalizeUserData_references:
  assumes "normalizeUserData now raw = Inr Y"
  shows "(\<forall>ch \<in> set (outChapters Y).
            ch \<in> set (asArray (getOpt raw ''chapters'')) \<and> refersTo ch ''bookId'' (outBooks Y))
       \<and> (\<forall>qa \<in> set (outQas Y).
            qa \<in> set (asArray (getOpt raw ''qas'')) \<and> refersTo qa ''chapterId'' (outChapters Y))
       \<and> (\<forall>q \<in> set (outQuestions Y).
            isString (getOpt q ''chapterId'') \<and> refersTo q ''chapterId'' (outChapters Y))
       \<and> (\<forall>a \<in> set (outDrafts Y).
            isString (getOpt a ''chapterId'') \<and> isString (getOpt a ''questionId'') \<and>
            refersTo a ''chapterId'' (outChapters Y) \<and> refersTo a ''questionId'' (outQuestions Y))
       \<and> (\<forall>e \<in> set (outFeedback Y).
            isString (getOpt e ''bookId'') \<and> isString (getOpt e ''chapterId'') \<and>
            refersTo e ''bookId'' (outBooks Y) \<and> refersTo e ''chapterId'' (outChapters Y))"
proof -
  from assms obtain bookIds chs chapterIds gqs drafts fb qs lc where
    b: "bookIds_of (books_of raw) = Inr bookIds"
    and c: "chapters_of raw bookIds = Inr chs"
    and ci: "chapterIds_of chs = Inr chapterIds"
    and g: "generatedQuestions_of now (getOpt raw ''aiCoach'') chapterIds = Inr gqs"
    and d: "draftAnswers_of now (getOpt raw ''aiCoach'') chapterIds (generatedQuestionIds_of gqs) = Inr drafts"
    and f: "feedbackHistory_of now (getOpt raw ''aiCoach'') bookIds chapterIds = Inr fb"
    and q: "qas_of raw chapterIds = Inr qs"
    and Y: "Y = JObj
          [(str ''books'', JArr (books_of raw)),
           (str ''chapters'', JArr chs),
           (str ''qas'', JArr qs),
           (str ''history'', JArr (history_of raw)),
           (str ''aiCoach'', JObj
             [(str ''selectedBookId'', selectedBookId_of (getOpt raw ''aiCoach'') bookIds),
              (str ''selectedChapterId'',
                 selectedChapterId_of (getOpt raw ''aiCoach'') chs
                   (selectedBookId_of (getOpt raw ''aiCoach'') bookIds)),
              (str ''lastConfig'', lc),
              (str ''generatedQuestions'', JArr gqs),
              (str ''draftAnswers'', JArr drafts),
              (str ''feedbackHistory'', JArr fb)])]"
    by (rule normalizeUserData_Inr)
  note o = out_simps[OF Y]
  have 1: "\<forall>ch \<in> set chs. ch \<in> set (asArray (getOpt raw ''chapters'')) \<and> refersTo ch ''bookId'' (books_of raw)"
    using filtered_refer[OF b[unfolded bookIds_of_def] c[unfolded chapters_of_def]] by blast
  have 2: "\<forall>qa \<in> set qs. qa \<in> set (asArray (getOpt raw ''qas'')) \<and> refersTo qa ''chapterId'' chs"
    using filtered_refer[OF ci[unfolded chapterIds_of_def] q[unfolded qas_of_def]] by blast
  have 3: "\<forall>q \<in> set gqs. isString (getOpt q ''chapterId'') \<and> refersTo q ''chapterId'' chs"
    using questions_refer[OF ci g] by blast
  have 4: "\<forall>a \<in> set drafts.
            isString (getOpt a ''chapterId'') \<and> isString (getOpt a ''questionId'') \<and>
            refersTo a ''chapterId'' chs \<and> refersTo a ''questionId'' gqs"
    using drafts_refer[OF ci g d] by blast
  have 5: "\<forall>e \<in> set fb.
            isString (getOpt e ''bookId'') \<and> isString (getOpt e ''chapterId'') \<and>
            refersTo e ''bookId'' (books_of raw) \<and> refersTo e ''chapterId'' chs"
    using feedback_refer[OF b ci f] by blast
  show ?thesis unfolding o using 1 2 3 4 5 by blast
qed

lemmas nu_defs = normalizeUserData_def books_of_def bookIds_of_def chapters_of_def chapterIds_of_def
  history_of_def generatedQuestions_of_def generatedQuestionIds_of_def draftAnswers_of_def
  feedbackHistory_of_def selectedBookId_of_def selectedChapterIdRaw_of_def selectedChapterId_of_def
  lastConfig_of_def qas_of_def asArray_def getOpt_def getProp_def bindE_def setHas_def strictEq_def
  nullish_def clampInt_def mathRound_def sliceStr_def Let_def str_simps strField_def
  isAIDifficulty_def isAIQuestionStyle_def isKnownHistoryType_def

lemma dropWhile_spaces: "dropWhile isWhiteSpace (replicate n 32 @ s) = dropWhile isWhiteSpace s"
  by (induction n) (simp_all add: isWhiteSpace_def)

lemma trim_spaces_a: "trim (replicate n 32 @ [97]) = [97]"
  by (simp add: trim_def dropWhile_spaces isWhiteSpace_def)

lemma trim_spaces: "trim (replicate n 32) = []"
  using dropWhile_spaces[of n "[]"] by (simp add: trim_def)

lemma clamp_spaces_a: "clampStrS (replicate 500 32 @ [97]) 500 = replicate 500 32"
  by (simp add: clampStrS_def sliceStr_def)

lemma clamp_spaces: "clampStrS (replicate 500 32) 500 = replicate 500 32"
  by (simp add: clampStrS_def)

lemma spaces_ne: "replicate 500 (32::nat) \<noteq> []"
  by simp

lemma first_pass:
  "normalizeUserData now blankQuestionBlob =
     Inr (blankQuestionOut
       [JObj [strField ''id'' ''g1'', strField ''chapterId'' ''ch1'',
              (str ''question'', JStr (replicate 500 32)),
              strField ''rubric'' '''',
              strField ''createdAt'' ''2025-01-01'',
              strField ''difficulty'' ''mixed'', strField ''style'' ''comprehension'']])"
  unfolding blankQuestionBlob_def blankQuestionOut_def
  by (simp add: nu_defs keepQuestion_def mkQuestion_def nonBlankString_def clampStr_def
      trim_spaces_a clamp_spaces_a spaces_ne)

lemma second_pass:
  "normalizeUserData now' (blankQuestionOut
       [JObj [strField ''id'' ''g1'', strField ''chapterId'' ''ch1'',
              (str ''question'', JStr (replicate 500 32)),
              strField ''rubric'' '''',
              strField ''createdAt'' ''2025-01-01'',
              strField ''difficulty'' ''mixed'', strField ''style'' ''comprehension'']])
    = Inr (blankQuestionOut [])"
  unfolding blankQuestionOut_def
  by (simp add: nu_defs keepQuestion_def mkQuestion_def nonBlankString_def clampStr_def
      trim_spaces clamp_spaces spaces_ne)

lemmas mk_defs = keepQuestion_def mkQuestion_def keepDraft_def mkDraft_def keepFeedback_def
  mkFeedback_def keepResult_def mkResult_def nonBlankString_def clampStr_def clampStrS_def
  trim_def isWhiteSpace_def

lemma sampleBlob_normalized:
  "normalizeUserData sampleClock sampleBlob = Inr sampleBlobNormalized"
  unfolding sampleBlob_def sampleBlobNormalized_def
  by (simp add: nu_defs mk_defs sampleClock_def)

lemma strictEq_string: "isString b \<Longrightarrow> strictEq a b \<longleftrightarrow> a = b"
  by (cases b) (auto simp: strictEq_def)

lemma truthy_string: "isString b \<Longrightarrow> truthy b \<longleftrightarrow> b \<noteq> JStr []"
  by (cases b) auto

lemma bookIds_has:
  assumes "bookIds_of bs = Inr bookIds" "isString v"
  shows "setHas bookIds v \<longleftrightarrow> (\<exists>b \<in> set bs. getProp b ''id'' = Inr v)"
proof
  assume "setHas bookIds v"
  then have "v \<in> set bookIds" by (simp add: setHas_def)
  from mapE_Inr_D[OF assms(1)[unfolded bookIds_of_def] this] show "\<exists>b \<in> set bs. getProp b ''id'' = Inr v" .
next
  assume "\<exists>b \<in> set bs. getProp b ''id'' = Inr v"
  then obtain b where b: "b \<in> set bs" "getProp b ''id'' = Inr v" by blast
  have "mapE f xs = Inr ys \<Longrightarrow> x \<in> set xs \<Longrightarrow> f x = Inr y \<Longrightarrow> y \<in> set ys" for f :: "jsval \<Rightarrow> error + jsval" and xs ys x y
    by (induction xs arbitrary: ys) (auto simp: bindE_Inr_iff)
  from this[OF assms(1)[unfolded bookIds_of_def] b] have "v \<in> set bookIds" .
  moreover have "isPrimitive v" using assms(2) by (cases v) auto
  ultimately show "setHas bookIds v" by (simp add: setHas_def)
qed

text \<open>
  C5, as amended. In every value \<open>Y\<close> that \<open>normalizeUserData\<close> returns, with \<open>sb\<close> and
  \<open>sc\<close> the stored \<open>selectedBookId\<close> and \<open>selectedChapterId\<close>: the book pointer is
  \<open>sb\<close> when that is a string and the id of a book of \<open>Y\<close>, and is cleared otherwise.
  The chapter pointer is cleared when the book pointer is cleared or is the empty string.
  Otherwise it is \<open>sc\<close> when that is a non-empty string and the id of a chapter of \<open>Y\<close>
  that belongs to the selected book; in every other case it is the \<open>id\<close> property of the
  first chapter of \<open>Y\<close> that belongs to the selected book, which is \<^verbatim>\<open>undefined\<close> when
  the book has no chapter or when that first chapter has no \<open>id\<close>.
\<close>

theorem normalizeUserData_selected_pointers:
  assumes "normalizeUserData now raw = Inr Y"
  defines "sb \<equiv> getOpt (getOpt raw ''aiCoach'') ''selectedBookId''"
    and "sc \<equiv> getOpt (getOpt raw ''aiCoach'') ''selectedChapterId''"
  defines "bookResolves \<equiv> isString sb \<and> (\<exists>b \<in> set (outBooks Y). getProp b ''id'' = Inr sb)"
  defines "chapterResolves \<equiv>
     isString sc \<and> (\<exists>ch \<in> set (outChapters Y). getOpt ch ''bookId'' = sb \<and> getOpt ch ''id'' = sc)"
  shows "outSelectedBookId Y = (if bookResolves then sb else JUndefined)
       \<and> outSelectedChapterId Y =
           (if bookResolves \<and> sb \<noteq> JStr [] then
              if chapterResolves \<and> sc \<noteq> JStr [] then sc
              else (case find (\<lambda>ch. getOpt ch ''bookId'' = sb) (outChapters Y) of
                      Some ch \<Rightarrow> getOpt ch ''id''
                    | None \<Rightarrow> JUndefined)
            else JUndefined)"
proof -
  from assms(1) obtain bookIds chs chapterIds gqs drafts fb qs lc where
    b: "bookIds_of (books_of raw) = Inr bookIds"
    and Y: "Y = JObj
          [(str ''books'', JArr (books_of raw)),
           (str ''chapters'', JArr chs),
           (str ''qas'', JArr qs),
           (str ''history'', JArr (history_of raw)),
           (str ''aiCoach'', JObj
             [(str ''selectedBookId'', selectedBookId_of (getOpt raw ''aiCoach'') bookIds),
              (str ''selectedChapterId'',
                 selectedChapterId_of (getOpt raw ''aiCoach'') chs
                   (selectedBookId_of (getOpt raw ''aiCoach'') bookIds)),
              (str ''lastConfig'', lc),
              (str ''generatedQuestions'', JArr gqs),
              (str ''draftAnswers'', JArr drafts),
              (str ''feedbackHistory'', JArr fb)])]"
    by (rule normalizeUserData_Inr)
  note o = out_simps[OF Y]
  have br: "bookResolves \<longleftrightarrow> isString sb \<and> setHas bookIds sb"
    unfolding bookResolves_def o using bookIds_has[OF b] by blast
  have sB: "selectedBookId_of (getOpt raw ''aiCoach'') bookIds = (if bookResolves then sb else JUndefined)"
    by (simp add: selectedBookId_of_def br sb_def)
  have cr: "chapterResolves \<longleftrightarrow>
     isString sc \<and> list_ex (\<lambda>ch. getOpt ch ''bookId'' = sb \<and> getOpt ch ''id'' = sc) chs"
    unfolding chapterResolves_def o by (simp add: list_ex_iff)
  have sC: "selectedChapterId_of (getOpt raw ''aiCoach'') chs (if bookResolves then sb else JUndefined) =
           (if bookResolves \<and> sb \<noteq> JStr [] then
              if chapterResolves \<and> sc \<noteq> JStr [] then sc
              else (case find (\<lambda>ch. getOpt ch ''bookId'' = sb) chs of
                      Some ch \<Rightarrow> getOpt ch ''id''
                    | None \<Rightarrow> JUndefined)
            else JUndefined)"
  proof (cases bookResolves)
    case False
    then show ?thesis by (simp add: selectedChapterId_of_def Let_def)
  next
    case True
    then have s: "isString sb" by (simp add: br)
    show ?thesis
    proof (cases "isString sc")
      case True
      with \<open>bookResolves\<close> s show ?thesis
        by (simp add: selectedChapterId_of_def selectedChapterIdRaw_of_def Let_def
            strictEq_string truthy_string cr sc_def[symmetric])
    next
      case False
      with \<open>bookResolves\<close> s show ?thesis
        by (simp add: selectedChapterId_of_def selectedChapterIdRaw_of_def Let_def
            strictEq_string truthy_string cr sc_def[symmetric])
    qed
  qed
  show ?thesis unfolding o sB sC by simp
qed

text \<open>
  C4 (entries without a reference are kept). The chapters filter is
  \<^verbatim>\<open>bookIds.has(ch.bookId)\<close> and the Q&A filter \<^verbatim>\<open>chapterIds.has(qa.chapterId)\<close>, with no
  test that the reference is a string (the filters of the AI lists test
  \<^verbatim>\<open>typeof q.chapterId === "string"\<close> first). A book without \<open>id\<close> puts \<^verbatim>\<open>undefined\<close> into
  \<open>bookIds\<close>, and then a chapter without \<open>bookId\<close> passes; likewise a Q&A without
  \<open>chapterId\<close> beside a chapter without \<open>id\<close>. On \<open>orphanBlob\<close> the chapter, which names
  no book, and the Q&A, which names no chapter, are both kept; on \<open>scalarBlob\<close> the
  number 7 and the empty object are kept as chapters, and \<^verbatim>\<open>true\<close> and a string as Q&As.
\<close>

theorem normalizeUserData_keeps_unreferenced:
  "normalizeUserData now orphanBlob =
     Inr (JObj
          [(str ''books'', JArr [JObj [strField ''title'' ''T'']]),
           (str ''chapters'', JArr [JObj [strField ''summary'' ''S'']]),
           (str ''qas'', JArr [JObj [strField ''question'' ''Q'']]),
           (str ''history'', JArr []),
           (str ''aiCoach'', defaultCoach)])
   \<and> getOpt (JObj [strField ''summary'' ''S'']) ''bookId'' = JUndefined
   \<and> getOpt (JObj [strField ''question'' ''Q'']) ''chapterId'' = JUndefined
   \<and> normalizeUserData now scalarBlob =
     Inr (JObj
          [(str ''books'', JArr [JNum (Fin 5)]),
           (str ''chapters'', JArr [JNum (Fin 7), JObj []]),
           (str ''qas'', JArr [JBool True, JStr (str ''s'')]),
           (str ''history'', JArr []),
           (str ''aiCoach'', defaultCoach)])"
  by (simp add: nu_defs orphanBlob_def scalarBlob_def defaultCoach_def)

text \<open>
  C3 (the normaliser can throw). A stored blob whose \<open>books\<close>, \<open>chapters\<close> or \<open>qas\<close>
  array holds \<^verbatim>\<open>null\<close>: \<^verbatim>\<open>books.map((b) => b.id)\<close>, \<^verbatim>\<open>ch.bookId\<close> and
  \<^verbatim>\<open>qa.chapterId\<close> read a property of \<^verbatim>\<open>null\<close>, and the call throws a TypeError. (The
  filters of the history and of the three AI lists test \<^verbatim>\<open>!!entry\<close> first.)
\<close>

theorem normalizeUserData_throws:
  "normalizeUserData now (JObj [(str ''books'', JArr [JNull])]) = Inl TypeError
   \<and> normalizeUserData now (JObj [(str ''chapters'', JArr [JNull])]) = Inl TypeError
   \<and> normalizeUserData now (JObj [(str ''qas'', JArr [JNull])]) = Inl TypeError"
  by (simp add: nu_defs)

text \<open>
  A field that \<open>clampInt\<close> or \<open>clampStr\<close> is applied to throws as well when it holds an
  object: \<^verbatim>\<open>Number(count)\<close> for a count with an own \<^verbatim>\<open>toString\<close> property, and
  \<^verbatim>\<open>s.slice\<close> for a rubric that is an object with a \<^verbatim>\<open>length\<close> above 2000.
\<close>

lemma normalizeUserData_throws_conversion:
  "normalizeUserData now
     (JObj [(str ''aiCoach'', JObj [(str ''lastConfig'',
        JObj [(str ''count'', JObj [(str ''toString'', JNum (Fin 1))])])])]) = Inl TypeError
   \<and> normalizeUserData now
     (JObj [(str ''books'', JArr [JObj [strField ''id'' ''b1'']]),
            (str ''chapters'', JArr [JObj [strField ''id'' ''ch1'', strField ''bookId'' ''b1'']]),
            (str ''aiCoach'', JObj [(str ''generatedQuestions'',
               JArr [JObj [strField ''id'' ''g1'', strField ''chapterId'' ''ch1'',
                           strField ''question'' ''Q'',
                           (str ''rubric'', JObj [(str ''length'', JNum (Fin 3000))])]])])])
       = Inl TypeError"
  by (simp add: nu_defs mk_defs)

text \<open>
  C2 (a second pass changes the result). A stored question of 500 spaces and a letter
  passes the filter (its trimmed text is not empty) and is stored cut to its first 500
  code units, all spaces; the next pass drops it, since its trimmed text is now empty.
  Whatever the clock, the second result differs from the first.
\<close>

theorem normalizeUserData_not_idempotent:
  "normalizeUserData now blankQuestionBlob = Inr (blankQuestionOut [blankQuestion])
   \<and> normalizeUserData now' (blankQuestionOut [blankQuestion]) = Inr (blankQuestionOut [])
   \<and> blankQuestionOut [] \<noteq> blankQuestionOut [blankQuestion]"
proof -
  have "blankQuestionOut [] \<noteq> blankQuestionOut [blankQuestion]"
    by (simp add: blankQuestionOut_def)
  then show ?thesis
    using first_pass[of now] second_pass[of now'] by (simp add: blankQuestion_def)
qed

text \<open>
  C5 as stated fails. The stored \<open>selectedChapterId\<close> is \<open>missing-chapter\<close>, which is
  the id of no chapter; the stored \<open>selectedBookId\<close> is \<open>b1\<close>, a book with the chapter
  \<open>ch1\<close>. The output's \<open>selectedChapterId\<close> is \<open>ch1\<close>, not \<^verbatim>\<open>undefined\<close>.
\<close>

theorem selectedChapterId_not_cleared:
  "normalizeUserData sampleClock staleChapterBlob =
     Inr (JObj
          [(str ''books'', JArr [JObj [strField ''id'' ''b1'']]),
           (str ''chapters'', JArr [JObj [strField ''id'' ''ch1'', strField ''bookId'' ''b1'']]),
           (str ''qas'', JArr []),
           (str ''history'', JArr []),
           (str ''aiCoach'', JObj
             [strField ''selectedBookId'' ''b1'',
              strField ''selectedChapterId'' ''ch1'',
              (str ''lastConfig'', JObj [(str ''count'', JNum (Fin 6)),
                  strField ''difficulty'' ''mixed'', strField ''style'' ''comprehension'']),
              (str ''generatedQuestions'', JArr []),
              (str ''draftAnswers'', JArr []),
              (str ''feedbackHistory'', JArr [])])])
   \<and> getOpt (getOpt staleChapterBlob ''aiCoach'') ''selectedChapterId'' = JStr (str ''missing-chapter'')
   \<and> JStr (str ''missing-chapter'') \<noteq> JStr (str ''ch1'')
   \<and> JStr (str ''ch1'') \<noteq> JUndefined"
  by (simp add: nu_defs staleChapterBlob_def)

text \<open>The fallback reads the \<open>id\<close> of the first chapter of the selected book, whatever
  it is: on \<open>unnamedChapterBlob\<close> that chapter has none, and the chapter pointer is
  \<^verbatim>\<open>undefined\<close> although the book has a second chapter with the id \<open>c2\<close>.\<close>

lemma selectedChapterId_first_chapter_unnamed:
  "normalizeUserData now unnamedChapterBlob =
     Inr (JObj
          [(str ''books'', JArr [JObj [strField ''id'' ''b1'']]),
           (str ''chapters'', JArr [JObj [strField ''bookId'' ''b1''],
                                    JObj [strField ''id'' ''c2'', strField ''bookId'' ''b1'']]),
           (str ''qas'', JArr []),
           (str ''history'', JArr []),
           (str ''aiCoach'', JObj
             [strField ''selectedBookId'' ''b1'',
              (str ''selectedChapterId'', JUndefined),
              (str ''lastConfig'', JObj [(str ''count'', JNum (Fin 6)),
                  strField ''difficulty'' ''mixed'', strField ''style'' ''comprehension'']),
              (str ''generatedQuestions'', JArr []),
              (str ''draftAnswers'', JArr []),
              (str ''feedbackHistory'', JArr [])])])"
  by (simp add: nu_defs unnamedChapterBlob_def)

lemmas out_defs = outBooks_def outChapters_def outQas_def outQuestions_def outDrafts_def
  outFeedback_def outSelectedBookId_def outSelectedChapterId_def

text \<open>The theorem C5 on the blob of the repository's test: the stored chapter pointer
  \<open>missing-chapter\<close> is replaced by \<open>ch1\<close>, the id of the first chapter of the selected
  book.\<close>

theorem normalizeUserData_selected_pointers_witness:
  "normalizeUserData sampleClock sampleBlob = Inr sampleBlobNormalized
   \<and> getOpt (getOpt sampleBlob ''aiCoach'') ''selectedBookId'' = JStr (str ''b1'')
   \<and> getOpt (getOpt sampleBlob ''aiCoach'') ''selectedChapterId'' = JStr (str ''missing-chapter'')
   \<and> outSelectedBookId sampleBlobNormalized = JStr (str ''b1'')
   \<and> outSelectedChapterId sampleBlobNormalized = JStr (str ''ch1'')"
proof -
  note t = normalizeUserData_selected_pointers [OF sampleBlob_normalized]
  have oc: "outChapters sampleBlobNormalized = [JObj [strField ''id'' ''ch1'', strField ''bookId'' ''b1'']]"
   and ob: "outBooks sampleBlobNormalized = [JObj [strField ''id'' ''b1'', strField ''title'' ''Book 1'']]"
    by (simp_all add: sampleBlobNormalized_def out_defs getOpt_def asArray_def str_simps strField_def)
  have sb: "getOpt (getOpt sampleBlob ''aiCoach'') ''selectedBookId'' = JStr (str ''b1'')"
   and sc: "getOpt (getOpt sampleBlob ''aiCoach'') ''selectedChapterId'' = JStr (str ''missing-chapter'')"
    by (simp_all add: sampleBlob_def getOpt_def str_simps strField_def)
  have "outSelectedBookId sampleBlobNormalized = JStr (str ''b1'')
      \<and> outSelectedChapterId sampleBlobNormalized = JStr (str ''ch1'')"
    using t unfolding oc ob sb sc
    by (simp add: getProp_def getOpt_def str_simps strField_def)
  then show ?thesis using sampleBlob_normalized sb sc by simp
qed

subsection \<open>Where the normaliser returns, and where it is idempotent\<close>

lemma filterE_total:
  "(\<And>x. x \<in> set xs \<Longrightarrow> \<exists>b. p x = Inr b) \<Longrightarrow> \<exists>ys. filterE p xs = Inr ys \<and> set ys \<subseteq> set xs"
proof (induction xs)
  case Nil
  then show ?case by simp
next
  case (Cons a xs)
  then obtain b ys where "p a = Inr b" "filterE p xs = Inr ys" "set ys \<subseteq> set xs"
    by (metis list.set_intros(1,2))
  then show ?case by (auto simp: bindE_def)
qed

lemma mapE_total:
  "(\<And>x. x \<in> set xs \<Longrightarrow> \<exists>y. f x = Inr y) \<Longrightarrow> \<exists>ys. mapE f xs = Inr ys"
proof (induction xs)
  case Nil
  then show ?case by simp
next
  case (Cons a xs)
  then obtain y ys where "f a = Inr y" "mapE f xs = Inr ys"
    by (metis list.set_intros(1,2))
  then show ?case by (auto simp: bindE_def)
qed

lemma mapiE_total:
  "(\<And>x j. x \<in> set xs \<Longrightarrow> \<exists>y. f j x = Inr y) \<Longrightarrow> \<exists>ys. mapiE f i xs = Inr ys"
proof (induction xs arbitrary: i)
  case Nil
  then show ?case by simp
next
  case (Cons a xs)
  from Cons.prems[of a i] obtain y where y: "f i a = Inr y" by auto
  from Cons.IH[of "Suc i"] Cons.prems obtain ys where "mapiE f (Suc i) xs = Inr ys"
    by (metis list.set_intros(2))
  with y show ?case by (auto simp: bindE_def)
qed

lemma getProp_total:
  "v \<noteq> JNull \<Longrightarrow> v \<noteq> JUndefined \<Longrightarrow> getProp v k = Inr (getOpt v k)"
  by (cases v) (simp_all add: getProp_def getOpt_def split: option.splits)

lemma toNumber_primitive: "isPrimitive v \<Longrightarrow> \<exists>n. toNumber v = Inr n"
  by (cases v) simp_all

lemma clampInt_total: "isPrimitive v \<Longrightarrow> \<exists>n. clampInt v a b c = Inr n"
  using toNumber_primitive[of v] by (auto simp: clampInt_def bindE_def split: jsnum.splits)

lemma clampStr_total: "isPrimitive v \<Longrightarrow> \<exists>r. clampStr v n = Inr r"
  by (cases v) (simp_all add: clampStr_def)

lemma nullish_primitive: "isPrimitive v \<Longrightarrow> isPrimitive (nullish v (JStr []))"
  by (simp add: nullish_def)

lemma isString_primitive: "isString v \<Longrightarrow> isPrimitive v"
  by (cases v) simp_all

lemma nonBlank_primitive: "nonBlankString v \<Longrightarrow> isPrimitive v"
  by (cases v) (simp_all add: nonBlankString_def)

lemma mkQuestion_total:
  assumes "keepQuestion ids q" "isPrimitive (getOpt q ''rubric'')"
  shows "\<exists>q'. mkQuestion now i q = Inr q'"
proof -
  from assms(1) have "isPrimitive (getOpt q ''question'')"
    by (simp add: keepQuestion_def nonBlank_primitive)
  from clampStr_total[OF this, of 500]
    clampStr_total[OF nullish_primitive[OF assms(2)], of 2000]
  show ?thesis by (auto simp: mkQuestion_def bindE_def)
qed

lemma mkDraft_total:
  assumes "keepDraft ids qids a"
  shows "\<exists>a'. mkDraft now i a = Inr a'"
proof -
  from assms(1) have "isPrimitive (getOpt a ''answer'')"
    by (simp add: keepDraft_def nonBlank_primitive)
  from clampStr_total[OF this, of 10000]
  show ?thesis by (auto simp: mkDraft_def bindE_def)
qed

lemma mkResult_total:
  assumes "keepResult r" "isPrimitive (getOpt r ''score'')" "isPrimitive (getOpt r ''feedback'')"
    "isPrimitive (getOpt r ''idealAnswer'')"
  shows "\<exists>r'. mkResult r = Inr r'"
proof -
  from assms(1) have "isPrimitive (getOpt r ''question'')" "isPrimitive (getOpt r ''studentAnswer'')"
    by (simp_all add: keepResult_def isString_primitive)
  from clampStr_total[OF this(1), of 500] clampStr_total[OF this(2), of 10000]
    clampInt_total[OF assms(2), of 0 100 0]
    clampStr_total[OF nullish_primitive[OF assms(3)], of 2000]
    clampStr_total[OF nullish_primitive[OF assms(4)], of 2000]
  show ?thesis by (auto simp: mkResult_def bindE_def)
qed

lemma mkFeedback_total:
  assumes "isPrimitive (getOpt e ''averageScore'')"
    and "\<forall>r \<in> set (asArray (getOpt e ''results'')).
           isPrimitive (getOpt r ''score'') \<and> isPrimitive (getOpt r ''feedback'') \<and>
           isPrimitive (getOpt r ''idealAnswer'')"
  shows "\<exists>e'. mkFeedback now i e = Inr e'"
proof -
  have "\<exists>rs. mapE mkResult (filter keepResult (asArray (getOpt e ''results''))) = Inr rs"
    by (rule mapE_total) (use assms(2) mkResult_total in auto)
  with clampInt_total[OF assms(1), of 0 100 0]
  show ?thesis by (auto simp: mkFeedback_def bindE_def)
qed

lemma lastConfig_total:
  assumes "isPrimitive (getOpt (getOpt ai ''lastConfig'') ''count'')"
  shows "\<exists>lc. lastConfig_of ai = Inr lc"
proof -
  have "getOpt (nullish (getOpt ai ''lastConfig'') (JObj [])) ''count''
          = getOpt (getOpt ai ''lastConfig'') ''count''"
    by (auto simp: nullish_def getOpt_def)
  with clampInt_total[OF assms, of 1 15 6]
  show ?thesis by (auto simp: lastConfig_of_def Let_def bindE_def)
qed

text \<open>
  Where the normaliser returns. The property reads that throw are those of the entries of
  \<open>books\<close>, \<open>chapters\<close> and \<open>qas\<close>; the conversions that throw are those of an object
  (or an array holding one) in a field that \<open>clampStr\<close> or \<open>clampInt\<close> is applied to. On a
  blob where no entry of these three lists is \<^verbatim>\<open>null\<close> or \<^verbatim>\<open>undefined\<close> and where the rubrics,
  scores, feedbacks, ideal answers and the configured count are primitive values (or
  absent), \<open>normalizeUserData\<close> returns a value.
\<close>

lemma normalizeUserData_returns_if:
  assumes bs: "\<forall>b \<in> set (asArray (getOpt raw ''books'')). b \<noteq> JNull \<and> b \<noteq> JUndefined"
    and cs: "\<forall>ch \<in> set (asArray (getOpt raw ''chapters'')). ch \<noteq> JNull \<and> ch \<noteq> JUndefined"
    and qs: "\<forall>qa \<in> set (asArray (getOpt raw ''qas'')). qa \<noteq> JNull \<and> qa \<noteq> JUndefined"
    and gq: "\<forall>q \<in> set (asArray (getOpt (getOpt raw ''aiCoach'') ''generatedQuestions'')).
               isPrimitive (getOpt q ''rubric'')"
    and fh: "\<forall>e \<in> set (asArray (getOpt (getOpt raw ''aiCoach'') ''feedbackHistory'')).
               isPrimitive (getOpt e ''averageScore'') \<and>
               (\<forall>r \<in> set (asArray (getOpt e ''results'')).
                  isPrimitive (getOpt r ''score'') \<and> isPrimitive (getOpt r ''feedback'') \<and>
                  isPrimitive (getOpt r ''idealAnswer''))"
    and lc: "isPrimitive (getOpt (getOpt (getOpt raw ''aiCoach'') ''lastConfig'') ''count'')"
  shows "\<exists>Y. normalizeUserData now raw = Inr Y"
proof -
  define ai where "ai = getOpt raw ''aiCoach''"
  have "\<exists>ids. bookIds_of (books_of raw) = Inr ids"
    unfolding bookIds_of_def books_of_def
    by (rule mapE_total) (use bs getProp_total in auto)
  then obtain bookIds where 1: "bookIds_of (books_of raw) = Inr bookIds" ..
  have "\<exists>ys. chapters_of raw bookIds = Inr ys \<and> set ys \<subseteq> set (asArray (getOpt raw ''chapters''))"
    unfolding chapters_of_def
    by (rule filterE_total) (use cs in \<open>auto simp: getProp_total bindE_def\<close>)
  then obtain chs where 2: "chapters_of raw bookIds = Inr chs"
    and s: "set chs \<subseteq> set (asArray (getOpt raw ''chapters''))" by blast
  have "\<exists>ids. chapterIds_of chs = Inr ids"
    unfolding chapterIds_of_def
    by (rule mapE_total) (use cs s getProp_total in auto)
  then obtain chapterIds where 3: "chapterIds_of chs = Inr chapterIds" ..
  have "\<exists>gqs. generatedQuestions_of now ai chapterIds = Inr gqs"
    unfolding generatedQuestions_of_def
    by (rule mapiE_total) (use gq mkQuestion_total in \<open>auto simp: ai_def\<close>)
  then obtain gqs where 4: "generatedQuestions_of now ai chapterIds = Inr gqs" ..
  have "\<exists>ds. draftAnswers_of now ai chapterIds (generatedQuestionIds_of gqs) = Inr ds"
    unfolding draftAnswers_of_def
    by (rule mapiE_total) (use mkDraft_total in auto)
  then obtain drafts where
    5: "draftAnswers_of now ai chapterIds (generatedQuestionIds_of gqs) = Inr drafts" ..
  have "\<exists>es. mapiE (mkFeedback now) 0
              (filter (keepFeedback bookIds chapterIds)
                 (asArray (getOpt ai ''feedbackHistory''))) = Inr es"
    by (rule mapiE_total) (use fh mkFeedback_total in \<open>auto simp: ai_def\<close>)
  then obtain fb where 6: "feedbackHistory_of now ai bookIds chapterIds = Inr fb"
    by (auto simp: feedbackHistory_of_def bindE_def)
  have "\<exists>ys. qas_of raw chapterIds = Inr ys \<and> set ys \<subseteq> set (asArray (getOpt raw ''qas''))"
    unfolding qas_of_def
    by (rule filterE_total) (use qs in \<open>auto simp: getProp_total bindE_def\<close>)
  then obtain qas where 7: "qas_of raw chapterIds = Inr qas" by blast
  from lastConfig_total[of ai] lc obtain l where 8: "lastConfig_of ai = Inr l"
    by (auto simp: ai_def)
  show ?thesis
    unfolding normalizeUserData_def Let_def ai_def[symmetric]
    by (simp add: bindE_def 1 2 3 4 5 6 7 8)
qed

lemma filterE_fix: "filterE p xs = Inr ys \<Longrightarrow> filterE p ys = Inr ys"
proof (induction xs arbitrary: ys)
  case Nil
  then show ?case by simp
next
  case (Cons a xs)
  from Cons.prems obtain b zs where b: "p a = Inr b" and zs: "filterE p xs = Inr zs"
    and ys: "ys = (if b then a # zs else zs)"
    by (auto simp: bindE_Inr_iff)
  from Cons.IH[OF zs] have "filterE p zs = Inr zs" .
  then show ?case using b ys by (cases b) (simp_all add: bindE_def)
qed

lemma mapE_fix: "(\<And>x. x \<in> set xs \<Longrightarrow> f x = Inr x) \<Longrightarrow> mapE f xs = Inr xs"
  by (induction xs) (simp_all add: bindE_def)

lemma mapiE_fix: "(\<And>x j. x \<in> set xs \<Longrightarrow> f j x = Inr x) \<Longrightarrow> mapiE f i xs = Inr xs"
  by (induction xs arbitrary: i) (simp_all add: bindE_def)

lemma clampStr_fix:
  assumes "clampStr v n = Inr r"
  shows "clampStr r n = Inr r" and "nullish r (JStr []) = r"
proof -
  have "clampStr r n = Inr r \<and> nullish r (JStr []) = r"
  proof (cases "truthy v")
    case False
    then show ?thesis using assms by (auto simp: clampStr_def nullish_def)
  next
    case True
    then show ?thesis using assms
      by (cases v)
         (auto simp: clampStr_def clampStrS_def sliceStr_def nullish_def bindE_Inr_iff
               split: if_splits)
  qed
  then show "clampStr r n = Inr r" and "nullish r (JStr []) = r" by simp_all
qed

lemma clampStr_string:
  "isString v \<Longrightarrow> \<exists>s. clampStr v n = Inr (JStr s)"
  by (cases v) (auto simp: clampStr_def)

lemma mathRound_int: "a \<in> \<int> \<Longrightarrow> mathRound a = a"
  by (auto simp: mathRound_def elim!: Ints_cases)

lemma clampInt_fix:
  assumes "clampInt v mn mx fb = Inr a" "mn \<in> \<int>" "mx \<in> \<int>" "fb \<in> \<int>" "mn \<le> fb" "fb \<le> mx"
  shows "clampInt (JNum (Fin a)) mn mx fb = Inr a"
proof -
  from assms(1) obtain x where x: "toNumber v = Inr x"
    and a: "(case x of Fin r \<Rightarrow> Inr (min mx (max mn (mathRound r))) | _ \<Rightarrow> Inr fb)
              = (Inr a :: error + real)"
    by (auto simp: clampInt_def bindE_Inr_iff)
  have "mathRound r \<in> \<int>" for r by (simp add: mathRound_def)
  then have i: "a \<in> \<int>" and b: "mn \<le> a" "a \<le> mx"
    using a assms(2-6) by (cases x; auto simp: min_def max_def)+
  show ?thesis using b by (simp add: clampInt_def bindE_def mathRound_int[OF i] min_def max_def)
qed

lemma nullish_fix: "nullish (nullish a (JStr s)) (JStr t) = nullish a (JStr s)"
  by (simp add: nullish_def)

lemma difficulty_fix:
  "isAIDifficulty (if isAIDifficulty d then d else JStr (str ''mixed''))"
  by (simp add: isAIDifficulty_def)

lemma style_fix:
  "isAIQuestionStyle (if isAIQuestionStyle d then d else JStr (str ''comprehension''))"
  by (simp add: isAIQuestionStyle_def)

lemma mkQuestion_fix:
  assumes m: "mkQuestion now i q = Inr q'"
  shows "mkQuestion now' j q' = Inr q'"
proof -
  from m obtain question rubric where
    c1: "clampStr (getOpt q ''question'') 500 = Inr question"
    and c2: "clampStr (nullish (getOpt q ''rubric'') (JStr [])) 2000 = Inr rubric"
    and q': "q' = JObj
         [(str ''id'', getOpt q ''id''),
          (str ''chapterId'', getOpt q ''chapterId''),
          (str ''question'', question),
          (str ''rubric'', rubric),
          (str ''createdAt'', nullish (getOpt q ''createdAt'') (JStr (now 0 i))),
          (str ''difficulty'',
             if isAIDifficulty (getOpt q ''difficulty'') then getOpt q ''difficulty''
             else JStr (str ''mixed'')),
          (str ''style'',
             if isAIQuestionStyle (getOpt q ''style'') then getOpt q ''style''
             else JStr (str ''comprehension''))]"
    by (auto simp: mkQuestion_def bindE_Inr_iff)
  have g: "getOpt q' ''id'' = getOpt q ''id''"
    "getOpt q' ''chapterId'' = getOpt q ''chapterId''"
    "getOpt q' ''question'' = question"
    "getOpt q' ''rubric'' = rubric"
    "getOpt q' ''createdAt'' = nullish (getOpt q ''createdAt'') (JStr (now 0 i))"
    "getOpt q' ''difficulty'' = (if isAIDifficulty (getOpt q ''difficulty'') then getOpt q ''difficulty''
             else JStr (str ''mixed''))"
    "getOpt q' ''style'' = (if isAIQuestionStyle (getOpt q ''style'') then getOpt q ''style''
             else JStr (str ''comprehension''))"
    unfolding q' by (simp_all add: getOpt_def str_simps)
  show ?thesis
    unfolding mkQuestion_def g clampStr_fix[OF c2] clampStr_fix[OF c1] nullish_fix
    using difficulty_fix style_fix
    by (simp add: bindE_def q')
qed

lemma keepQuestion_fix:
  assumes k: "keepQuestion ids q" and m: "mkQuestion now i q = Inr q'"
    and n: "nonBlankString (getOpt q' ''question'')"
  shows "keepQuestion ids q'"
proof -
  have "truthy q'" using m by (auto simp: mkQuestion_def bindE_Inr_iff)
  moreover have "getOpt q' ''id'' = getOpt q ''id''" "getOpt q' ''chapterId'' = getOpt q ''chapterId''"
    using m by (auto simp: mkQuestion_def bindE_Inr_iff getOpt_def str_simps)
  ultimately show ?thesis using k n by (simp add: keepQuestion_def)
qed

lemma mkDraft_fix:
  assumes m: "mkDraft now i a = Inr a'"
  shows "mkDraft now' j a' = Inr a'"
proof -
  from m obtain answer where
    c1: "clampStr (getOpt a ''answer'') 10000 = Inr answer"
    and a': "a' = JObj
         [(str ''chapterId'', getOpt a ''chapterId''),
          (str ''questionId'', getOpt a ''questionId''),
          (str ''answer'', answer),
          (str ''updatedAt'', nullish (getOpt a ''updatedAt'') (JStr (now 1 i)))]"
    by (auto simp: mkDraft_def bindE_Inr_iff)
  have g: "getOpt a' ''chapterId'' = getOpt a ''chapterId''"
    "getOpt a' ''questionId'' = getOpt a ''questionId''"
    "getOpt a' ''answer'' = answer"
    "getOpt a' ''updatedAt'' = nullish (getOpt a ''updatedAt'') (JStr (now 1 i))"
    unfolding a' by (simp_all add: getOpt_def str_simps)
  show ?thesis
    unfolding mkDraft_def g clampStr_fix[OF c1] nullish_fix
    by (simp add: bindE_def a')
qed

lemma keepDraft_fix:
  assumes k: "keepDraft ids qids a" and m: "mkDraft now i a = Inr a'"
    and n: "nonBlankString (getOpt a' ''answer'')"
  shows "keepDraft ids qids a'"
proof -
  have "truthy a'" using m by (auto simp: mkDraft_def bindE_Inr_iff)
  moreover have "getOpt a' ''chapterId'' = getOpt a ''chapterId''"
    "getOpt a' ''questionId'' = getOpt a ''questionId''"
    using m by (auto simp: mkDraft_def bindE_Inr_iff getOpt_def str_simps)
  ultimately show ?thesis using k n by (simp add: keepDraft_def)
qed

lemma mkResult_fix:
  assumes k: "keepResult r" and m: "mkResult r = Inr r'"
  shows "mkResult r' = Inr r'" and "keepResult r'"
proof -
  from m obtain question studentAnswer score feedback idealAnswer where
    c1: "clampStr (getOpt r ''question'') 500 = Inr question"
    and c2: "clampStr (getOpt r ''studentAnswer'') 10000 = Inr studentAnswer"
    and c3: "clampInt (getOpt r ''score'') 0 100 0 = Inr score"
    and c4: "clampStr (nullish (getOpt r ''feedback'') (JStr [])) 2000 = Inr feedback"
    and c5: "clampStr (nullish (getOpt r ''idealAnswer'') (JStr [])) 2000 = Inr idealAnswer"
    and r': "r' = JObj
         [(str ''questionId'', getOpt r ''questionId''),
          (str ''question'', question),
          (str ''studentAnswer'', studentAnswer),
          (str ''score'', JNum (Fin score)),
          (str ''feedback'', feedback),
          (str ''idealAnswer'', idealAnswer)]"
    by (auto simp: mkResult_def bindE_Inr_iff)
  have g: "getOpt r' ''questionId'' = getOpt r ''questionId''"
    "getOpt r' ''question'' = question"
    "getOpt r' ''studentAnswer'' = studentAnswer"
    "getOpt r' ''score'' = JNum (Fin score)"
    "getOpt r' ''feedback'' = feedback"
    "getOpt r' ''idealAnswer'' = idealAnswer"
    unfolding r' by (simp_all add: getOpt_def str_simps)
  have s: "clampInt (JNum (Fin score)) 0 100 0 = Inr score"
    by (rule clampInt_fix[OF c3]) simp_all
  show "mkResult r' = Inr r'"
    unfolding mkResult_def g clampStr_fix[OF c1] clampStr_fix[OF c2] clampStr_fix[OF c4]
      clampStr_fix[OF c5] s
    by (simp add: bindE_def r')
  from k have "isString (getOpt r ''question'')" "isString (getOpt r ''studentAnswer'')"
    "isString (getOpt r ''questionId'')"
    by (simp_all add: keepResult_def)
  with clampStr_string[of "getOpt r ''question''" 500]
    clampStr_string[of "getOpt r ''studentAnswer''" 10000] c1 c2
  have "isString question" "isString studentAnswer" by auto
  then show "keepResult r'"
    unfolding keepResult_def g using \<open>isString (getOpt r ''questionId'')\<close> by (simp add: r')
qed

lemma results_fix:
  assumes "mapE mkResult (filter keepResult rs) = Inr rs'"
  shows "mapE mkResult (filter keepResult rs') = Inr rs'"
proof -
  have a: "keepResult r' \<and> mkResult r' = Inr r'" if "r' \<in> set rs'" for r'
  proof -
    from mapE_Inr_D[OF assms that] obtain r where "keepResult r" "mkResult r = Inr r'" by auto
    then show ?thesis using mkResult_fix by blast
  qed
  then have "filter keepResult rs' = rs'" by (simp add: filter_id_conv)
  then show ?thesis using a by (simp add: mapE_fix)
qed

lemma mkFeedback_fix:
  assumes m: "mkFeedback now i e = Inr e'"
  shows "mkFeedback now' j e' = Inr e'"
proof -
  from m obtain averageScore results where
    c1: "clampInt (getOpt e ''averageScore'') 0 100 0 = Inr averageScore"
    and c2: "mapE mkResult (filter keepResult (asArray (getOpt e ''results''))) = Inr results"
    and e': "e' = JObj
         [(str ''id'', getOpt e ''id''),
          (str ''bookId'', getOpt e ''bookId''),
          (str ''chapterId'', getOpt e ''chapterId''),
          (str ''createdAt'', nullish (getOpt e ''createdAt'') (JStr (now 2 i))),
          (str ''difficulty'',
             if isAIDifficulty (getOpt e ''difficulty'') then getOpt e ''difficulty''
             else JStr (str ''mixed'')),
          (str ''style'',
             if isAIQuestionStyle (getOpt e ''style'') then getOpt e ''style''
             else JStr (str ''comprehension'')),
          (str ''averageScore'', JNum (Fin averageScore)),
          (str ''results'', JArr results)]"
    by (auto simp: mkFeedback_def bindE_Inr_iff)
  have g: "getOpt e' ''id'' = getOpt e ''id''"
    "getOpt e' ''bookId'' = getOpt e ''bookId''"
    "getOpt e' ''chapterId'' = getOpt e ''chapterId''"
    "getOpt e' ''createdAt'' = nullish (getOpt e ''createdAt'') (JStr (now 2 i))"
    "getOpt e' ''difficulty'' = (if isAIDifficulty (getOpt e ''difficulty'') then getOpt e ''difficulty''
             else JStr (str ''mixed''))"
    "getOpt e' ''style'' = (if isAIQuestionStyle (getOpt e ''style'') then getOpt e ''style''
             else JStr (str ''comprehension''))"
    "getOpt e' ''averageScore'' = JNum (Fin averageScore)"
    "getOpt e' ''results'' = JArr results"
    unfolding e' by (simp_all add: getOpt_def str_simps)
  have s: "clampInt (JNum (Fin averageScore)) 0 100 0 = Inr averageScore"
    by (rule clampInt_fix[OF c1]) simp_all
  have r: "mapE mkResult (filter keepResult (asArray (JArr results))) = Inr results"
    using results_fix[OF c2] by (simp add: asArray_def)
  show ?thesis
    unfolding mkFeedback_def g s r nullish_fix
    using difficulty_fix style_fix
    by (simp add: bindE_def e')
qed

lemma keepFeedback_fix:
  assumes k: "keepFeedback bids ids e" and m: "mkFeedback now i e = Inr e'"
  shows "keepFeedback bids ids e'"
proof -
  have "truthy e'" "isArray (getOpt e' ''results'')"
    using m by (auto simp: mkFeedback_def bindE_Inr_iff getOpt_def str_simps)
  moreover have "getOpt e' ''id'' = getOpt e ''id''" "getOpt e' ''chapterId'' = getOpt e ''chapterId''"
    "getOpt e' ''bookId'' = getOpt e ''bookId''"
    using m by (auto simp: mkFeedback_def bindE_Inr_iff getOpt_def str_simps)
  ultimately show ?thesis using k by (simp add: keepFeedback_def)
qed


lemma selected_fix:
  assumes b: "getOpt ai' ''selectedBookId'' = selectedBookId_of ai bookIds"
    and c: "getOpt ai' ''selectedChapterId'' =
              selectedChapterId_of ai chs (selectedBookId_of ai bookIds)"
  shows "selectedBookId_of ai' bookIds = selectedBookId_of ai bookIds"
    and "selectedChapterId_of ai' chs (selectedBookId_of ai bookIds) =
           selectedChapterId_of ai chs (selectedBookId_of ai bookIds)"
proof -
  show "selectedBookId_of ai' bookIds = selectedBookId_of ai bookIds"
    unfolding selectedBookId_of_def[of ai'] b by (simp add: selectedBookId_of_def)
  define sB where "sB = selectedBookId_of ai bookIds"
  define F where "F = (case find (\<lambda>ch. strictEq (getOpt ch ''bookId'') sB) chs of
                 Some ch \<Rightarrow> getOpt ch ''id'' | None \<Rightarrow> JUndefined)"
  define r where "r = selectedChapterIdRaw_of ai"
  define ex where "ex v \<longleftrightarrow> list_ex (\<lambda>ch. strictEq (getOpt ch ''bookId'') sB \<and>
                          strictEq (getOpt ch ''id'') v) chs" for v
  have sC: "selectedChapterId_of ai chs sB =
              (if truthy sB \<and> truthy r \<and> ex r then r else if truthy sB then F else JUndefined)"
    by (simp add: selectedChapterId_of_def Let_def r_def F_def ex_def)
  have r: "isString r \<or> r = JUndefined" by (simp add: r_def selectedChapterIdRaw_of_def)
  define r' where "r' = selectedChapterIdRaw_of ai'"
  have r': "r' = (if isString (selectedChapterId_of ai chs sB) then selectedChapterId_of ai chs sB
                  else JUndefined)"
    by (simp add: r'_def selectedChapterIdRaw_of_def c sB_def)
  have sC': "selectedChapterId_of ai' chs sB =
              (if truthy sB \<and> truthy r' \<and> ex r' then r' else if truthy sB then F else JUndefined)"
    by (simp add: selectedChapterId_of_def Let_def r'_def F_def ex_def)
  have "selectedChapterId_of ai' chs sB = selectedChapterId_of ai chs sB"
  proof (cases "truthy sB")
    case False
    then show ?thesis by (simp add: sC sC')
  next
    case sb: True
    show ?thesis
    proof (cases "truthy r \<and> ex r")
      case True
      then have "isString r" using r by auto
      then have "r' = r" using True sb by (simp add: r' sC)
      then show ?thesis using True sb by (simp add: sC sC')
    next
      case False
      then have e: "selectedChapterId_of ai chs sB = F" using sb by (auto simp: sC)
      then have "r' = (if isString F then F else JUndefined)" by (simp add: r')
      then show ?thesis using sb e by (auto simp: sC')
    qed
  qed
  then show "selectedChapterId_of ai' chs (selectedBookId_of ai bookIds) =
           selectedChapterId_of ai chs (selectedBookId_of ai bookIds)"
    by (simp add: sB_def)
qed

lemma lastConfig_fix:
  assumes l: "lastConfig_of ai = Inr lc" and g: "getOpt ai' ''lastConfig'' = lc"
  shows "lastConfig_of ai' = Inr lc"
proof -
  define raw where "raw = nullish (getOpt ai ''lastConfig'') (JObj [])"
  from l obtain count where
    c: "clampInt (getOpt raw ''count'') 1 15 6 = Inr count"
    and lc: "lc = JObj
             [(str ''count'', JNum (Fin count)),
              (str ''difficulty'',
                 if isAIDifficulty (getOpt raw ''difficulty'')
                 then getOpt raw ''difficulty'' else JStr (str ''mixed'')),
              (str ''style'',
                 if isAIQuestionStyle (getOpt raw ''style'')
                 then getOpt raw ''style'' else JStr (str ''comprehension''))]"
    by (auto simp: lastConfig_of_def Let_def bindE_Inr_iff raw_def)
  have n: "nullish lc (JObj []) = lc" by (simp add: lc nullish_def)
  have f: "getOpt lc ''count'' = JNum (Fin count)"
    "getOpt lc ''difficulty'' = (if isAIDifficulty (getOpt raw ''difficulty'')
                 then getOpt raw ''difficulty'' else JStr (str ''mixed''))"
    "getOpt lc ''style'' = (if isAIQuestionStyle (getOpt raw ''style'')
                 then getOpt raw ''style'' else JStr (str ''comprehension''))"
    unfolding lc by (simp_all add: getOpt_def str_simps)
  have s: "clampInt (JNum (Fin count)) 1 15 6 = Inr count"
    by (rule clampInt_fix[OF c]) simp_all
  show ?thesis
    unfolding lastConfig_of_def Let_def g n f s
    using difficulty_fix style_fix
    by (simp add: bindE_def lc)
qed

lemma asArray_JArr: "asArray (JArr xs) = xs"
  by (simp add: asArray_def)

lemma filter_idem: "filter P (filter P xs) = filter P xs"
  by (induction xs) auto

text \<open>
  Where the normaliser is idempotent. Every field that the first pass writes is a fixed
  point of the second pass, except the text of a generated question or of a draft answer
  that is white space after the cut: when each generated question and each draft answer
  of the normalised blob \<open>Y\<close> still has a text that is not blank, normalising \<open>Y\<close> again
  (at any later time) returns \<open>Y\<close>.
\<close>

lemma normalizeUserData_idempotent_if:
  assumes N: "normalizeUserData now raw = Inr Y"
    and nq: "\<forall>q \<in> set (outQuestions Y). nonBlankString (getOpt q ''question'')"
    and na: "\<forall>a \<in> set (outDrafts Y). nonBlankString (getOpt a ''answer'')"
  shows "normalizeUserData now' Y = Inr Y"
proof -
  define ai where "ai = getOpt raw ''aiCoach''"
  from N obtain bookIds chs chapterIds gqs drafts fb qs lc where
    b: "bookIds_of (books_of raw) = Inr bookIds"
    and c: "chapters_of raw bookIds = Inr chs"
    and ci: "chapterIds_of chs = Inr chapterIds"
    and g: "generatedQuestions_of now ai chapterIds = Inr gqs"
    and d: "draftAnswers_of now ai chapterIds (generatedQuestionIds_of gqs) = Inr drafts"
    and f: "feedbackHistory_of now ai bookIds chapterIds = Inr fb"
    and q: "qas_of raw chapterIds = Inr qs"
    and l: "lastConfig_of ai = Inr lc"
    and Y: "Y = JObj
          [(str ''books'', JArr (books_of raw)),
           (str ''chapters'', JArr chs),
           (str ''qas'', JArr qs),
           (str ''history'', JArr (history_of raw)),
           (str ''aiCoach'', JObj
             [(str ''selectedBookId'', selectedBookId_of ai bookIds),
              (str ''selectedChapterId'',
                 selectedChapterId_of ai chs (selectedBookId_of ai bookIds)),
              (str ''lastConfig'', lc),
              (str ''generatedQuestions'', JArr gqs),
              (str ''draftAnswers'', JArr drafts),
              (str ''feedbackHistory'', JArr fb)])]"
    unfolding ai_def by (rule normalizeUserData_Inr)
  note o = out_simps[OF Y]
  define ai' where "ai' = getOpt Y ''aiCoach''"
  have gY: "getOpt Y ''books'' = JArr (books_of raw)" "getOpt Y ''chapters'' = JArr chs"
    "getOpt Y ''qas'' = JArr qs" "getOpt Y ''history'' = JArr (history_of raw)"
    unfolding Y by (simp_all add: getOpt_def str_simps)
  have gA: "getOpt ai' ''selectedBookId'' = selectedBookId_of ai bookIds"
    "getOpt ai' ''selectedChapterId'' = selectedChapterId_of ai chs (selectedBookId_of ai bookIds)"
    "getOpt ai' ''lastConfig'' = lc"
    "getOpt ai' ''generatedQuestions'' = JArr gqs"
    "getOpt ai' ''draftAnswers'' = JArr drafts"
    "getOpt ai' ''feedbackHistory'' = JArr fb"
    unfolding ai'_def Y by (simp_all add: getOpt_def str_simps)
  have 1: "books_of Y = books_of raw"
    by (simp add: books_of_def[of Y] gY asArray_def)
  have 2: "chapters_of Y bookIds = Inr chs"
    using filterE_fix[OF c[unfolded chapters_of_def]] by (simp add: chapters_of_def gY asArray_def)
  have 3: "history_of Y = history_of raw"
    unfolding history_of_def[of Y] gY unfolding history_of_def
    by (simp only: asArray_def jsval.case filter_idem)
  have 4: "generatedQuestions_of now' ai' chapterIds = Inr gqs"
  proof -
    have a: "keepQuestion chapterIds q' \<and> mkQuestion now' j q' = Inr q'" if "q' \<in> set gqs" for q' j
    proof -
      from mapiE_Inr_D[OF g[unfolded generatedQuestions_of_def] that]
      obtain q0 i where "keepQuestion chapterIds q0" "mkQuestion now i q0 = Inr q'" by auto
      moreover have "nonBlankString (getOpt q' ''question'')" using nq that by (simp add: o)
      ultimately show ?thesis using keepQuestion_fix mkQuestion_fix by blast
    qed
    then have "filter (keepQuestion chapterIds) gqs = gqs" by (simp add: filter_id_conv)
    then show ?thesis using a by (simp add: generatedQuestions_of_def gA asArray_def mapiE_fix)
  qed
  have 5: "draftAnswers_of now' ai' chapterIds (generatedQuestionIds_of gqs) = Inr drafts"
  proof -
    have a: "keepDraft chapterIds (generatedQuestionIds_of gqs) a' \<and> mkDraft now' j a' = Inr a'"
      if "a' \<in> set drafts" for a' j
    proof -
      from mapiE_Inr_D[OF d[unfolded draftAnswers_of_def] that]
      obtain a0 i where "keepDraft chapterIds (generatedQuestionIds_of gqs) a0"
        "mkDraft now i a0 = Inr a'" by auto
      moreover have "nonBlankString (getOpt a' ''answer'')" using na that by (simp add: o)
      ultimately show ?thesis using keepDraft_fix mkDraft_fix by blast
    qed
    then have "filter (keepDraft chapterIds (generatedQuestionIds_of gqs)) drafts = drafts"
      by (simp add: filter_id_conv)
    then show ?thesis using a by (simp add: draftAnswers_of_def gA asArray_def mapiE_fix)
  qed
  have 6: "feedbackHistory_of now' ai' bookIds chapterIds = Inr fb"
  proof -
    from f obtain entries where
      m: "mapiE (mkFeedback now) 0
              (filter (keepFeedback bookIds chapterIds)
                 (asArray (getOpt ai ''feedbackHistory''))) = Inr entries"
      and fb: "fb = take 500 (filter (\<lambda>entry. length (asArray (getOpt entry ''results'')) > 0) entries)"
      by (auto simp: feedbackHistory_of_def bindE_Inr_iff sliceStr_def)
    have a: "keepFeedback bookIds chapterIds e' \<and> mkFeedback now' j e' = Inr e'
             \<and> length (asArray (getOpt e' ''results'')) > 0"
      if "e' \<in> set fb" for e' j
    proof -
      from that have e: "e' \<in> set entries" and n: "length (asArray (getOpt e' ''results'')) > 0"
        unfolding fb by (auto dest: in_set_takeD)
      from mapiE_Inr_D[OF m e]
      obtain e0 i where "keepFeedback bookIds chapterIds e0" "mkFeedback now i e0 = Inr e'" by auto
      then show ?thesis using keepFeedback_fix mkFeedback_fix n by blast
    qed
    then have k: "filter (keepFeedback bookIds chapterIds) fb = fb"
      and n: "filter (\<lambda>entry. length (asArray (getOpt entry ''results'')) > 0) fb = fb"
      by (simp_all add: filter_id_conv)
    have t: "take 500 fb = fb" unfolding fb by simp
    have "mapiE (mkFeedback now') 0 fb = Inr fb" using a by (simp add: mapiE_fix)
    then show ?thesis
      unfolding feedbackHistory_of_def gA asArray_JArr using k n t
      by (simp add: bindE_def sliceStr_def)
  qed
  note 7 = selected_fix[OF gA(1) gA(2)]
  have 8: "qas_of Y chapterIds = Inr qs"
    using filterE_fix[OF q[unfolded qas_of_def]] by (simp add: qas_of_def gY asArray_def)
  have 9: "lastConfig_of ai' = Inr lc"
    by (rule lastConfig_fix[OF l gA(3)])
  have "normalizeUserData now' Y = Inr (JObj
          [(str ''books'', JArr (books_of raw)),
           (str ''chapters'', JArr chs),
           (str ''qas'', JArr qs),
           (str ''history'', JArr (history_of raw)),
           (str ''aiCoach'', JObj
             [(str ''selectedBookId'', selectedBookId_of ai bookIds),
              (str ''selectedChapterId'',
                 selectedChapterId_of ai chs (selectedBookId_of ai bookIds)),
              (str ''lastConfig'', lc),
              (str ''generatedQuestions'', JArr gqs),
              (str ''draftAnswers'', JArr drafts),
              (str ''feedbackHistory'', JArr fb)])])"
    unfolding normalizeUserData_def Let_def ai'_def[symmetric] 1 3
    by (simp add: bindE_def b 2 ci 4 5 6 7 8 9)
  then show ?thesis unfolding Y[symmetric] .
qed

end
